theory Spec2Isabelle
  imports Main "HOL-Library.Word"
begin

unbundle bit_operations_syntax

text \<open>
  A shallow embedding of the PostgreSQL proxy of \<open>decryptor/postgresql/pg_decryptor.go\<close>:
  the synthesized error response, the handlers of the client side and of the database
  side, the column-decryption loop, the three-state loop of \<open>ProxyDatabaseConnection\<close>
  and the TLS upgrade. The definitions come first, the properties after them. Code of the
  repository that the file calls but that is not among the sources is either a parameter
  (the record \<open>env\<close>) or a definition marked as modelled from the spec.
\<close>

section \<open>Bytes, errors and connections\<close>

type_synonym byte = "8 word"

text \<open>Go's \<open>[]byte(s)\<close>: a Go string is a byte sequence, as an Isabelle \<open>string\<close> is.\<close>

definition bytes_of :: "string \<Rightarrow> byte list" where
  "bytes_of s = map of_char s"

text \<open>\<open>binary.BigEndian.PutUint32\<close> and its inverse \<open>binary.BigEndian.Uint32\<close>.\<close>

definition put_uint32 :: "32 word \<Rightarrow> byte list" where
  "put_uint32 v = [ucast (drop_bit 24 v), ucast (drop_bit 16 v), ucast (drop_bit 8 v), ucast v]"

fun uint32_be :: "byte list \<Rightarrow> 32 word" where
  "uint32_be [a, b, c, d] =
     push_bit 24 (ucast a) OR push_bit 16 (ucast b) OR push_bit 8 (ucast c) OR ucast d"
| "uint32_be _ = 0"

text \<open>
  The error values that travel through \<open>pg_decryptor.go\<close>. \<open>EncodingError\<close> is
  \<open>*base.EncodingError\<close> (its \<open>Error()\<close> text is the argument), \<open>KeyReadError\<close> stands for
  every error with \<open>filesystem.IsKeyReadError(err)\<close>, \<open>RuntimePanic\<close> is a Go run-time panic
  (an index out of range), which unwinds the goroutine instead of being returned.
\<close>

datatype error =
    EncodingError string
  | KeyReadError
  | IOError string
  | IncorrectCount nat nat
  | ErrNilPendingPacket
  | ErrUnsupportedPacketType
  | ErrStatementNotFound
  | ErrCursorNotFound
  | ErrStatementExists
  | ErrCursorExists
  | ErrNoPendingPacket
  | ErrEmptyTLSConfig
  | ErrCantStopGoroutine
  | OtherError string
  | RuntimePanic

fun Error :: "error \<Rightarrow> string" where
  "Error (EncodingError m) = m"
| "Error (IOError m) = m"
| "Error (OtherError m) = m"
| "Error ErrCantStopGoroutine = ''can't stop background goroutine''"
| "Error _ = ''error''"

text \<open>
  A \<open>net.Conn\<close> seen from its writer: the bytes the peer has received so far, and what
  the network does to the next \<open>Write\<close> calls. An entry \<open>(n, err)\<close> lets the next call
  transfer at most \<open>n\<close> bytes and return \<open>err\<close>; with no entry left every \<open>Write\<close>
  transfers its whole argument and returns \<open>nil\<close>.
\<close>

record conn =
  written :: "byte list"
  faults :: "(nat \<times> error option) list"

definition Write :: "conn \<Rightarrow> byte list \<Rightarrow> (nat \<times> error option) \<times> conn" where
  "Write c p =
     (case faults c of
        [] \<Rightarrow> ((length p, None), c\<lparr>written := written c @ p\<rparr>)
      | (n, e) # rest \<Rightarrow>
          ((min n (length p), e), c\<lparr>written := written c @ take n p, faults := rest\<rparr>))"

text \<open>
  Modelled from the spec: \<open>base.CheckReadWrite\<close> is not among the sources. The spec's
  framing rule (a partial transfer fails) gives it: the error of the call if there is one,
  an error of its own when the count differs from the expected one, \<open>nil\<close> otherwise.
\<close>

definition CheckReadWrite :: "nat \<Rightarrow> nat \<Rightarrow> error option \<Rightarrow> error option" where
  "CheckReadWrite n expectedN err =
     (case err of
        Some e \<Rightarrow> Some e
      | None \<Rightarrow> if n \<noteq> expectedN then Some (IncorrectCount n expectedN) else None)"

section \<open>The synthesized error response\<close>

definition ReadyForQuery :: "byte list" where
  "ReadyForQuery = [of_char CHR ''Z'', 0, 0, 0, 5, of_char CHR ''I'']"

definition TerminatePacket :: "byte list" where
  "TerminatePacket = [of_char CHR ''X'', 0, 0, 0, 4]"

text \<open>
  \<open>NewPgError\<close>, statement by statement: the buffer is allocated, cut back to the five
  header bytes, the fields are appended, and the length is written into bytes 1 to 4
  through \<open>uint32(len(output)-1)\<close>, which truncates to 32 bits.
\<close>

definition NewPgError :: "string \<Rightarrow> byte list \<times> error option" where
  "NewPgError message =
     (let output = replicate (5 + 7 + 7 + length message + 2) (0 :: byte);
          output = output[0 := of_char CHR ''E''];
          output = take 5 output;
          output = output @ [of_char CHR ''S'', of_char CHR ''E'', of_char CHR ''R'',
                             of_char CHR ''R'', of_char CHR ''O'', of_char CHR ''R'', 0];
          output = output @ bytes_of ''C42000'';
          output = output @ [0];
          output = output @ ([of_char CHR ''M''] @ bytes_of message);
          output = output @ [0, 0];
          output = take 1 output @ put_uint32 (of_nat (length output - 1)) @ drop 5 output
      in (output, None))"

text \<open>
  Modelled from the spec: the constant \<open>base.AcraCensorBlockedThisQuery\<close> is not among
  the sources; the spec's censored-query scenario gives its text.
\<close>

definition AcraCensorBlockedThisQuery :: string where
  "AcraCensorBlockedThisQuery = ''AcraCensor blocked this query''"

definition sendClientError :: "conn \<Rightarrow> string \<Rightarrow> error option \<times> conn" where
  "sendClientError clientConnection msg =
     (case NewPgError msg of
        (errorMessage, Some err) \<Rightarrow> (Some err, clientConnection)
      | (errorMessage, None) \<Rightarrow>
          (case Write clientConnection errorMessage of
             ((n, err), c1) \<Rightarrow>
               (case CheckReadWrite n (length errorMessage) err of
                  Some e \<Rightarrow> (Some e, c1)
                | None \<Rightarrow>
                    (case Write c1 ReadyForQuery of
                       ((n2, err2), c2) \<Rightarrow>
                         (case CheckReadWrite n2 (length ReadyForQuery) err2 of
                            Some e \<Rightarrow> (Some e, c2)
                          | None \<Rightarrow> (None, c2))))))"

section \<open>Packets, registries and the pending-query queue\<close>

text \<open>
  The decoded views of a packet that \<open>pg_decryptor.go\<close> works with. A nil pointer of the
  source is \<open>None\<close>. \<open>SQLStatement\<close> stands for the parser's opaque syntax tree.
\<close>

type_synonym SQLStatement = "string list"
type_synonym BoundValue = "byte list option"

record ParsePacket =
  Name :: string
  QueryString :: string
  params :: "byte list list"

record BindPacket =
  PortalName :: string
  StatementName :: string
  resultFormats :: "16 word list"
  boundValues :: "BoundValue list"

record ExecutePacket =
  portal :: string
  maxRows :: "32 word"

record ColumnEncryptionSetting =
  ColumnName :: string
  GetDBDataTypeID :: "32 word"

record QueryDataItem =
  Setting :: ColumnEncryptionSetting

record FieldDescription =
  FieldName :: "byte list"
  DataTypeOID :: "32 word"

record RowDescription =
  Fields :: "FieldDescription list"

record ParameterDescription =
  ParameterOIDs :: "32 word list"

text \<open>
  Modelled from the spec: the type \<open>ColumnData\<close> and its methods are not among the
  sources. A column of a DataRow is its four-byte wire length and its bytes; the spec
  gives the NULL column as the one whose wire length is -1, and has the loop write the
  new column bytes back.
\<close>

record ColumnData =
  LengthBuf :: "32 word"
  GetData :: "byte list"

definition IsNull :: "ColumnData \<Rightarrow> bool" where
  "IsNull column = (sint (LengthBuf column) = - 1)"

definition SetData :: "ColumnData \<Rightarrow> byte list \<Rightarrow> ColumnData" where
  "SetData column newData = column\<lparr>GetData := newData, LengthBuf := of_nat (length newData)\<rparr>"

text \<open>
  The fields of \<open>PacketHandler\<close> that \<open>pg_decryptor.go\<close> reads and writes:
  \<open>messageType[0]\<close>, the payload buffer \<open>descriptionBuf\<close>, \<open>terminatePacket\<close>,
  \<open>columnCount\<close> and \<open>Columns\<close> (a slice of pointers, so a column is updated in place).
\<close>

record PacketHandler =
  messageType :: byte
  descriptionBuf :: "byte list"
  terminatePacket :: bool
  columnCount :: nat
  Columns :: "ColumnData list"

definition Reset :: "PacketHandler" where
  "Reset = \<lparr>messageType = 0, descriptionBuf = [], terminatePacket = False,
            columnCount = 0, Columns = []\<rparr>"

text \<open>
  Modelled from the spec: the predicates of \<open>PacketHandler\<close> on the message type are not
  among the sources; the spec's table of packet types gives the type bytes.
\<close>

definition IsSimpleQuery :: "PacketHandler \<Rightarrow> bool" where
  "IsSimpleQuery packet = (messageType packet = of_char CHR ''Q'')"

definition IsParse :: "PacketHandler \<Rightarrow> bool" where
  "IsParse packet = (messageType packet = of_char CHR ''P'')"

definition IsBind :: "PacketHandler \<Rightarrow> bool" where
  "IsBind packet = (messageType packet = of_char CHR ''B'')"

definition IsExecute :: "PacketHandler \<Rightarrow> bool" where
  "IsExecute packet = (messageType packet = of_char CHR ''E'')"

definition IsDataRow :: "PacketHandler \<Rightarrow> bool" where
  "IsDataRow packet = (messageType packet = of_char CHR ''D'')"

definition IsRowDescription :: "PacketHandler \<Rightarrow> bool" where
  "IsRowDescription packet = (messageType packet = of_char CHR ''T'')"

definition IsParameterDescription :: "PacketHandler \<Rightarrow> bool" where
  "IsParameterDescription packet = (messageType packet = of_char CHR ''t'')"

definition IsReadyForQuery :: "PacketHandler \<Rightarrow> bool" where
  "IsReadyForQuery packet = (messageType packet = of_char CHR ''Z'')"

definition IsSSLRequestAllowed :: "PacketHandler \<Rightarrow> bool" where
  "IsSSLRequestAllowed packet = (messageType packet = of_char CHR ''S'')"

definition IsSSLRequestDeny :: "PacketHandler \<Rightarrow> bool" where
  "IsSSLRequestDeny packet = (messageType packet = of_char CHR ''N'')"

text \<open>
  Modelled from the spec: the framing layer (\<open>readMessageType\<close>, \<open>readData\<close>,
  \<open>ReadPacket\<close>, \<open>sendPacket\<close>, \<open>sendMessageType\<close>) is not among the sources. The spec
  gives it: the first server reply is read as the type byte alone; a regular packet is a
  type byte, a four-byte big-endian length that counts itself, and \<open>length - 4\<close> payload
  bytes; a short read fails; a packet is written with its length recomputed from the
  payload. The reader's input is the list of bytes the peer has sent and the proxy has
  not read yet; a read returns the packet and the input left.
\<close>

definition readMessageType :: "byte list \<Rightarrow> PacketHandler \<Rightarrow> error + (PacketHandler \<times> byte list)" where
  "readMessageType input packet =
     (case input of
        [] \<Rightarrow> Inl (IOError ''EOF'')
      | b # rest \<Rightarrow> Inr (packet\<lparr>messageType := b\<rparr>, rest))"

definition readData :: "byte list \<Rightarrow> PacketHandler \<Rightarrow> error + (PacketHandler \<times> byte list)" where
  "readData input packet =
     (if length input < 4 then Inl (IOError ''EOF'')
      else let n = unat (uint32_be (take 4 input)) in
        if n < 4 then Inl (IOError ''invalid packet length'')
        else if length input < n then Inl (IOError ''unexpected EOF'')
        else Inr (packet\<lparr>descriptionBuf := take (n - 4) (drop 4 input)\<rparr>, drop n input))"

definition ReadPacket :: "byte list \<Rightarrow> PacketHandler \<Rightarrow> error + (PacketHandler \<times> byte list)" where
  "ReadPacket input packet =
     (case readMessageType input packet of
        Inl err \<Rightarrow> Inl err
      | Inr (packet1, rest) \<Rightarrow> readData rest packet1)"

definition Marshal :: "PacketHandler \<Rightarrow> byte list" where
  "Marshal packet =
     [messageType packet] @ put_uint32 (of_nat (length (descriptionBuf packet) + 4))
       @ descriptionBuf packet"

definition sendPacket :: "conn \<Rightarrow> PacketHandler \<Rightarrow> error option \<times> conn" where
  "sendPacket writer packet =
     (case Write writer (Marshal packet) of
        ((n, err), writer1) \<Rightarrow> (CheckReadWrite n (length (Marshal packet)) err, writer1))"

definition sendMessageType :: "conn \<Rightarrow> PacketHandler \<Rightarrow> error option \<times> conn" where
  "sendMessageType writer packet =
     (case Write writer [messageType packet] of
        ((n, err), writer1) \<Rightarrow> (CheckReadWrite n 1 err, writer1))"

text \<open>
  Modelled from the spec: the registry of prepared statements and portals is not among
  the sources. The spec gives it: two mappings from a name to the entity; a lookup of an
  absent name is an error; an insertion fails if the name is present and not empty, and
  the entity of the empty name is always replaced.
\<close>

record PgPreparedStatement =
  statementName :: string
  QueryText :: string
  Query :: SQLStatement

record PgPortal =
  bind :: BindPacket
  PreparedStatement :: PgPreparedStatement

record PgPreparedStatementRegistry =
  statements :: "string \<rightharpoonup> PgPreparedStatement"
  cursors :: "string \<rightharpoonup> PgPortal"

definition NewPreparedStatementRegistry :: PgPreparedStatementRegistry where
  "NewPreparedStatementRegistry = \<lparr>statements = Map.empty, cursors = Map.empty\<rparr>"

definition NewPreparedStatement :: "string \<Rightarrow> string \<Rightarrow> SQLStatement \<Rightarrow> PgPreparedStatement" where
  "NewPreparedStatement name queryText query =
     \<lparr>statementName = name, QueryText = queryText, Query = query\<rparr>"

definition NewPortal :: "BindPacket \<Rightarrow> PgPreparedStatement \<Rightarrow> PgPortal" where
  "NewPortal bindPacket preparedStatement =
     \<lparr>bind = bindPacket, PreparedStatement = preparedStatement\<rparr>"

definition StatementByName ::
  "PgPreparedStatementRegistry \<Rightarrow> string \<Rightarrow> error + PgPreparedStatement" where
  "StatementByName registry name =
     (case statements registry name of
        None \<Rightarrow> Inl ErrStatementNotFound
      | Some s \<Rightarrow> Inr s)"

definition CursorByName :: "PgPreparedStatementRegistry \<Rightarrow> string \<Rightarrow> error + PgPortal" where
  "CursorByName registry name =
     (case cursors registry name of
        None \<Rightarrow> Inl ErrCursorNotFound
      | Some c \<Rightarrow> Inr c)"

definition AddStatement ::
  "PgPreparedStatementRegistry \<Rightarrow> PgPreparedStatement \<Rightarrow> error option \<times> PgPreparedStatementRegistry" where
  "AddStatement registry statement =
     (if statementName statement \<noteq> [] \<and> statements registry (statementName statement) \<noteq> None
      then (Some ErrStatementExists, registry)
      else (None, registry\<lparr>statements := (statements registry)(statementName statement \<mapsto> statement)\<rparr>))"

text \<open>
  A registered portal holds the pointer to its \<open>BindPacket\<close>, not a copy: a packet
  mutated in place after \<open>registerCursor\<close> is the portal's packet too. \<open>rebind\<close> writes
  the packet as mutated into the portal registered under a name.
\<close>

definition rebind ::
  "PgPreparedStatementRegistry \<Rightarrow> string \<Rightarrow> BindPacket \<Rightarrow> PgPreparedStatementRegistry" where
  "rebind registry name bindP =
     registry\<lparr>cursors := (cursors registry)
       (name := map_option (\<lambda>cursor. cursor\<lparr>bind := bindP\<rparr>) (cursors registry name))\<rparr>"

definition AddCursor ::
  "PgPreparedStatementRegistry \<Rightarrow> PgPortal \<Rightarrow> error option \<times> PgPreparedStatementRegistry" where
  "AddCursor registry cursor =
     (if PortalName (bind cursor) \<noteq> [] \<and> cursors registry (PortalName (bind cursor)) \<noteq> None
      then (Some ErrCursorExists, registry)
      else (None, registry\<lparr>cursors := (cursors registry)(PortalName (bind cursor) \<mapsto> cursor)\<rparr>))"

text \<open>
  Modelled from the spec: the pending-query queue and its entries are not among the
  sources. The spec gives them: a FIFO; an entry is made of a simple query's text, or of
  the prepared statement, the Bind and the Execute of an extended query; its SQL is the
  query's text, or the statement's; the head attributes the incoming DataRows, and a
  response without a head entry is a protocol violation.
\<close>

record queryPacket =
  bindPacket :: "BindPacket option"
  executePacket :: "ExecutePacket option"
  preparedStatement :: "PgPreparedStatement option"
  simpleQuery :: string

definition newQueryPacket :: "string \<Rightarrow> queryPacket" where
  "newQueryPacket query =
     \<lparr>bindPacket = None, executePacket = None, preparedStatement = None, simpleQuery = query\<rparr>"

definition newExtendedQueryPacket ::
  "PgPreparedStatement \<Rightarrow> BindPacket \<Rightarrow> ExecutePacket \<Rightarrow> queryPacket" where
  "newExtendedQueryPacket prepared bindP execute =
     \<lparr>bindPacket = Some bindP, executePacket = Some execute,
      preparedStatement = Some prepared, simpleQuery = []\<rparr>"

definition GetSQLQuery :: "queryPacket \<Rightarrow> string" where
  "GetSQLQuery q =
     (case preparedStatement q of
        Some prepared \<Rightarrow> QueryText prepared
      | None \<Rightarrow> simpleQuery q)"

definition Add :: "queryPacket list \<Rightarrow> queryPacket \<Rightarrow> error option \<times> queryPacket list" where
  "Add pending q = (None, pending @ [q])"

definition GetPendingPacket :: "queryPacket list \<Rightarrow> error + queryPacket" where
  "GetPendingPacket pending =
     (case pending of
        [] \<Rightarrow> Inl ErrNoPendingPacket
      | q # _ \<Rightarrow> Inr q)"

definition RemoveNextPendingPacket :: "queryPacket list \<Rightarrow> queryPacket list" where
  "RemoveNextPendingPacket pending = (case pending of [] \<Rightarrow> [] | _ # rest \<Rightarrow> rest)"

section \<open>The session and its collaborators\<close>

datatype PacketType =
    SimpleQueryPacket
  | ParseStatementPacket
  | BindStatementPacket
  | ExecutePacketType
  | DataPacket
  | RowDescriptionPacket
  | ParameterDescriptionPacket
  | ReadyForQueryPacket
  | OtherPacket

datatype ProxyError = ClientProxyError "error option" | DBProxyError "error option"

text \<open>
  What the encryptor keeps in the client session between packets: the per-column items of
  the running query (a slice, nil when none is registered) and the settings of the
  placeholders (looked up by index; an index without a setting gives nil, which is how
  the source goes on silently past a count mismatch).
\<close>

record ClientSession =
  QueryDataItems :: "QueryDataItem option list option"
  PlaceholderSettings :: "(nat \<Rightarrow> ColumnEncryptionSetting option) option"

text \<open>
  The state of one \<open>PgProxy\<close>. The fields of \<open>PgProtocolState\<close> (\<open>lastPacketType\<close>,
  \<open>pendingQueryPackets\<close>, \<open>registry\<close>) are kept beside those of the proxy: \<open>NewPgProxy\<close>
  hands the session's registry to the protocol state, so \<open>protocolState.registry\<close> and
  \<open>session.PreparedStatementRegistry()\<close> are one object, the field \<open>registry\<close>.
  \<open>clientSession\<close> is what \<open>ClientSessionFromContext\<close> returns (\<open>None\<close> for nil).
  \<open>dbInput\<close> holds what the reader of the database side (the \<open>bufio.Reader\<close> of
  \<open>ProxyDatabaseConnection\<close>) has still to deliver: the bytes the database has sent on
  the reader's connection and the proxy has not read yet,
  \<open>errCh\<close> the errors pushed on the session's error channel, \<open>ClientStopResponse\<close> the
  confirmations the ClientReader has sent, \<open>clientReaders\<close> counts the
  \<open>go proxy.ProxyClientConnection\<close> statements run, \<open>decrypted\<close> lists the columns handed
  to the column-decryption observer, and \<open>clientID\<close> is the identity last published.
\<close>

record PgProxy =
  clientConnection :: conn
  dbConnection :: conn
  dbInput :: "byte list"
  stopClient :: bool
  lastPacketType :: PacketType
  pendingQueryPackets :: "queryPacket list"
  registry :: PgPreparedStatementRegistry
  clientSession :: "ClientSession option"
  errCh :: "ProxyError list"
  ClientStopResponse :: "bool list"
  clientReaders :: nat
  decrypted :: "(nat \<times> byte list) list"
  clientID :: "string option"

record TLSConnectionWrapper =
  WrapClientConnection :: "conn \<Rightarrow> error + (conn \<times> string)"
  UseConnectionClientID :: bool
  WrapDBConnection :: "conn \<Rightarrow> error + conn"

text \<open>
  The collaborators and the parts of the packet codec whose code is outside the
  sources, as parameters: the censor, the query observers (which may register settings in
  the session), the SQL parser, the setting extractor, the column-decryption observer,
  the decoders and encoders of the packet payloads, the TLS wrapper, and what the
  environment answers to \<open>stopProxyClientConnection\<close>: the results of the two
  \<open>SetDeadline\<close> calls and the time in nanoseconds after which the ClientReader sends
  its confirmation (\<open>None\<close> when it never does; \<open>selectTimerFirst\<close> is the choice of
  \<open>select\<close> when the confirmation and the timer are ready together). \<open>dbTLSInput\<close>
  gives, for a wrapped database connection, the bytes that a reader created on it will
  read.
\<close>

record env =
  logDebug :: bool
  querySyntaxError :: "string \<Rightarrow> bool"
  HandleQuery :: "string \<Rightarrow> error option"
  OnQuery :: "ClientSession option \<Rightarrow> string \<Rightarrow> (string \<times> bool \<times> error option) \<times> ClientSession option"
  OnBind :: "ClientSession option \<Rightarrow> SQLStatement \<Rightarrow> BoundValue list
               \<Rightarrow> (BoundValue list \<times> bool \<times> error option) \<times> ClientSession option"
  Parse :: "string \<Rightarrow> error + SQLStatement"
  GetEncryptorSettingsForQuery :: "string \<Rightarrow> error + QueryDataItem option list option"
  OnColumnDecryption :: "nat \<Rightarrow> byte list \<Rightarrow> bool \<Rightarrow> ColumnEncryptionSetting option \<Rightarrow> error + byte list"
  HasTypeAwareSupport :: "ColumnEncryptionSetting \<Rightarrow> bool"
  mapEncryptedTypeToOID :: "32 word \<Rightarrow> 32 word \<times> bool"
  GetSimpleQuery :: "PacketHandler \<Rightarrow> error + string"
  GetParseData :: "PacketHandler \<Rightarrow> error + ParsePacket option"
  GetBindData :: "PacketHandler \<Rightarrow> error + BindPacket option"
  GetExecuteData :: "PacketHandler \<Rightarrow> error + ExecutePacket"
  GetRowDescriptionData :: "PacketHandler \<Rightarrow> error + RowDescription"
  GetParameterDescriptionData :: "PacketHandler \<Rightarrow> error + ParameterDescription"
  GetParameters :: "BindPacket \<Rightarrow> error + BoundValue list"
  SetParameters :: "BindPacket \<Rightarrow> BoundValue list \<Rightarrow> BindPacket"
  GetResultFormats :: "BindPacket \<Rightarrow> error + 16 word list"
  GetParameterFormatByIndex :: "nat \<Rightarrow> 16 word list \<Rightarrow> error + 16 word"
  ReplaceQuery :: "PacketHandler \<Rightarrow> string \<Rightarrow> PacketHandler"
  ReplaceBind :: "PacketHandler \<Rightarrow> BindPacket \<Rightarrow> error option \<times> PacketHandler"
  SetParsePacket :: "PacketHandler \<Rightarrow> ParsePacket \<Rightarrow> error option \<times> PacketHandler"
  parseColumns :: "PacketHandler \<Rightarrow> 16 word list \<Rightarrow> error + PacketHandler"
  updateDataFromColumns :: "PacketHandler \<Rightarrow> QueryDataItem option list option \<Rightarrow> PacketHandler"
  EncodeRowDescription :: "RowDescription \<Rightarrow> byte list"
  EncodeParameterDescription :: "ParameterDescription \<Rightarrow> byte list"
  TLSConnectionWrapper :: "TLSConnectionWrapper option"
  dbTLSInput :: "conn \<Rightarrow> byte list"
  setDeadlineNow :: "error option"
  stopResponseAfter :: "nat option"
  selectTimerFirst :: bool
  setDeadlineZero :: "error option"

text \<open>
  Modelled from the spec: \<open>PgProtocolState.HandleClientPacket\<close>,
  \<open>HandleDatabasePacket\<close> and the session helper
  \<open>DeletePlaceholderSettingsFromClientSession\<close> are not among the sources. The spec gives
  them: a client packet is classified by its type as SimpleQuery, Parse, Bind, Execute or
  other; a database packet as DataRow, RowDescription, ParameterDescription,
  ReadyForQuery or other; on ReadyForQuery the head of the queue is discarded, if there
  is one, and the per-query placeholder settings are cleared from the session.
\<close>

definition HandleClientPacket :: "PgProxy \<Rightarrow> PacketHandler \<Rightarrow> error option \<times> PgProxy" where
  "HandleClientPacket proxy packet =
     (if IsSimpleQuery packet then (None, proxy\<lparr>lastPacketType := SimpleQueryPacket\<rparr>)
      else if IsParse packet then (None, proxy\<lparr>lastPacketType := ParseStatementPacket\<rparr>)
      else if IsBind packet then (None, proxy\<lparr>lastPacketType := BindStatementPacket\<rparr>)
      else if IsExecute packet then (None, proxy\<lparr>lastPacketType := ExecutePacketType\<rparr>)
      else (None, proxy\<lparr>lastPacketType := OtherPacket\<rparr>))"

definition HandleDatabasePacket :: "PgProxy \<Rightarrow> PacketHandler \<Rightarrow> error option \<times> PgProxy" where
  "HandleDatabasePacket proxy packet =
     (if IsDataRow packet then (None, proxy\<lparr>lastPacketType := DataPacket\<rparr>)
      else if IsRowDescription packet then (None, proxy\<lparr>lastPacketType := RowDescriptionPacket\<rparr>)
      else if IsParameterDescription packet
        then (None, proxy\<lparr>lastPacketType := ParameterDescriptionPacket\<rparr>)
      else if IsReadyForQuery packet
        then (None, proxy\<lparr>lastPacketType := ReadyForQueryPacket,
                           pendingQueryPackets := RemoveNextPendingPacket (pendingQueryPackets proxy)\<rparr>)
      else (None, proxy\<lparr>lastPacketType := OtherPacket\<rparr>))"

definition DeletePlaceholderSettingsFromClientSession :: "ClientSession option \<Rightarrow> ClientSession option" where
  "DeletePlaceholderSettingsFromClientSession session =
     map_option (\<lambda>s. s\<lparr>PlaceholderSettings := None\<rparr>) session"

definition ByteaOID :: "32 word" where
  "ByteaOID = 17"

definition dataFormatText :: nat where
  "dataFormatText = 0"

definition dataFormatBinary :: nat where
  "dataFormatBinary = 1"

definition TextFormat :: "16 word" where
  "TextFormat = 0"

text \<open>\<open>ClientStopTimeout = time.Second * 2\<close>, a \<open>time.Duration\<close>, in nanoseconds.\<close>

definition ClientStopTimeout :: nat where
  "ClientStopTimeout = 1000000000 * 2"

section \<open>The client side: \<open>ProxyClientConnection\<close> and its handlers\<close>

text \<open>
  A handler of the source returns \<open>(bool, error)\<close> and mutates the proxy and the packet;
  the model returns the pair together with the proxy and the packet after the call.
\<close>

type_synonym handled = "(bool \<times> error option) \<times> PgProxy \<times> PacketHandler"

definition handleQueryPacket :: "env \<Rightarrow> PgProxy \<Rightarrow> PacketHandler \<Rightarrow> handled" where
  "handleQueryPacket env proxy packet =
     (case (if IsParse packet then
              (case GetParseData env packet of
                 Inl err \<Rightarrow> Inl err
               | Inr None \<Rightarrow> Inl RuntimePanic
               | Inr (Some parsePacket) \<Rightarrow> Inr (QueryString parsePacket))
            else if IsSimpleQuery packet then
              (case GetSimpleQuery env packet of
                 Inl err \<Rightarrow> Inl err
               | Inr query \<Rightarrow> Inr query)
            else Inl ErrUnsupportedPacketType) of
        Inl err \<Rightarrow> ((False, Some err), proxy, packet)
      | Inr query \<Rightarrow>
          (case (if logDebug env \<and> \<not> querySyntaxError env query
                    \<and> lastPacketType proxy = ParseStatementPacket
                 then (case GetParseData env packet of Inl err \<Rightarrow> Some err | Inr _ \<Rightarrow> None)
                 else None) of
             Some err \<Rightarrow> ((False, Some err), proxy, packet)
           | None \<Rightarrow>
               (case HandleQuery env query of
                  Some censorErr \<Rightarrow> ((True, None), proxy, packet)
                | None \<Rightarrow>
                    (case OnQuery env (clientSession proxy) query of
                       ((newQuery, changed, err), session1) \<Rightarrow>
                         if err = Some KeyReadError
                         then ((False, err), proxy\<lparr>clientSession := session1\<rparr>, packet)
                         else ((False, None), proxy\<lparr>clientSession := session1\<rparr>,
                               if changed then ReplaceQuery env packet newQuery else packet)))))"

definition registerPreparedStatement ::
  "env \<Rightarrow> PgProxy \<Rightarrow> PacketHandler \<Rightarrow> ParsePacket \<Rightarrow> error option \<times> PgProxy" where
  "registerPreparedStatement env proxy packet preparedStmt =
     (let name = Name preparedStmt;
          queryText = QueryString preparedStmt
      in case Parse env queryText of
           Inl err \<Rightarrow> (Some err, proxy)
         | Inr query \<Rightarrow>
             (let statement = NewPreparedStatement name queryText query
              in case AddStatement (registry proxy) statement of
                   (Some err, registry1) \<Rightarrow> (Some err, proxy\<lparr>registry := registry1\<rparr>)
                 | (None, registry1) \<Rightarrow> (None, proxy\<lparr>registry := registry1\<rparr>)))"

text \<open>
  The loop of \<open>replaceOIDsInParsePackets\<close> over the indices of the parameters;
  \<open>binary.BigEndian.PutUint32\<close> panics on a slice shorter than four bytes.
\<close>

fun replaceOIDsLoop ::
  "env \<Rightarrow> (nat \<Rightarrow> ColumnEncryptionSetting option) \<Rightarrow> nat list \<Rightarrow> byte list list \<times> bool
     \<Rightarrow> error + (byte list list \<times> bool)" where
  "replaceOIDsLoop env items [] acc = Inr acc"
| "replaceOIDsLoop env items (i # rest) (ps, changed) =
     (case items i of
        None \<Rightarrow> replaceOIDsLoop env items rest (ps, changed)
      | Some setting \<Rightarrow>
          if HasTypeAwareSupport env setting then
            (if length (ps ! i) < 4 then Inl RuntimePanic
             else replaceOIDsLoop env items rest
                    (ps[i := put_uint32 ByteaOID @ drop 4 (ps ! i)], True))
          else replaceOIDsLoop env items rest (ps, changed))"

definition replaceOIDsInParsePackets ::
  "env \<Rightarrow> ClientSession option \<Rightarrow> PacketHandler \<Rightarrow> ParsePacket \<Rightarrow> error option \<times> PacketHandler" where
  "replaceOIDsInParsePackets env ctx packet preparedStmt =
     (if length (params preparedStmt) = 0 then (None, packet)
      else case ctx of
        None \<Rightarrow> (None, packet)
      | Some session \<Rightarrow>
          (case PlaceholderSettings session of
             None \<Rightarrow> (None, packet)
           | Some items \<Rightarrow>
               (case replaceOIDsLoop env items [0..<length (params preparedStmt)]
                       (params preparedStmt, False) of
                  Inl err \<Rightarrow> (Some err, packet)
                | Inr (ps, changed) \<Rightarrow>
                    if changed then SetParsePacket env packet (preparedStmt\<lparr>params := ps\<rparr>)
                    else (None, packet))))"

definition registerCursor :: "PgProxy \<Rightarrow> BindPacket \<Rightarrow> error option \<times> PgProxy" where
  "registerCursor proxy bindP =
     (let statementName = StatementName bindP
      in case StatementByName (registry proxy) statementName of
           Inl err \<Rightarrow> (Some err, proxy)
         | Inr preparedStmt \<Rightarrow>
             (let cursor = NewPortal bindP preparedStmt
              in case AddCursor (registry proxy) cursor of
                   (Some err, registry1) \<Rightarrow> (Some err, proxy\<lparr>registry := registry1\<rparr>)
                 | (None, registry1) \<Rightarrow> (None, proxy\<lparr>registry := registry1\<rparr>)))"

text \<open>
  \<open>handleBindPacket\<close>. \<open>bind\<close> is the pointer that \<open>registerCursor\<close> has just stored
  in the portal, so \<open>bind.SetParameters\<close> changes the registered portal as well as the
  packet handed to \<open>ReplaceBind\<close>.
\<close>

definition handleBindPacket :: "env \<Rightarrow> PgProxy \<Rightarrow> PacketHandler \<Rightarrow> handled" where
  "handleBindPacket env proxy packet =
     (case GetBindData env packet of
        Inl err \<Rightarrow> ((False, Some err), proxy, packet)
      | Inr None \<Rightarrow> ((False, Some ErrNilPendingPacket), proxy, packet)
      | Inr (Some bindP) \<Rightarrow>
          (case registerCursor proxy bindP of
             (Some err, proxy1) \<Rightarrow> ((False, Some err), proxy1, packet)
           | (None, proxy1) \<Rightarrow>
               (case StatementByName (registry proxy1) (StatementName bindP) of
                  Inl err \<Rightarrow> ((False, None), proxy1, packet)
                | Inr statement \<Rightarrow>
                    (case GetParameters env bindP of
                       Inl err \<Rightarrow> ((False, None), proxy1, packet)
                     | Inr parameters \<Rightarrow>
                         (case OnBind env (clientSession proxy1) (Query statement) parameters of
                            ((newParameters, changed, Some err), session1) \<Rightarrow>
                              if err = KeyReadError
                              then ((False, Some err), proxy1\<lparr>clientSession := session1\<rparr>, packet)
                              else ((False, None), proxy1\<lparr>clientSession := session1\<rparr>, packet)
                          | ((newParameters, changed, None), session1) \<Rightarrow>
                              if changed then
                                (let bindP1 = SetParameters env bindP newParameters;
                                     proxy2 = proxy1\<lparr>clientSession := session1,
                                                registry := rebind (registry proxy1)
                                                              (PortalName bindP) bindP1\<rparr>
                                 in case ReplaceBind env packet bindP1 of
                                      (err, packet1) \<Rightarrow> ((False, None), proxy2, packet1))
                              else ((False, None), proxy1\<lparr>clientSession := session1\<rparr>, packet))))))"

definition handleClientPacket :: "env \<Rightarrow> PgProxy \<Rightarrow> PacketHandler \<Rightarrow> handled" where
  "handleClientPacket env proxy0 packet =
     (case HandleClientPacket proxy0 packet of
        (Some err, proxy) \<Rightarrow> ((False, Some err), proxy, packet)
      | (None, proxy) \<Rightarrow>
          (case lastPacketType proxy of
             ExecutePacketType \<Rightarrow>
               (case GetExecuteData env packet of
                  Inl err \<Rightarrow> ((False, Some err), proxy, packet)
                | Inr executeP \<Rightarrow>
                    (case CursorByName (registry proxy) (portal executeP) of
                       Inl err \<Rightarrow> ((False, Some err), proxy, packet)
                     | Inr pgCursor \<Rightarrow>
                         (let prepared = PreparedStatement pgCursor;
                              queryP = newExtendedQueryPacket prepared (bind pgCursor) executeP
                          in case Add (pendingQueryPackets proxy) queryP of
                               (Some err, pending1) \<Rightarrow>
                                 ((False, Some err), proxy\<lparr>pendingQueryPackets := pending1\<rparr>, packet)
                             | (None, pending1) \<Rightarrow>
                                 ((False, None), proxy\<lparr>pendingQueryPackets := pending1\<rparr>, packet))))
           | ParseStatementPacket \<Rightarrow>
               (case handleQueryPacket env proxy packet of
                  ((censored, Some err), proxy1, packet1) \<Rightarrow> ((censored, Some err), proxy1, packet1)
                | ((True, None), proxy1, packet1) \<Rightarrow> ((True, None), proxy1, packet1)
                | ((False, None), proxy1, packet1) \<Rightarrow>
                    (case GetParseData env packet1 of
                       Inl err \<Rightarrow> ((False, Some err), proxy1, packet1)
                     | Inr None \<Rightarrow> ((False, Some ErrNilPendingPacket), proxy1, packet1)
                     | Inr (Some pendingParse) \<Rightarrow>
                         (case registerPreparedStatement env proxy1 packet1 pendingParse of
                            (Some err, proxy2) \<Rightarrow> ((False, Some err), proxy2, packet1)
                          | (None, proxy2) \<Rightarrow>
                              (case replaceOIDsInParsePackets env (clientSession proxy2)
                                      packet1 pendingParse of
                                 (err, packet2) \<Rightarrow> ((False, err), proxy2, packet2)))))
           | SimpleQueryPacket \<Rightarrow>
               (case GetSimpleQuery env packet of
                  Inl err \<Rightarrow> ((False, Some err), proxy, packet)
                | Inr query \<Rightarrow>
                    (case Add (pendingQueryPackets proxy) (newQueryPacket query) of
                       (Some err, pending1) \<Rightarrow>
                         ((False, Some err), proxy\<lparr>pendingQueryPackets := pending1\<rparr>, packet)
                     | (None, pending1) \<Rightarrow>
                         handleQueryPacket env (proxy\<lparr>pendingQueryPackets := pending1\<rparr>) packet))
           | BindStatementPacket \<Rightarrow> handleBindPacket env proxy packet
           | _ \<Rightarrow> ((False, None), proxy, packet)))"

text \<open>
  One iteration of the loop of \<open>ProxyClientConnection\<close>, given what \<open>ReadClientPacket\<close>
  returned (its code is outside the sources): the iteration goes on to the next one, or
  the function returns, or the goroutine dies of a run-time panic.
\<close>

datatype 'a step = Continue 'a | Return 'a | Crash 'a

fun stepState :: "'a step \<Rightarrow> 'a" where
  "stepState (Continue s) = s"
| "stepState (Return s) = s"
| "stepState (Crash s) = s"

definition clientIteration :: "env \<Rightarrow> PgProxy \<Rightarrow> error + PacketHandler \<Rightarrow> PgProxy step" where
  "clientIteration env proxy readResult =
     (case readResult of
        Inl err \<Rightarrow>
          if stopClient proxy
          then Return (proxy\<lparr>stopClient := False,
                             ClientStopResponse := ClientStopResponse proxy @ [True]\<rparr>)
          else Return (proxy\<lparr>errCh := errCh proxy @ [ClientProxyError (Some err)]\<rparr>)
      | Inr packet \<Rightarrow>
          (case handleClientPacket env proxy packet of
             ((censored, Some err), proxy1, packet1) \<Rightarrow>
               if err = RuntimePanic then Crash proxy1
               else Return (proxy1\<lparr>errCh := errCh proxy1 @ [ClientProxyError (Some err)]\<rparr>)
           | ((censored, None), proxy1, packet1) \<Rightarrow>
               if censored then
                 (case sendClientError (clientConnection proxy1) AcraCensorBlockedThisQuery of
                    (Some err, client1) \<Rightarrow>
                      Return (proxy1\<lparr>clientConnection := client1,
                                      errCh := errCh proxy1 @ [ClientProxyError (Some err)]\<rparr>)
                  | (None, client1) \<Rightarrow> Continue (proxy1\<lparr>clientConnection := client1\<rparr>))
               else
                 (case sendPacket (dbConnection proxy1) packet1 of
                    (Some err, db1) \<Rightarrow>
                      Return (proxy1\<lparr>dbConnection := db1,
                                      errCh := errCh proxy1 @ [ClientProxyError (Some err)]\<rparr>)
                  | (None, db1) \<Rightarrow>
                      if terminatePacket packet1
                      then Return (proxy1\<lparr>dbConnection := db1,
                                          errCh := errCh proxy1 @ [ClientProxyError None]\<rparr>)
                      else Continue (proxy1\<lparr>dbConnection := db1\<rparr>))))"

text \<open>
  The loop, over the results of the successive reads; with no result left the goroutine
  is waiting in \<open>ReadClientPacket\<close>.
\<close>

fun ProxyClientConnection :: "env \<Rightarrow> PgProxy \<Rightarrow> (error + PacketHandler) list \<Rightarrow> PgProxy step" where
  "ProxyClientConnection env proxy [] = Continue proxy"
| "ProxyClientConnection env proxy (readResult # reads) =
     (case clientIteration env proxy readResult of
        Continue proxy1 \<Rightarrow> ProxyClientConnection env proxy1 reads
      | Return proxy1 \<Rightarrow> Return proxy1
      | Crash proxy1 \<Rightarrow> Crash proxy1)"

section \<open>The database side: \<open>ProxyDatabaseConnection\<close> and its handlers\<close>

text \<open>Indexing a Go slice: a run-time panic outside its bounds.\<close>

definition index :: "'a list \<Rightarrow> nat \<Rightarrow> error + 'a" where
  "index xs i = (if i < length xs then Inr (xs ! i) else Inl RuntimePanic)"

fun parameterOIDsLoop ::
  "env \<Rightarrow> (nat \<Rightarrow> ColumnEncryptionSetting option) \<Rightarrow> nat list \<Rightarrow> 32 word list \<times> bool
     \<Rightarrow> 32 word list \<times> bool" where
  "parameterOIDsLoop env items [] acc = acc"
| "parameterOIDsLoop env items (i # rest) (oids, changed) =
     (case items i of
        None \<Rightarrow> parameterOIDsLoop env items rest (oids, changed)
      | Some setting \<Rightarrow>
          if HasTypeAwareSupport env setting then
            (case mapEncryptedTypeToOID env (GetDBDataTypeID setting) of
               (newOID, ok) \<Rightarrow>
                 if ok then parameterOIDsLoop env items rest (oids[i := newOID], True)
                 else parameterOIDsLoop env items rest (oids, changed))
          else parameterOIDsLoop env items rest (oids, changed))"

definition handleParameterDescription ::
  "env \<Rightarrow> PgProxy \<Rightarrow> PacketHandler \<Rightarrow> error option \<times> PacketHandler" where
  "handleParameterDescription env proxy packet =
     (case clientSession proxy of
        None \<Rightarrow> (None, packet)
      | Some session \<Rightarrow>
          (case PlaceholderSettings session of
             None \<Rightarrow> (None, packet)
           | Some items \<Rightarrow>
               (case GetParameterDescriptionData env packet of
                  Inl err \<Rightarrow> (None, packet)
                | Inr parameterDescription \<Rightarrow>
                    (case parameterOIDsLoop env items
                            [0..<length (ParameterOIDs parameterDescription)]
                            (ParameterOIDs parameterDescription, False) of
                       (oids, changed) \<Rightarrow>
                         if changed then
                           (let newParameterDescription =
                                  EncodeParameterDescription env
                                    (parameterDescription\<lparr>ParameterOIDs := oids\<rparr>)
                            in (None, packet\<lparr>descriptionBuf := drop 5 newParameterDescription\<rparr>))
                         else (None, packet)))))"

fun rowFieldsLoop ::
  "env \<Rightarrow> QueryDataItem option list \<Rightarrow> nat list \<Rightarrow> FieldDescription list \<times> bool
     \<Rightarrow> error + (FieldDescription list \<times> bool)" where
  "rowFieldsLoop env items [] acc = Inr acc"
| "rowFieldsLoop env items (i # rest) (fds, changed) =
     (case index items i of
        Inl err \<Rightarrow> Inl err
      | Inr None \<Rightarrow> rowFieldsLoop env items rest (fds, changed)
      | Inr (Some setting) \<Rightarrow>
          if HasTypeAwareSupport env (Setting setting) then
            (case mapEncryptedTypeToOID env (GetDBDataTypeID (Setting setting)) of
               (newOID, ok) \<Rightarrow>
                 if ok then rowFieldsLoop env items rest
                              (fds[i := (fds ! i)\<lparr>DataTypeOID := newOID\<rparr>], True)
                 else rowFieldsLoop env items rest (fds, changed))
          else rowFieldsLoop env items rest (fds, changed))"

definition handleRowDescription ::
  "env \<Rightarrow> PgProxy \<Rightarrow> PacketHandler \<Rightarrow> error option \<times> PacketHandler" where
  "handleRowDescription env proxy packet =
     (case clientSession proxy of
        None \<Rightarrow> (None, packet)
      | Some session \<Rightarrow>
          (case QueryDataItems session of
             None \<Rightarrow> (None, packet)
           | Some items \<Rightarrow>
               (case GetRowDescriptionData env packet of
                  Inl err \<Rightarrow> (None, packet)
                | Inr rowDescription \<Rightarrow>
                    if length items \<noteq> length (Fields rowDescription) then (None, packet)
                    else
                      (case rowFieldsLoop env items [0..<length (Fields rowDescription)]
                              (Fields rowDescription, False) of
                         Inl err \<Rightarrow> (Some err, packet)
                       | Inr (fds, changed) \<Rightarrow>
                           if changed then
                             (let newRowDescription =
                                    EncodeRowDescription env (rowDescription\<lparr>Fields := fds\<rparr>)
                              in (None, packet\<lparr>descriptionBuf := drop 5 newRowDescription\<rparr>))
                           else (None, packet)))))"

text \<open>
  \<open>onColumnDecryption\<close> hands column \<open>i\<close> and its bytes to the column-decryption
  observer; the call is recorded in \<open>decrypted\<close>.
\<close>

definition onColumnDecryption ::
  "env \<Rightarrow> PgProxy \<Rightarrow> nat \<Rightarrow> byte list \<Rightarrow> bool \<Rightarrow> ColumnEncryptionSetting option
     \<Rightarrow> (error + byte list) \<times> PgProxy" where
  "onColumnDecryption env proxy i data binaryFormat encryptionSetting =
     (OnColumnDecryption env i data binaryFormat encryptionSetting,
      proxy\<lparr>decrypted := decrypted proxy @ [(i, data)]\<rparr>)"

text \<open>
  The loop of \<open>handleQueryDataPacket\<close> over the columns, from column \<open>i\<close> on. The guard
  of the setting lookup is the source's
  \<open>encryptionSettings != nil && i <= len(encryptionSettings) && encryptionSettings[i] != nil\<close>,
  evaluated from left to right.
\<close>

function columnsLoop ::
  "env \<Rightarrow> BindPacket option \<Rightarrow> QueryDataItem option list option \<Rightarrow> nat
     \<Rightarrow> PgProxy \<Rightarrow> PacketHandler \<Rightarrow> error option \<times> PgProxy \<times> PacketHandler" where
  "columnsLoop env bindP encryptionSettings i proxy packet =
     (if i < columnCount packet then
        (case index (Columns packet) i of
           Inl err \<Rightarrow> (Some err, proxy, packet)
         | Inr column \<Rightarrow>
             if IsNull column then columnsLoop env bindP encryptionSettings (Suc i) proxy packet
             else
               (case (case bindP of
                        None \<Rightarrow> Inr 0
                      | Some b \<Rightarrow>
                          (case GetParameterFormatByIndex env i (resultFormats b) of
                             Inl err \<Rightarrow> Inl err
                           | Inr boundFormat \<Rightarrow> Inr (unat boundFormat))) of
                  Inl err \<Rightarrow> (Some err, proxy, packet)
                | Inr format \<Rightarrow>
                    (case (case encryptionSettings of
                             None \<Rightarrow> Inr None
                           | Some settings \<Rightarrow>
                               if i \<le> length settings then
                                 (case index settings i of
                                    Inl err \<Rightarrow> Inl err
                                  | Inr None \<Rightarrow> Inr None
                                  | Inr (Some item) \<Rightarrow> Inr (Some (Setting item)))
                               else Inr None) of
                       Inl err \<Rightarrow> (Some err, proxy, packet)
                     | Inr encryptionSetting \<Rightarrow>
                         (case onColumnDecryption env proxy i (GetData column)
                                 (format = dataFormatBinary) encryptionSetting of
                            (Inl err, proxy1) \<Rightarrow> (Some err, proxy1, packet)
                          | (Inr newData, proxy1) \<Rightarrow>
                              columnsLoop env bindP encryptionSettings (Suc i) proxy1
                                (packet\<lparr>Columns := (Columns packet)[i := SetData column newData]\<rparr>)))))
      else (None, proxy, packet))"
  by pat_completeness auto
termination
  by (relation "measure (\<lambda>(env, bindP, encryptionSettings, i, proxy, packet). columnCount packet - i)")
     auto

declare columnsLoop.simps [simp del]

definition handleQueryDataPacket ::
  "env \<Rightarrow> PgProxy \<Rightarrow> PacketHandler \<Rightarrow> error option \<times> PgProxy \<times> PacketHandler" where
  "handleQueryDataPacket env proxy packet =
     (case GetPendingPacket (pendingQueryPackets proxy) of
        Inl err \<Rightarrow> (Some err, proxy, packet)
      | Inr pendingPacket \<Rightarrow>
          (case (if executePacket pendingPacket \<noteq> None then
                   (case bindPacket pendingPacket of
                      None \<Rightarrow> Inl RuntimePanic
                    | Some b \<Rightarrow>
                        (case GetResultFormats env b of
                           Inl err \<Rightarrow> Inl err
                         | Inr formats \<Rightarrow> Inr (Some b, formats)))
                 else Inr (None, [TextFormat])) of
             Inl err \<Rightarrow> (Some err, proxy, packet)
           | Inr (bindP, columnFormats) \<Rightarrow>
               (case parseColumns env packet columnFormats of
                  Inl err \<Rightarrow> (Some err, proxy, packet)
                | Inr packet1 \<Rightarrow>
                    if columnCount packet1 = 0 then (None, proxy, packet1)
                    else
                      (let sqlQuery = GetSQLQuery pendingPacket;
                           encryptionSettings =
                             (case GetEncryptorSettingsForQuery env sqlQuery of
                                Inl err \<Rightarrow> None
                              | Inr settings \<Rightarrow> settings)
                       in case columnsLoop env bindP encryptionSettings 0 proxy packet1 of
                            (Some err, proxy1, packet2) \<Rightarrow> (Some err, proxy1, packet2)
                          | (None, proxy1, packet2) \<Rightarrow>
                              (let queryDataItems =
                                     (case clientSession proxy1 of
                                        None \<Rightarrow> Some (replicate (columnCount packet2) None)
                                      | Some session \<Rightarrow> QueryDataItems session)
                               in (None, proxy1,
                                   updateDataFromColumns env packet2 queryDataItems))))))"

definition handleDatabasePacket ::
  "env \<Rightarrow> PgProxy \<Rightarrow> PacketHandler \<Rightarrow> error option \<times> PgProxy \<times> PacketHandler" where
  "handleDatabasePacket env proxy0 packet =
     (case HandleDatabasePacket proxy0 packet of
        (Some err, proxy) \<Rightarrow> (Some err, proxy, packet)
      | (None, proxy) \<Rightarrow>
          (case lastPacketType proxy of
             DataPacket \<Rightarrow> handleQueryDataPacket env proxy packet
           | RowDescriptionPacket \<Rightarrow>
               (case handleRowDescription env proxy packet of
                  (err, packet1) \<Rightarrow> (err, proxy, packet1))
           | ParameterDescriptionPacket \<Rightarrow>
               (case handleParameterDescription env proxy packet of
                  (err, packet1) \<Rightarrow> (err, proxy, packet1))
           | ReadyForQueryPacket \<Rightarrow>
               (None,
                proxy\<lparr>clientSession := DeletePlaceholderSettingsFromClientSession (clientSession proxy)\<rparr>,
                packet)
           | _ \<Rightarrow> (None, proxy, packet)))"

text \<open>
  The \<open>select\<close> of \<open>stopProxyClientConnection\<close>: the confirmation is received if the
  ClientReader sends it before the timer of \<open>ClientStopTimeout\<close> fires; when both are
  ready together \<open>select\<close> takes either.
\<close>

definition stopConfirmed :: "env \<Rightarrow> bool" where
  "stopConfirmed env =
     (case stopResponseAfter env of
        None \<Rightarrow> False
      | Some t \<Rightarrow> t < ClientStopTimeout \<or> (t = ClientStopTimeout \<and> \<not> selectTimerFirst env))"

text \<open>
  \<open>stopProxyClientConnection\<close>. The ClientReader sends its confirmation from the branch
  that has just reset \<open>stopClient\<close>, so the flag is false again once the confirmation is
  received.
\<close>

definition stopProxyClientConnection :: "env \<Rightarrow> PgProxy \<Rightarrow> error option \<times> PgProxy" where
  "stopProxyClientConnection env proxy =
     (let proxy1 = proxy\<lparr>stopClient := True\<rparr>
      in case setDeadlineNow env of
           Some err \<Rightarrow> (Some err, proxy1)
         | None \<Rightarrow>
             if stopConfirmed env then
               (let proxy2 = proxy1\<lparr>stopClient := False\<rparr>
                in case setDeadlineZero env of
                     Some err \<Rightarrow> (Some err, proxy2)
                   | None \<Rightarrow> (None, proxy2))
             else (Some ErrCantStopGoroutine, proxy1))"

definition handleSSLRequest ::
  "env \<Rightarrow> PgProxy \<Rightarrow> PacketHandler \<Rightarrow> (error + (conn \<times> conn)) \<times> PgProxy" where
  "handleSSLRequest env proxy packet =
     (case TLSConnectionWrapper env of
        None \<Rightarrow> (Inl ErrEmptyTLSConfig, proxy)
      | Some wrapper \<Rightarrow>
          (case stopProxyClientConnection env proxy of
             (Some err, proxy1) \<Rightarrow> (Inl err, proxy1)
           | (None, proxy1) \<Rightarrow>
               (case sendMessageType (clientConnection proxy1) packet of
                  (Some err, client1) \<Rightarrow> (Inl err, proxy1\<lparr>clientConnection := client1\<rparr>)
                | (None, client1) \<Rightarrow>
                    (let proxy2 = proxy1\<lparr>clientConnection := client1\<rparr>
                     in case WrapClientConnection wrapper (clientConnection proxy2) of
                          Inl err \<Rightarrow> (Inl err, proxy2)
                        | Inr (tlsClientConnection, newClientID) \<Rightarrow>
                            (let proxy3 = (if UseConnectionClientID wrapper
                                           then proxy2\<lparr>clientID := Some newClientID\<rparr>
                                           else proxy2)
                             in case WrapDBConnection wrapper (dbConnection proxy3) of
                                  Inl err \<Rightarrow> (Inl err, proxy3)
                                | Inr dbTLSConnection \<Rightarrow>
                                    (Inr (tlsClientConnection, dbTLSConnection), proxy3))))))"

datatype databaseHandlerState = stateFirstPacket | stateServe | stateSkipResponse

text \<open>
  One iteration of the loop of \<open>ProxyDatabaseConnection\<close> in a given state. An error
  pushed on the error channel ends the function; a run-time panic kills the goroutine.
  After a TLS upgrade the source replaces \<open>reader\<close> and \<open>writer\<close> by ones created on
  the wrapped connections and resets the handler: what the old reader had still to
  deliver is dropped, and the next reads take what comes over the wrapped database
  connection.
\<close>

definition dbIteration ::
  "env \<Rightarrow> PgProxy \<Rightarrow> databaseHandlerState \<Rightarrow> (PgProxy \<times> databaseHandlerState) step" where
  "dbIteration env proxy state =
     (case state of
        stateServe \<Rightarrow>
          (case ReadPacket (dbInput proxy) Reset of
             Inl err \<Rightarrow> Return (proxy\<lparr>errCh := errCh proxy @ [DBProxyError (Some err)]\<rparr>, state)
           | Inr (packet, rest) \<Rightarrow>
               (case handleDatabasePacket env (proxy\<lparr>dbInput := rest\<rparr>) packet of
                  (Some (EncodingError msg), proxy1, packet1) \<Rightarrow>
                    (case sendClientError (clientConnection proxy1) (Error (EncodingError msg)) of
                       (Some err, client1) \<Rightarrow>
                         Return (proxy1\<lparr>clientConnection := client1,
                                         errCh := errCh proxy1 @ [DBProxyError (Some err)]\<rparr>, state)
                     | (None, client1) \<Rightarrow>
                         Continue (proxy1\<lparr>clientConnection := client1\<rparr>, stateSkipResponse))
                | (Some err, proxy1, packet1) \<Rightarrow>
                    if err = RuntimePanic then Crash (proxy1, state)
                    else Return (proxy1\<lparr>errCh := errCh proxy1 @ [DBProxyError (Some err)]\<rparr>, state)
                | (None, proxy1, packet1) \<Rightarrow>
                    (case sendPacket (clientConnection proxy1) packet1 of
                       (Some err, client1) \<Rightarrow>
                         Return (proxy1\<lparr>clientConnection := client1,
                                         errCh := errCh proxy1 @ [DBProxyError (Some err)]\<rparr>, state)
                     | (None, client1) \<Rightarrow>
                         Continue (proxy1\<lparr>clientConnection := client1\<rparr>, state))))
      | stateFirstPacket \<Rightarrow>
          (case readMessageType (dbInput proxy) Reset of
             Inl err \<Rightarrow>
               Return (proxy\<lparr>errCh := errCh proxy @ [DBProxyError (Some err)]\<rparr>, stateServe)
           | Inr (packet, rest) \<Rightarrow>
               (let proxy0 = proxy\<lparr>dbInput := rest\<rparr> in
                if IsSSLRequestDeny packet then
                  (case stopProxyClientConnection env proxy0 of
                     (Some err, proxy1) \<Rightarrow>
                       Return (proxy1\<lparr>errCh := errCh proxy1 @ [DBProxyError (Some err)]\<rparr>, stateServe)
                   | (None, proxy1) \<Rightarrow>
                       (let proxy2 = proxy1\<lparr>clientReaders := Suc (clientReaders proxy1)\<rparr>
                        in case sendMessageType (clientConnection proxy2) packet of
                             (Some err, client1) \<Rightarrow>
                               Return (proxy2\<lparr>clientConnection := client1,
                                               errCh := errCh proxy2 @ [DBProxyError (Some err)]\<rparr>,
                                       stateServe)
                           | (None, client1) \<Rightarrow>
                               Continue (proxy2\<lparr>clientConnection := client1\<rparr>, stateServe)))
                else if IsSSLRequestAllowed packet then
                  (case handleSSLRequest env proxy0 packet of
                     (Inl err, proxy1) \<Rightarrow>
                       Return (proxy1\<lparr>errCh := errCh proxy1 @ [DBProxyError (Some err)]\<rparr>, stateServe)
                   | (Inr (tlsClientConnection, dbTLSConnection), proxy1) \<Rightarrow>
                       Continue (proxy1\<lparr>clientConnection := tlsClientConnection,
                                         dbConnection := dbTLSConnection,
                                         clientReaders := Suc (clientReaders proxy1),
                                         dbInput := dbTLSInput env dbTLSConnection\<rparr>, stateServe))
                else
                  (case readData (dbInput proxy0) packet of
                     Inl err \<Rightarrow>
                       Return (proxy0\<lparr>errCh := errCh proxy0 @ [DBProxyError (Some err)]\<rparr>, stateServe)
                   | Inr (packet1, rest1) \<Rightarrow>
                       (case sendPacket (clientConnection proxy0) packet1 of
                          (Some err, client1) \<Rightarrow>
                            Return (proxy0\<lparr>dbInput := rest1, clientConnection := client1,
                                            errCh := errCh proxy0 @ [DBProxyError (Some err)]\<rparr>,
                                    stateServe)
                        | (None, client1) \<Rightarrow>
                            Continue (proxy0\<lparr>dbInput := rest1, clientConnection := client1\<rparr>,
                                      stateServe)))))
      | stateSkipResponse \<Rightarrow>
          (case ReadPacket (dbInput proxy) Reset of
             Inl err \<Rightarrow> Return (proxy\<lparr>errCh := errCh proxy @ [DBProxyError (Some err)]\<rparr>, state)
           | Inr (packet, rest) \<Rightarrow>
               (let proxy0 = proxy\<lparr>dbInput := rest\<rparr>;
                    last = IsReadyForQuery packet
                in if last then
                     (case handleDatabasePacket env proxy0 packet of
                        (Some err, proxy1, packet1) \<Rightarrow>
                          if err = RuntimePanic then Crash (proxy1, stateServe)
                          else Return (proxy1\<lparr>errCh := errCh proxy1 @ [DBProxyError (Some err)]\<rparr>,
                                       stateServe)
                      | (None, proxy1, packet1) \<Rightarrow> Continue (proxy1, stateServe))
                   else Continue (proxy0, state))))"

text \<open>
  The loop, run for at most \<open>n\<close> iterations from a state: the result is where it stands
  then, or where it returned or died before.
\<close>

fun ProxyDatabaseConnection ::
  "env \<Rightarrow> nat \<Rightarrow> PgProxy \<Rightarrow> databaseHandlerState \<Rightarrow> (PgProxy \<times> databaseHandlerState) step" where
  "ProxyDatabaseConnection env 0 proxy state = Continue (proxy, state)"
| "ProxyDatabaseConnection env (Suc n) proxy state =
     (case dbIteration env proxy state of
        Continue (proxy1, state1) \<Rightarrow> ProxyDatabaseConnection env n proxy1 state1
      | Return r \<Rightarrow> Return r
      | Crash r \<Rightarrow> Crash r)"

section \<open>Concrete collaborators and sessions for the scenarios\<close>

text \<open>
  Collaborators that let everything pass: the censor allows, the observers change
  nothing, the parser accepts, no column is configured for encryption, the decoders
  find no payload of their kind, and the ClientReader confirms a stop at once.
\<close>

definition quietEnv :: env where
  "quietEnv =
     \<lparr>logDebug = False,
      querySyntaxError = (\<lambda>query. False),
      HandleQuery = (\<lambda>query. None),
      OnQuery = (\<lambda>session query. ((query, False, None), session)),
      OnBind = (\<lambda>session statement values. ((values, False, None), session)),
      Parse = (\<lambda>query. Inr [query]),
      GetEncryptorSettingsForQuery = (\<lambda>query. Inr None),
      OnColumnDecryption = (\<lambda>i data binaryFormat setting. Inr data),
      HasTypeAwareSupport = (\<lambda>setting. False),
      mapEncryptedTypeToOID = (\<lambda>t. (t, False)),
      GetSimpleQuery = (\<lambda>packet. Inl (OtherError ''no query'')),
      GetParseData = (\<lambda>packet. Inl (OtherError ''no parse data'')),
      GetBindData = (\<lambda>packet. Inl (OtherError ''no bind data'')),
      GetExecuteData = (\<lambda>packet. Inl (OtherError ''no execute data'')),
      GetRowDescriptionData = (\<lambda>packet. Inl (OtherError ''no row description'')),
      GetParameterDescriptionData = (\<lambda>packet. Inl (OtherError ''no parameter description'')),
      GetParameters = (\<lambda>b. Inr (boundValues b)),
      SetParameters = (\<lambda>b values. b\<lparr>boundValues := values\<rparr>),
      GetResultFormats = (\<lambda>b. Inr (resultFormats b)),
      GetParameterFormatByIndex = (\<lambda>i formats. Inr TextFormat),
      ReplaceQuery = (\<lambda>packet query. packet),
      ReplaceBind = (\<lambda>packet b. (None, packet)),
      SetParsePacket = (\<lambda>packet p. (None, packet)),
      parseColumns = (\<lambda>packet formats. Inr packet),
      updateDataFromColumns = (\<lambda>packet items. packet),
      EncodeRowDescription = (\<lambda>d. []),
      EncodeParameterDescription = (\<lambda>d. []),
      TLSConnectionWrapper = None,
      dbTLSInput = (\<lambda>c. []),
      setDeadlineNow = None,
      stopResponseAfter = Some 0,
      selectTimerFirst = False,
      setDeadlineZero = None\<rparr>"

definition freshProxy :: PgProxy where
  "freshProxy =
     \<lparr>clientConnection = \<lparr>written = [], faults = []\<rparr>,
      dbConnection = \<lparr>written = [], faults = []\<rparr>,
      dbInput = [],
      stopClient = False,
      lastPacketType = OtherPacket,
      pendingQueryPackets = [],
      registry = NewPreparedStatementRegistry,
      clientSession = Some \<lparr>QueryDataItems = None, PlaceholderSettings = None\<rparr>,
      errCh = [],
      ClientStopResponse = [],
      clientReaders = 0,
      decrypted = [],
      clientID = None\<rparr>"

text \<open>A regular-phase packet of a given type and payload, as the reader leaves it.\<close>

definition packetOf :: "char \<Rightarrow> byte list \<Rightarrow> PacketHandler" where
  "packetOf t payload = Reset\<lparr>messageType := of_char t, descriptionBuf := payload\<rparr>"

definition bindS1 :: BindPacket where
  "bindS1 = \<lparr>PortalName = ''p1'', StatementName = ''s1'', resultFormats = [], boundValues = []\<rparr>"

text \<open>
  A DataRow of two columns, the first NULL, and one of two columns that are not NULL; the
  column parser of the scenario returns the columns of either.
\<close>

definition nullColumn :: ColumnData where
  "nullColumn = \<lparr>LengthBuf = - 1, GetData = []\<rparr>"

definition columnA :: ColumnData where
  "columnA = \<lparr>LengthBuf = 1, GetData = [0x61]\<rparr>"

definition columnB :: ColumnData where
  "columnB = \<lparr>LengthBuf = 1, GetData = [0x62]\<rparr>"

definition dataRowNullB :: PacketHandler where
  "dataRowNullB =
     (packetOf CHR ''D'' [0, 2, 0xFF, 0xFF, 0xFF, 0xFF, 0, 0, 0, 1, 0x62])
       \<lparr>columnCount := 2, Columns := [nullColumn, columnB]\<rparr>"

definition dataRowAB :: PacketHandler where
  "dataRowAB =
     (packetOf CHR ''D'' [0, 2, 0, 0, 0, 1, 0x61, 0, 0, 0, 1, 0x62])
       \<lparr>columnCount := 2, Columns := [columnA, columnB]\<rparr>"

definition doublingEnv :: env where
  "doublingEnv = quietEnv\<lparr>OnColumnDecryption := (\<lambda>i data binaryFormat setting. Inr (data @ data))\<rparr>"

definition oneSettingEnv :: env where
  "oneSettingEnv =
     quietEnv\<lparr>parseColumns := (\<lambda>packet formats. Inr dataRowAB),
              GetEncryptorSettingsForQuery := (\<lambda>query. Inr (Some [None]))\<rparr>"

text \<open>
  A session for which the encryptor has registered the item of one result column, and a
  RowDescription whose payload (a field count of 65535 and nothing else) cannot be parsed.
\<close>

definition itemsProxy :: PgProxy where
  "itemsProxy =
     freshProxy\<lparr>clientSession := Some \<lparr>QueryDataItems = Some [None], PlaceholderSettings = None\<rparr>\<rparr>"

definition malformedRowDescription :: PacketHandler where
  "malformedRowDescription = packetOf CHR ''T'' [0xFF, 0xFF]"

text \<open>A column parser that reports a DataRow whose length header exceeds its payload.\<close>

definition brokenRowEnv :: env where
  "brokenRowEnv =
     quietEnv\<lparr>parseColumns := (\<lambda>packet formats. Inl (EncodingError ''invalid column length''))\<rparr>"

text \<open>
  Collaborators with a TLS wrapper: a wrapped connection is a fresh channel, and the
  client's certificate gives the identity \<open>client\<close>. In \<open>lateEnv\<close> the ClientReader
  confirms its stop only after three seconds.
\<close>

definition tlsEnv :: env where
  "tlsEnv =
     quietEnv\<lparr>TLSConnectionWrapper :=
       Some \<lparr>WrapClientConnection = (\<lambda>c. Inr (\<lparr>written = [], faults = []\<rparr>, ''client'')),
             UseConnectionClientID = True,
             WrapDBConnection = (\<lambda>c. Inr \<lparr>written = [], faults = []\<rparr>)\<rparr>\<rparr>"

definition lateEnv :: env where
  "lateEnv = tlsEnv\<lparr>stopResponseAfter := Some 3000000000\<rparr>"


text \<open>
  As \<open>tlsEnv\<close>, with a database that answers over the wrapped connection with an
  AuthenticationOk packet.
\<close>

definition tlsReplyEnv :: env where
  "tlsReplyEnv = tlsEnv\<lparr>dbTLSInput := (\<lambda>c. [0x52, 0, 0, 0, 8, 0, 0, 0, 0])\<rparr>"

text \<open>
  The pipelined scenario: Parse packets of the unnamed statement, whose payload tells the
  query; a Bind of the unnamed portal to the unnamed statement, whose value the encryptor
  rewrites; an Execute of the unnamed portal. \<open>pipelineProxy\<close> is the state of the
  session after Parse (SELECT 1), Describe, Flush, Bind, Parse (SELECT 2).
\<close>

definition unnamedParse :: "byte list \<Rightarrow> ParsePacket" where
  "unnamedParse payload =
     \<lparr>Name = [], QueryString = (if payload = [1] then ''SELECT 1'' else ''SELECT 2''),
      params = []\<rparr>"

definition unnamedBind :: BindPacket where
  "unnamedBind = \<lparr>PortalName = [], StatementName = [], resultFormats = [],
                  boundValues = [Some [7]]\<rparr>"

definition unnamedExecute :: ExecutePacket where
  "unnamedExecute = \<lparr>portal = [], maxRows = 0\<rparr>"

definition pipelineEnv :: env where
  "pipelineEnv =
     quietEnv\<lparr>GetParseData := (\<lambda>packet. Inr (Some (unnamedParse (descriptionBuf packet)))),
              GetBindData := (\<lambda>packet. Inr (Some unnamedBind)),
              GetExecuteData := (\<lambda>packet. Inr unnamedExecute),
              OnBind := (\<lambda>session statement vals. (([Some [0xEE]], True, None), session))\<rparr>"

definition pipelineProxy :: PgProxy where
  "pipelineProxy =
     freshProxy\<lparr>lastPacketType := ParseStatementPacket,
                dbConnection := \<lparr>written = [0x50, 0, 0, 0, 5, 1, 0x44, 0, 0, 0, 4,
                                             0x48, 0, 0, 0, 4, 0x42, 0, 0, 0, 4,
                                             0x50, 0, 0, 0, 5, 2],
                                  faults = []\<rparr>,
                registry :=
                  \<lparr>statements = [[] \<mapsto> NewPreparedStatement [] ''SELECT 2'' [''SELECT 2'']],
                   cursors = [[] \<mapsto> NewPortal (unnamedBind\<lparr>boundValues := [Some [0xEE]]\<rparr>)
                                       (NewPreparedStatement [] ''SELECT 1'' [''SELECT 1''])]\<rparr>\<rparr>"
section \<open>Properties of the synthesized error response\<close>

lemma uint32_be_put_uint32: "uint32_be (put_uint32 w) = w"
  unfolding put_uint32_def uint32_be.simps
proof (rule bit_word_eqI)
  fix n assume n: "n < LENGTH(32)"
  consider "n < 8" | "8 \<le> n" "n < 16" | "16 \<le> n" "n < 24" | "24 \<le> n" by linarith
  then show "bit (push_bit 24 (ucast (ucast (drop_bit 24 w) :: byte))
               OR push_bit 16 (ucast (ucast (drop_bit 16 w) :: byte))
               OR push_bit 8 (ucast (ucast (drop_bit 8 w) :: byte))
               OR ucast (ucast w :: byte) :: 32 word) n = bit w n"
    using n by cases (auto simp add: bit_simps)
qed

lemma length_put_uint32: "length (put_uint32 w) = 4"
  by (simp add: put_uint32_def)

lemma take_one_replicate_update:
  "0 < k \<Longrightarrow> take (Suc 0) ((replicate k a)[0 := x]) = [x]"
  by (cases k) simp_all

lemma unat_of_nat_32: "k < 2 ^ 32 \<Longrightarrow> unat (of_nat k :: 32 word) = k"
  by (simp add: unat_of_nat)

lemma NewPgError_layout:
  "NewPgError msg =
     ([0x45] @ put_uint32 (of_nat (length msg + 21)) @ bytes_of ''SERROR'' @ [0]
        @ bytes_of ''C42000'' @ [0] @ [0x4D] @ bytes_of msg @ [0] @ [0], None)"
  by (simp add: NewPgError_def Let_def bytes_of_def take_one_replicate_update ac_simps)

lemma length_NewPgError: "length (fst (NewPgError msg)) = length msg + 22"
  by (simp add: NewPgError_layout length_put_uint32 bytes_of_def)

lemma Write_whole:
  "Write c p = ((n, None), c') \<Longrightarrow> n = length p \<Longrightarrow> written c' = written c @ p"
  by (auto simp add: Write_def split: list.splits prod.splits)

lemma Write_no_faults:
  "faults c = [] \<Longrightarrow> Write c p = ((length p, None), c\<lparr>written := written c @ p\<rparr>)"
  by (simp add: Write_def)

lemma CheckReadWrite_None:
  "CheckReadWrite n m err = None \<longleftrightarrow> err = None \<and> n = m"
  by (simp add: CheckReadWrite_def split: option.splits)

lemma sendClientError_success:
  assumes "sendClientError c msg = (None, c')"
  shows "written c' = written c @ fst (NewPgError msg) @ ReadyForQuery"
proof -
  obtain pkt where pkt: "NewPgError msg = (pkt, None)"
    by (simp add: NewPgError_layout)
  obtain n e c1 where w1: "Write c pkt = ((n, e), c1)"
    by (metis prod.exhaust)
  obtain n2 e2 c2 where w2: "Write c1 ReadyForQuery = ((n2, e2), c2)"
    by (metis prod.exhaust)
  from assms pkt w1 have ok1: "CheckReadWrite n (length pkt) e = None"
    by (auto simp add: sendClientError_def split: option.splits)
  with assms pkt w1 w2 have ok2: "CheckReadWrite n2 (length ReadyForQuery) e2 = None" and c': "c' = c2"
    by (auto simp add: sendClientError_def split: option.splits)
  from ok1 w1 have "written c1 = written c @ pkt"
    by (auto simp add: CheckReadWrite_None dest: Write_whole)
  moreover from ok2 w2 have "written c2 = written c1 @ ReadyForQuery"
    by (auto simp add: CheckReadWrite_None dest: Write_whole)
  ultimately show ?thesis using pkt c' by simp
qed

lemma sendClientError_no_faults:
  assumes "faults c = []"
  shows "sendClientError c msg =
           (None, c\<lparr>written := written c @ fst (NewPgError msg) @ ReadyForQuery\<rparr>)"
proof -
  obtain pkt where pkt: "NewPgError msg = (pkt, None)"
    by (simp add: NewPgError_layout)
  have w1: "Write c pkt = ((length pkt, None), c\<lparr>written := written c @ pkt\<rparr>)"
    using assms by (rule Write_no_faults)
  have w2: "Write (c\<lparr>written := written c @ pkt\<rparr>) ReadyForQuery =
              ((length ReadyForQuery, None), c\<lparr>written := written c @ pkt @ ReadyForQuery\<rparr>)"
    using assms by (simp add: Write_def)
  show ?thesis
    by (simp add: sendClientError_def pkt w1 w2 CheckReadWrite_def)
qed

text \<open>
  C1. The response synthesized for a blocked query: whenever \<open>sendClientError\<close> succeeds
  (it does when the network does not fail), the client has received exactly one
  ErrorResponse, made of the type byte \<open>E\<close> (0x45), a big-endian length, \<open>S\<close>\<open>ERROR\<close>,
  \<open>C\<close>\<open>42000\<close>, \<open>M\<close> and the supplied message, each field ended by a null byte, and one
  trailing null byte, followed at once by the six bytes 5A 00 00 00 05 49. The length field
  reads as the number of bytes of the ErrorResponse minus the type byte; the field is the
  32-bit truncation \<open>uint32(len(output)-1)\<close>, exact for every message below 4 GiB, as the
  fixed censor message is.
\<close>

theorem sendClientError_response:
  assumes "length msg + 21 < 2 ^ 32"
  shows "(faults c = [] \<longrightarrow> fst (sendClientError c msg) = None)
       \<and> (sendClientError c msg = (None, c') \<longrightarrow>
            written c' = written c @ fst (NewPgError msg) @ [0x5A, 0, 0, 0, 5, 0x49])
       \<and> fst (NewPgError msg) =
            [0x45] @ take 4 (drop 1 (fst (NewPgError msg))) @ bytes_of ''SERROR'' @ [0]
              @ bytes_of ''C42000'' @ [0] @ [0x4D] @ bytes_of msg @ [0] @ [0]
       \<and> unat (uint32_be (take 4 (drop 1 (fst (NewPgError msg)))))
            = length (fst (NewPgError msg)) - 1"
proof (intro conjI impI)
  assume "faults c = []"
  then show "fst (sendClientError c msg) = None"
    by (simp add: sendClientError_no_faults)
next
  assume "sendClientError c msg = (None, c')"
  then have "written c' = written c @ fst (NewPgError msg) @ ReadyForQuery"
    by (rule sendClientError_success)
  then show "written c' = written c @ fst (NewPgError msg) @ [0x5A, 0, 0, 0, 5, 0x49]"
    by (simp add: ReadyForQuery_def)
next
  show "fst (NewPgError msg) =
          [0x45] @ take 4 (drop 1 (fst (NewPgError msg))) @ bytes_of ''SERROR'' @ [0]
            @ bytes_of ''C42000'' @ [0] @ [0x4D] @ bytes_of msg @ [0] @ [0]"
    by (simp add: NewPgError_layout length_put_uint32)
next
  have "take 4 (drop 1 (fst (NewPgError msg))) = put_uint32 (of_nat (length msg + 21))"
    by (simp add: NewPgError_layout length_put_uint32)
  then have "unat (uint32_be (take 4 (drop 1 (fst (NewPgError msg)))))
               = unat (of_nat (length msg + 21) :: 32 word)"
    by (simp only: uint32_be_put_uint32)
  also have "\<dots> = length msg + 21"
    using assms by (rule unat_of_nat_32)
  finally show "unat (uint32_be (take 4 (drop 1 (fst (NewPgError msg)))))
                  = length (fst (NewPgError msg)) - 1"
    by (simp add: length_NewPgError)
qed

theorem sendClientError_response_witness:
  "sendClientError \<lparr>written = [], faults = []\<rparr> AcraCensorBlockedThisQuery =
     (None, \<lparr>written = [0x45, 0, 0, 0, 0x32] @ bytes_of ''SERROR'' @ [0]
               @ bytes_of ''C42000'' @ [0] @ bytes_of ''MAcraCensor blocked this query''
               @ [0, 0, 0x5A, 0, 0, 0, 5, 0x49], faults = []\<rparr>)
   \<and> unat (uint32_be [0, 0, 0, 0x32]) = length (fst (NewPgError AcraCensorBlockedThisQuery)) - 1"
proof -
  have len: "length AcraCensorBlockedThisQuery + 21 < (2::nat) ^ 32"
    by (simp add: AcraCensorBlockedThisQuery_def)
  have run: "sendClientError \<lparr>written = [], faults = []\<rparr> AcraCensorBlockedThisQuery =
     (None, \<lparr>written = [0x45, 0, 0, 0, 0x32] @ bytes_of ''SERROR'' @ [0]
               @ bytes_of ''C42000'' @ [0] @ bytes_of ''MAcraCensor blocked this query''
               @ [0, 0, 0x5A, 0, 0, 0, 5, 0x49], faults = []\<rparr>)"
    by (simp add: sendClientError_no_faults NewPgError_layout ReadyForQuery_def
        AcraCensorBlockedThisQuery_def bytes_of_def put_uint32_def)
  have fld: "take 4 (drop 1 (fst (NewPgError AcraCensorBlockedThisQuery))) = [0, 0, 0, 0x32]"
    by (simp add: NewPgError_layout AcraCensorBlockedThisQuery_def put_uint32_def)
  from sendClientError_response [OF len, of "\<lparr>written = [], faults = []\<rparr>" undefined]
  have "unat (uint32_be (take 4 (drop 1 (fst (NewPgError AcraCensorBlockedThisQuery)))))
          = length (fst (NewPgError AcraCensorBlockedThisQuery)) - 1"
    by blast
  with run fld show ?thesis by simp
qed

section \<open>Properties of the client side\<close>

lemma HandleClientPacket_SimpleQuery:
  "IsSimpleQuery packet \<Longrightarrow>
     HandleClientPacket proxy packet = (None, proxy\<lparr>lastPacketType := SimpleQueryPacket\<rparr>)"
  by (simp add: HandleClientPacket_def)

lemma HandleClientPacket_Parse:
  "IsParse packet \<Longrightarrow>
     HandleClientPacket proxy packet = (None, proxy\<lparr>lastPacketType := ParseStatementPacket\<rparr>)"
  by (simp add: HandleClientPacket_def IsParse_def IsSimpleQuery_def)

lemma HandleClientPacket_Bind:
  "IsBind packet \<Longrightarrow>
     HandleClientPacket proxy packet = (None, proxy\<lparr>lastPacketType := BindStatementPacket\<rparr>)"
  by (simp add: HandleClientPacket_def IsBind_def IsParse_def IsSimpleQuery_def)

lemma HandleClientPacket_Execute:
  "IsExecute packet \<Longrightarrow>
     HandleClientPacket proxy packet = (None, proxy\<lparr>lastPacketType := ExecutePacketType\<rparr>)"
  by (simp add: HandleClientPacket_def IsExecute_def IsBind_def IsParse_def IsSimpleQuery_def)

lemma Parse_not_SimpleQuery: "IsParse packet \<Longrightarrow> \<not> IsSimpleQuery packet"
  by (simp add: IsParse_def IsSimpleQuery_def)

subsection \<open>A Bind that names an unknown statement\<close>

lemma registerCursor_unknown:
  "statements (registry proxy) (StatementName b) = None \<Longrightarrow>
     registerCursor proxy b = (Some ErrStatementNotFound, proxy)"
  by (simp add: registerCursor_def StatementByName_def)

lemma handleBindPacket_unknown:
  assumes "GetBindData env packet = Inr (Some b)"
    and "statements (registry proxy) (StatementName b) = None"
  shows "handleBindPacket env proxy packet = ((False, Some ErrStatementNotFound), proxy, packet)"
  using assms by (simp add: handleBindPacket_def registerCursor_unknown)

text \<open>
  C3. A Bind whose statement name is not in the registry: \<open>registerCursor\<close> runs first and
  returns the failed lookup as an error, so \<open>handleBindPacket\<close> returns that error instead
  of success; the loop of \<open>ProxyClientConnection\<close> pushes it on the error channel and
  returns. The database receives nothing, the registry is not changed, and the client is
  sent nothing.
\<close>

theorem Bind_unknown_statement_ends_session:
  assumes "IsBind packet"
    and "GetBindData env packet = Inr (Some b)"
    and "statements (registry proxy) (StatementName b) = None"
  shows "handleBindPacket env proxy packet = ((False, Some ErrStatementNotFound), proxy, packet)
       \<and> clientIteration env proxy (Inr packet) =
           Return (proxy\<lparr>lastPacketType := BindStatementPacket,
                          errCh := errCh proxy @ [ClientProxyError (Some ErrStatementNotFound)]\<rparr>)"
proof
  show "handleBindPacket env proxy packet = ((False, Some ErrStatementNotFound), proxy, packet)"
    using assms(2,3) by (rule handleBindPacket_unknown)
next
  let ?proxy = "proxy\<lparr>lastPacketType := BindStatementPacket\<rparr>"
  have "handleBindPacket env ?proxy packet = ((False, Some ErrStatementNotFound), ?proxy, packet)"
    using assms(2,3) by (intro handleBindPacket_unknown) simp_all
  then have "handleClientPacket env proxy packet =
               ((False, Some ErrStatementNotFound), ?proxy, packet)"
    using assms(1) by (simp add: handleClientPacket_def HandleClientPacket_Bind)
  then show "clientIteration env proxy (Inr packet) =
           Return (proxy\<lparr>lastPacketType := BindStatementPacket,
                          errCh := errCh proxy @ [ClientProxyError (Some ErrStatementNotFound)]\<rparr>)"
    by (simp add: clientIteration_def)
qed

theorem Bind_unknown_statement_ends_session_witness:
  "clientIteration (quietEnv\<lparr>GetBindData := (\<lambda>packet. Inr (Some bindS1))\<rparr>) freshProxy
     (Inr (packetOf CHR ''B'' [])) =
   Return (freshProxy\<lparr>lastPacketType := BindStatementPacket,
                       errCh := [ClientProxyError (Some ErrStatementNotFound)]\<rparr>)"
proof -
  have 1: "IsBind (packetOf CHR ''B'' [])"
    by (simp add: IsBind_def packetOf_def)
  have 2: "GetBindData (quietEnv\<lparr>GetBindData := (\<lambda>packet. Inr (Some bindS1))\<rparr>)
             (packetOf CHR ''B'' []) = Inr (Some bindS1)"
    by simp
  have 3: "statements (registry freshProxy) (StatementName bindS1) = None"
    by (simp add: freshProxy_def NewPreparedStatementRegistry_def)
  from Bind_unknown_statement_ends_session [OF 1 2 3]
  show ?thesis by (simp add: freshProxy_def)
qed

subsection \<open>A query that the censor denies\<close>

lemma handleQueryPacket_censored:
  assumes "(IsSimpleQuery packet \<and> GetSimpleQuery env packet = Inr query
              \<and> lastPacketType proxy = SimpleQueryPacket)
         \<or> (IsParse packet \<and> GetParseData env packet = Inr (Some pp) \<and> QueryString pp = query)"
    and "HandleQuery env query = Some censorErr"
  shows "handleQueryPacket env proxy packet = ((True, None), proxy, packet)"
  using assms
  by (auto simp add: handleQueryPacket_def Parse_not_SimpleQuery)

lemma handleClientPacket_censored:
  assumes "(IsSimpleQuery packet \<and> GetSimpleQuery env packet = Inr query)
         \<or> (IsParse packet \<and> GetParseData env packet = Inr (Some pp) \<and> QueryString pp = query)"
    and "HandleQuery env query = Some censorErr"
  shows "\<exists>proxy1. handleClientPacket env proxy packet = ((True, None), proxy1, packet)
           \<and> dbConnection proxy1 = dbConnection proxy
           \<and> clientConnection proxy1 = clientConnection proxy
           \<and> errCh proxy1 = errCh proxy"
  using assms(1)
proof
  assume q: "IsSimpleQuery packet \<and> GetSimpleQuery env packet = Inr query"
  let ?proxy1 = "proxy\<lparr>lastPacketType := SimpleQueryPacket,
                        pendingQueryPackets := pendingQueryPackets proxy @ [newQueryPacket query]\<rparr>"
  have "handleQueryPacket env ?proxy1 packet = ((True, None), ?proxy1, packet)"
    using q assms(2) by (intro handleQueryPacket_censored) auto
  then have "handleClientPacket env proxy packet = ((True, None), ?proxy1, packet)"
    using q by (simp add: handleClientPacket_def HandleClientPacket_SimpleQuery Add_def)
  then show ?thesis by simp
next
  assume p: "IsParse packet \<and> GetParseData env packet = Inr (Some pp) \<and> QueryString pp = query"
  let ?proxy1 = "proxy\<lparr>lastPacketType := ParseStatementPacket\<rparr>"
  have "handleQueryPacket env ?proxy1 packet = ((True, None), ?proxy1, packet)"
    using p assms(2) by (intro handleQueryPacket_censored) auto
  then have "handleClientPacket env proxy packet = ((True, None), ?proxy1, packet)"
    using p by (simp add: handleClientPacket_def HandleClientPacket_Parse)
  then show ?thesis by simp
qed

text \<open>
  C2. A SimpleQuery or Parse packet whose query the censor denies: whatever the network
  does, the iteration writes nothing to the database connection; and when the writes to
  the client are not failed by the network, the client receives the ErrorResponse of the
  fixed censor message and the six bytes of ReadyForQuery, and the loop goes on with the
  next packet.
\<close>

theorem censored_query_not_forwarded:
  assumes "(IsSimpleQuery packet \<and> GetSimpleQuery env packet = Inr query)
         \<or> (IsParse packet \<and> GetParseData env packet = Inr (Some pp) \<and> QueryString pp = query)"
    and "HandleQuery env query = Some censorErr"
  shows "dbConnection (stepState (clientIteration env proxy (Inr packet))) = dbConnection proxy
       \<and> (faults (clientConnection proxy) = [] \<longrightarrow>
            (\<exists>proxy'. clientIteration env proxy (Inr packet) = Continue proxy'
               \<and> dbConnection proxy' = dbConnection proxy
               \<and> written (clientConnection proxy') =
                   written (clientConnection proxy)
                     @ fst (NewPgError AcraCensorBlockedThisQuery) @ ReadyForQuery
               \<and> length (written (clientConnection proxy')) =
                   length (written (clientConnection proxy))
                     + length (fst (NewPgError AcraCensorBlockedThisQuery)) + 6
               \<and> errCh proxy' = errCh proxy
               \<and> (\<forall>reads. ProxyClientConnection env proxy (Inr packet # reads) =
                            ProxyClientConnection env proxy' reads)))"
proof -
  from handleClientPacket_censored [OF assms]
  obtain proxy1 where h: "handleClientPacket env proxy packet = ((True, None), proxy1, packet)"
    and db: "dbConnection proxy1 = dbConnection proxy"
    and cl: "clientConnection proxy1 = clientConnection proxy"
    and ec: "errCh proxy1 = errCh proxy"
    by blast
  have it: "clientIteration env proxy (Inr packet) =
     (case sendClientError (clientConnection proxy) AcraCensorBlockedThisQuery of
        (Some err, client1) \<Rightarrow>
          Return (proxy1\<lparr>clientConnection := client1,
                          errCh := errCh proxy1 @ [ClientProxyError (Some err)]\<rparr>)
      | (None, client1) \<Rightarrow> Continue (proxy1\<lparr>clientConnection := client1\<rparr>))"
    by (simp add: clientIteration_def h cl)
  have first: "dbConnection (stepState (clientIteration env proxy (Inr packet))) = dbConnection proxy"
    by (simp add: it db split: prod.splits option.splits)
  have second: "\<exists>proxy'. clientIteration env proxy (Inr packet) = Continue proxy'
               \<and> dbConnection proxy' = dbConnection proxy
               \<and> written (clientConnection proxy') =
                   written (clientConnection proxy)
                     @ fst (NewPgError AcraCensorBlockedThisQuery) @ ReadyForQuery
               \<and> length (written (clientConnection proxy')) =
                   length (written (clientConnection proxy))
                     + length (fst (NewPgError AcraCensorBlockedThisQuery)) + 6
               \<and> errCh proxy' = errCh proxy
               \<and> (\<forall>reads. ProxyClientConnection env proxy (Inr packet # reads) =
                            ProxyClientConnection env proxy' reads)"
    if nf: "faults (clientConnection proxy) = []"
  proof -
    let ?c = "(clientConnection proxy)\<lparr>written := written (clientConnection proxy)
                 @ fst (NewPgError AcraCensorBlockedThisQuery) @ ReadyForQuery\<rparr>"
    have "clientIteration env proxy (Inr packet) = Continue (proxy1\<lparr>clientConnection := ?c\<rparr>)"
      by (simp add: it sendClientError_no_faults [OF nf])
    then show ?thesis
      using db ec by (simp add: ReadyForQuery_def)
  qed
  from first second show ?thesis by blast
qed

theorem censored_query_not_forwarded_witness:
  "clientIteration
     (quietEnv\<lparr>GetSimpleQuery := (\<lambda>packet. Inr ''DROP TABLE users''),
               HandleQuery := (\<lambda>query. Some (OtherError ''denied''))\<rparr>)
     freshProxy (Inr (packetOf CHR ''Q'' (bytes_of ''DROP TABLE users'' @ [0])))
   = Continue (freshProxy
       \<lparr>lastPacketType := SimpleQueryPacket,
        pendingQueryPackets := [newQueryPacket ''DROP TABLE users''],
        clientConnection :=
          \<lparr>written = fst (NewPgError ''AcraCensor blocked this query'')
                       @ [0x5A, 0, 0, 0, 5, 0x49],
           faults = []\<rparr>\<rparr>)"
proof -
  let ?env = "quietEnv\<lparr>GetSimpleQuery := (\<lambda>packet. Inr ''DROP TABLE users''),
                       HandleQuery := (\<lambda>query. Some (OtherError ''denied''))\<rparr>"
  let ?packet = "packetOf CHR ''Q'' (bytes_of ''DROP TABLE users'' @ [0])"
  have 1: "(IsSimpleQuery ?packet \<and> GetSimpleQuery ?env ?packet = Inr ''DROP TABLE users'')
         \<or> (IsParse ?packet \<and> GetParseData ?env ?packet = Inr (Some undefined)
              \<and> QueryString undefined = ''DROP TABLE users'')"
    by (simp add: IsSimpleQuery_def packetOf_def)
  have 2: "HandleQuery ?env ''DROP TABLE users'' = Some (OtherError ''denied'')"
    by simp
  have 3: "faults (clientConnection freshProxy) = []"
    by (simp add: freshProxy_def)
  from censored_query_not_forwarded [OF 1 2, of freshProxy] 3
  obtain proxy' where "clientIteration ?env freshProxy (Inr ?packet) = Continue proxy'"
    by blast
  moreover have "clientIteration ?env freshProxy (Inr ?packet) = Continue (freshProxy
       \<lparr>lastPacketType := SimpleQueryPacket,
        pendingQueryPackets := [newQueryPacket ''DROP TABLE users''],
        clientConnection :=
          \<lparr>written = fst (NewPgError ''AcraCensor blocked this query'')
                       @ [0x5A, 0, 0, 0, 5, 0x49],
           faults = []\<rparr>\<rparr>)"
    by (simp add: clientIteration_def handleClientPacket_def HandleClientPacket_def
        handleQueryPacket_def IsSimpleQuery_def IsParse_def packetOf_def Add_def
        sendClientError_no_faults freshProxy_def AcraCensorBlockedThisQuery_def
        ReadyForQuery_def quietEnv_def)
  ultimately show ?thesis by simp
qed

subsection \<open>Parse, Bind, Execute\<close>

lemma registerPreparedStatement_success:
  assumes "registerPreparedStatement env proxy packet pp = (None, proxy')"
  shows "\<exists>ast. Parse env (QueryString pp) = Inr ast
           \<and> registry proxy' = (registry proxy)\<lparr>statements := (statements (registry proxy))
                 (Name pp \<mapsto> NewPreparedStatement (Name pp) (QueryString pp) ast)\<rparr>
           \<and> pendingQueryPackets proxy' = pendingQueryPackets proxy"
  using assms
  by (auto simp add: registerPreparedStatement_def Let_def AddStatement_def
      NewPreparedStatement_def split: sum.splits if_splits)

lemma registerPreparedStatement_registry:
  assumes "registerPreparedStatement env proxy packet pp = (e, proxy')"
  shows "cursors (registry proxy') = cursors (registry proxy)
       \<and> (\<forall>name. name \<noteq> Name pp \<longrightarrow>
             statements (registry proxy') name = statements (registry proxy) name)"
  using assms
  by (auto simp add: registerPreparedStatement_def Let_def AddStatement_def
      NewPreparedStatement_def split: sum.splits if_splits)

lemma handleQueryPacket_keeps:
  assumes "handleQueryPacket env proxy packet = (r, proxy', packet')"
  shows "registry proxy' = registry proxy \<and> pendingQueryPackets proxy' = pendingQueryPackets proxy"
  using assms
  by (auto simp add: handleQueryPacket_def split: sum.splits option.splits if_splits prod.splits)

lemma handleQueryPacket_packet:
  assumes "handleQueryPacket env proxy packet = (r, proxy', packet')"
  shows "packet' = packet \<or> (\<exists>query. packet' = ReplaceQuery env packet query)"
  using assms
  by (auto simp add: handleQueryPacket_def split: sum.splits option.splits if_splits prod.splits)

lemma handleClientPacket_Parse:
  "IsParse packet \<Longrightarrow>
   handleClientPacket env proxy packet =
     (case handleQueryPacket env (proxy\<lparr>lastPacketType := ParseStatementPacket\<rparr>) packet of
        ((censored, Some err), proxy1, packet1) \<Rightarrow> ((censored, Some err), proxy1, packet1)
      | ((True, None), proxy1, packet1) \<Rightarrow> ((True, None), proxy1, packet1)
      | ((False, None), proxy1, packet1) \<Rightarrow>
          (case GetParseData env packet1 of
             Inl err \<Rightarrow> ((False, Some err), proxy1, packet1)
           | Inr None \<Rightarrow> ((False, Some ErrNilPendingPacket), proxy1, packet1)
           | Inr (Some pendingParse) \<Rightarrow>
               (case registerPreparedStatement env proxy1 packet1 pendingParse of
                  (Some err, proxy2) \<Rightarrow> ((False, Some err), proxy2, packet1)
                | (None, proxy2) \<Rightarrow>
                    (case replaceOIDsInParsePackets env (clientSession proxy2)
                            packet1 pendingParse of
                       (err, packet2) \<Rightarrow> ((False, err), proxy2, packet2)))))"
  by (simp add: handleClientPacket_def HandleClientPacket_Parse)

lemma Parse_handled:
  assumes "IsParse p1"
    and "handleQueryPacket env (proxy0\<lparr>lastPacketType := ParseStatementPacket\<rparr>) p1
           = ((False, None), proxyQ, packetQ)"
    and "GetParseData env packetQ = Inr (Some pp)"
    and "handleClientPacket env proxy0 p1 = ((c, None), proxy1, p1')"
  shows "\<exists>ast. Parse env (QueryString pp) = Inr ast
           \<and> statements (registry proxy1) (Name pp)
               = Some (NewPreparedStatement (Name pp) (QueryString pp) ast)"
proof -
  from assms(1,2,3,4)
  obtain proxy2 where reg: "registerPreparedStatement env proxyQ packetQ pp = (None, proxy2)"
    and p1: "proxy1 = proxy2"
    by (auto simp add: handleClientPacket_Parse split: option.splits prod.splits)
  from registerPreparedStatement_success [OF reg] p1 show ?thesis
    by auto
qed

lemma registerCursor_success:
  assumes "registerCursor proxy b = (None, proxy')"
  shows "\<exists>stmt. statements (registry proxy) (StatementName b) = Some stmt
           \<and> proxy' = proxy\<lparr>registry := (registry proxy)\<lparr>cursors := (cursors (registry proxy))
                 (PortalName b \<mapsto> NewPortal b stmt)\<rparr>\<rparr>"
  using assms
  by (auto simp add: registerCursor_def Let_def StatementByName_def AddCursor_def NewPortal_def
      split: option.splits if_splits)

lemma registerCursor_failure:
  assumes "registerCursor proxy b = (Some err, proxy')"
  shows "registry proxy' = registry proxy"
  using assms
  by (auto simp add: registerCursor_def Let_def StatementByName_def AddCursor_def
      split: option.splits if_splits sum.splits)

lemma rebind_fields:
  "statements (rebind reg name b) = statements reg"
  "name' \<noteq> name \<Longrightarrow> cursors (rebind reg name b) name' = cursors reg name'"
  "cursors (rebind reg name b) name
     = map_option (\<lambda>cursor. cursor\<lparr>bind := b\<rparr>) (cursors reg name)"
  by (simp_all add: rebind_def)

text \<open>
  What a Bind handled without error leaves in the registry: the portal under the Bind's
  portal name, bound to the statement that the registry held under the Bind's statement
  name, with the Bind packet as decoded or as rewritten by \<open>SetParameters\<close>; the
  statements and every other portal are as before.
\<close>

lemma handleBindPacket_registry:
  assumes "handleBindPacket env proxy packet = ((c, None), proxy', packet')"
    and "GetBindData env packet = Inr (Some b)"
  shows "\<exists>stmt b'. statements (registry proxy) (StatementName b) = Some stmt
           \<and> (b' = b \<or> (\<exists>vals. b' = SetParameters env b vals))
           \<and> cursors (registry proxy') (PortalName b) = Some (NewPortal b' stmt)
           \<and> statements (registry proxy') = statements (registry proxy)
           \<and> pendingQueryPackets proxy' = pendingQueryPackets proxy"
proof -
  obtain e proxyC where rc: "registerCursor proxy b = (e, proxyC)"
    by (metis prod.exhaust)
  with assms have e: "e = None"
    by (cases e) (auto simp add: handleBindPacket_def)
  from registerCursor_success [OF rc [unfolded e]]
  obtain stmt where st: "statements (registry proxy) (StatementName b) = Some stmt"
    and pc: "proxyC = proxy\<lparr>registry := (registry proxy)\<lparr>cursors := (cursors (registry proxy))
                 (PortalName b \<mapsto> NewPortal b stmt)\<rparr>\<rparr>"
    by blast
  from assms rc e have "(registry proxy' = registry proxyC
        \<or> (\<exists>vals. registry proxy' = rebind (registry proxyC) (PortalName b)
                                         (SetParameters env b vals)))
      \<and> pendingQueryPackets proxy' = pendingQueryPackets proxyC"
    by (auto simp add: handleBindPacket_def Let_def
        split: sum.splits option.splits prod.splits if_splits)
  then show ?thesis
  proof (elim conjE disjE exE)
    assume "registry proxy' = registry proxyC"
      and "pendingQueryPackets proxy' = pendingQueryPackets proxyC"
    with st pc show ?thesis by auto
  next
    fix vals
    assume "registry proxy' = rebind (registry proxyC) (PortalName b) (SetParameters env b vals)"
      and "pendingQueryPackets proxy' = pendingQueryPackets proxyC"
    with st pc have "statements (registry proxy) (StatementName b) = Some stmt
        \<and> cursors (registry proxy') (PortalName b)
            = Some (NewPortal (SetParameters env b vals) stmt)
        \<and> statements (registry proxy') = statements (registry proxy)
        \<and> pendingQueryPackets proxy' = pendingQueryPackets proxy"
      by (simp add: rebind_fields NewPortal_def)
    then show ?thesis by blast
  qed
qed

lemma handleBindPacket_others:
  assumes "handleBindPacket env proxy packet = (r, proxy', packet')"
  shows "statements (registry proxy') = statements (registry proxy)
       \<and> (\<forall>name. (\<forall>b. GetBindData env packet = Inr (Some b) \<longrightarrow> PortalName b \<noteq> name) \<longrightarrow>
             cursors (registry proxy') name = cursors (registry proxy) name)"
proof (cases "GetBindData env packet")
  case (Inl err)
  with assms show ?thesis by (auto simp add: handleBindPacket_def)
next
  case (Inr ob)
  show ?thesis
  proof (cases ob)
    case None
    with assms Inr show ?thesis by (auto simp add: handleBindPacket_def)
  next
    case (Some b)
    obtain e proxyC where rc: "registerCursor proxy b = (e, proxyC)"
      by (metis prod.exhaust)
    have c: "statements (registry proxyC) = statements (registry proxy)
        \<and> (\<forall>name. name \<noteq> PortalName b \<longrightarrow>
              cursors (registry proxyC) name = cursors (registry proxy) name)"
    proof (cases e)
      case None
      from registerCursor_success [OF rc [unfolded None]] show ?thesis by auto
    next
      case (Some err)
      from registerCursor_failure [OF rc [unfolded Some]] show ?thesis by simp
    qed
    from assms Inr Some rc have "registry proxy' = registry proxyC
        \<or> (\<exists>vals. registry proxy' = rebind (registry proxyC) (PortalName b)
                                         (SetParameters env b vals))"
      by (auto simp add: handleBindPacket_def Let_def
          split: sum.splits option.splits prod.splits if_splits)
    with c Inr Some show ?thesis
      by (auto simp add: rebind_fields)
  qed
qed

lemma Execute_known_portal:
  assumes "IsExecute p3"
    and "GetExecuteData env p3 = Inr ex"
    and "cursors (registry proxy) (portal ex) = Some c"
  shows "handleClientPacket env proxy p3 =
           ((False, None),
            proxy\<lparr>lastPacketType := ExecutePacketType,
                  pendingQueryPackets := pendingQueryPackets proxy
                    @ [newExtendedQueryPacket (PreparedStatement c) (bind c) ex]\<rparr>, p3)"
  using assms
  by (simp add: handleClientPacket_def HandleClientPacket_Execute CursorByName_def Add_def Let_def)

lemma Execute_unknown_portal:
  assumes "IsExecute p3"
    and "GetExecuteData env p3 = Inr ex"
    and "cursors (registry proxy) (portal ex) = None"
  shows "handleClientPacket env proxy p3 =
           ((False, Some ErrCursorNotFound), proxy\<lparr>lastPacketType := ExecutePacketType\<rparr>, p3)"
  using assms
  by (simp add: handleClientPacket_def HandleClientPacket_Execute CursorByName_def)

lemma handleClientPacket_Bind:
  "IsBind packet \<Longrightarrow>
     handleClientPacket env proxy packet =
       handleBindPacket env (proxy\<lparr>lastPacketType := BindStatementPacket\<rparr>) packet"
  by (simp add: handleClientPacket_def HandleClientPacket_Bind)

lemma handleClientPacket_SimpleQuery_registry:
  assumes "IsSimpleQuery packet"
    and "handleClientPacket env proxy packet = (r, proxy', packet')"
  shows "registry proxy' = registry proxy"
proof (cases "GetSimpleQuery env packet")
  case (Inl err)
  with assms show ?thesis
    by (auto simp add: handleClientPacket_def HandleClientPacket_SimpleQuery)
next
  case (Inr query)
  with assms have "handleQueryPacket env
      (proxy\<lparr>lastPacketType := SimpleQueryPacket,
             pendingQueryPackets := pendingQueryPackets proxy @ [newQueryPacket query]\<rparr>) packet
      = (r, proxy', packet')"
    by (simp add: handleClientPacket_def HandleClientPacket_SimpleQuery Add_def)
  from handleQueryPacket_keeps [OF this] show ?thesis by simp
qed

lemma handleClientPacket_Execute_registry:
  assumes "IsExecute packet"
    and "handleClientPacket env proxy packet = (r, proxy', packet')"
  shows "registry proxy' = registry proxy"
  using assms
  by (auto simp add: handleClientPacket_def HandleClientPacket_Execute CursorByName_def Add_def
      Let_def split: sum.splits option.splits)

lemma handleClientPacket_other_registry:
  assumes "\<not> IsSimpleQuery packet" "\<not> IsParse packet" "\<not> IsBind packet" "\<not> IsExecute packet"
    and "handleClientPacket env proxy packet = (r, proxy', packet')"
  shows "registry proxy' = registry proxy"
  using assms
  by (auto simp add: handleClientPacket_def HandleClientPacket_def)

lemma handleClientPacket_Parse_registry:
  assumes "IsParse packet"
    and "handleClientPacket env proxy packet = (r, proxy', packet')"
  shows "cursors (registry proxy') = cursors (registry proxy)
       \<and> (\<forall>name. (\<forall>pp. GetParseData env packet = Inr (Some pp)
                        \<or> (\<exists>query. GetParseData env (ReplaceQuery env packet query) = Inr (Some pp))
                      \<longrightarrow> Name pp \<noteq> name) \<longrightarrow>
             statements (registry proxy') name = statements (registry proxy) name)"
proof -
  obtain c e proxyQ packetQ
    where hq: "handleQueryPacket env (proxy\<lparr>lastPacketType := ParseStatementPacket\<rparr>) packet
                 = ((c, e), proxyQ, packetQ)"
    by (metis prod.exhaust)
  from handleQueryPacket_keeps [OF hq] have kq: "registry proxyQ = registry proxy"
    by simp
  from handleQueryPacket_packet [OF hq]
  have pq: "packetQ = packet \<or> (\<exists>query. packetQ = ReplaceQuery env packet query)" .
  show ?thesis
  proof (cases "e = None \<and> \<not> c \<and> (\<exists>pp. GetParseData env packetQ = Inr (Some pp))")
    case False
    with assms hq have "proxy' = proxyQ"
      by (cases e; cases c; cases "GetParseData env packetQ")
         (auto simp add: handleClientPacket_Parse split: option.splits)
    with kq show ?thesis by simp
  next
    case True
    then obtain pp where e: "e = None" and c: "\<not> c"
      and gp: "GetParseData env packetQ = Inr (Some pp)"
      by blast
    obtain e2 proxy2 where rp: "registerPreparedStatement env proxyQ packetQ pp = (e2, proxy2)"
      by (metis prod.exhaust)
    from assms hq e c gp rp have "proxy' = proxy2"
      by (cases e2) (auto simp add: handleClientPacket_Parse split: prod.splits)
    with registerPreparedStatement_registry [OF rp] kq
    have k: "cursors (registry proxy') = cursors (registry proxy)"
      "\<And>name. name \<noteq> Name pp \<Longrightarrow>
         statements (registry proxy') name = statements (registry proxy) name"
      by simp_all
    from pq gp have "GetParseData env packet = Inr (Some pp)
        \<or> (\<exists>query. GetParseData env (ReplaceQuery env packet query) = Inr (Some pp))"
      by auto
    with k show ?thesis by (metis (no_types))
  qed
qed

lemma handleClientPacket_keeps_statement:
  assumes "handleClientPacket env proxy packet = (r, proxy', packet')"
    and "IsParse packet \<longrightarrow>
           (\<forall>pp. GetParseData env packet = Inr (Some pp)
                  \<or> (\<exists>query. GetParseData env (ReplaceQuery env packet query) = Inr (Some pp))
                \<longrightarrow> Name pp \<noteq> name)"
  shows "statements (registry proxy') name = statements (registry proxy) name"
proof -
  consider (parse) "IsParse packet" | (query) "IsSimpleQuery packet"
    | (bind) "\<not> IsParse packet" "IsBind packet" | (execute) "IsExecute packet"
    | (other) "\<not> IsSimpleQuery packet" "\<not> IsParse packet" "\<not> IsBind packet"
        "\<not> IsExecute packet"
    by blast
  then show ?thesis
  proof cases
    case parse
    with handleClientPacket_Parse_registry [OF parse assms(1)] assms(2) show ?thesis
      by blast
  next
    case query
    from handleClientPacket_SimpleQuery_registry [OF query assms(1)] show ?thesis by simp
  next
    case bind
    from assms(1) bind(2)
    have "handleBindPacket env (proxy\<lparr>lastPacketType := BindStatementPacket\<rparr>) packet
        = (r, proxy', packet')"
      by (simp add: handleClientPacket_Bind)
    from handleBindPacket_others [OF this] show ?thesis by simp
  next
    case execute
    from handleClientPacket_Execute_registry [OF execute assms(1)] show ?thesis by simp
  next
    case other
    from handleClientPacket_other_registry [OF other assms(1)] show ?thesis by simp
  qed
qed

lemma handleClientPacket_keeps_cursor:
  assumes "handleClientPacket env proxy packet = (r, proxy', packet')"
    and "IsBind packet \<longrightarrow>
           (\<forall>b. GetBindData env packet = Inr (Some b) \<longrightarrow> PortalName b \<noteq> name)"
  shows "cursors (registry proxy') name = cursors (registry proxy) name"
proof -
  consider (bind) "IsBind packet" | (query) "IsSimpleQuery packet"
    | (parse) "\<not> IsBind packet" "IsParse packet" | (execute) "IsExecute packet"
    | (other) "\<not> IsSimpleQuery packet" "\<not> IsParse packet" "\<not> IsBind packet"
        "\<not> IsExecute packet"
    by blast
  then show ?thesis
  proof cases
    case bind
    with assms(1)
    have "handleBindPacket env (proxy\<lparr>lastPacketType := BindStatementPacket\<rparr>) packet
        = (r, proxy', packet')"
      by (simp add: handleClientPacket_Bind)
    from handleBindPacket_others [OF this] assms(2) bind show ?thesis by simp
  next
    case query
    from handleClientPacket_SimpleQuery_registry [OF query assms(1)] show ?thesis by simp
  next
    case parse
    from handleClientPacket_Parse_registry [OF parse(2) assms(1)] show ?thesis by simp
  next
    case execute
    from handleClientPacket_Execute_registry [OF execute assms(1)] show ?thesis by simp
  next
    case other
    from handleClientPacket_other_registry [OF other assms(1)] show ?thesis by simp
  qed
qed

text \<open>An iteration that goes on has handled its packet without error.\<close>

lemma clientIteration_Continue:
  assumes "clientIteration env proxy (Inr packet) = Continue proxy'"
  shows "\<exists>c proxy1 packet1. handleClientPacket env proxy packet = ((c, None), proxy1, packet1)
           \<and> registry proxy' = registry proxy1
           \<and> pendingQueryPackets proxy' = pendingQueryPackets proxy1"
proof -
  obtain c e proxy1 packet1
    where h: "handleClientPacket env proxy packet = ((c, e), proxy1, packet1)"
    by (metis prod.exhaust)
  from assms h have "e = None \<and> registry proxy' = registry proxy1
      \<and> pendingQueryPackets proxy' = pendingQueryPackets proxy1"
    by (cases e) (auto simp add: clientIteration_def split: if_splits prod.splits option.splits)
  with h show ?thesis by blast
qed

lemma ProxyClientConnection_append:
  "ProxyClientConnection env proxy (xs @ ys) = Continue proxy' \<Longrightarrow>
     \<exists>proxyM. ProxyClientConnection env proxy xs = Continue proxyM
            \<and> ProxyClientConnection env proxyM ys = Continue proxy'"
  by (induction xs arbitrary: proxy) (auto split: step.splits)

lemma ProxyClientConnection_Cons:
  "ProxyClientConnection env proxy (x # xs) = Continue proxy' \<Longrightarrow>
     \<exists>proxyM. clientIteration env proxy x = Continue proxyM
            \<and> ProxyClientConnection env proxyM xs = Continue proxy'"
  by (auto split: step.splits)

lemma session_keeps_statement:
  assumes "ProxyClientConnection env proxy (map Inr packets) = Continue proxy'"
    and "\<forall>p\<in>set packets. IsParse p \<longrightarrow>
           (\<forall>pp. GetParseData env p = Inr (Some pp)
                  \<or> (\<exists>query. GetParseData env (ReplaceQuery env p query) = Inr (Some pp))
                \<longrightarrow> Name pp \<noteq> name)"
  shows "statements (registry proxy') name = statements (registry proxy) name"
  using assms
proof (induction packets arbitrary: proxy)
  case Nil
  then show ?case by simp
next
  case (Cons p packets)
  from Cons.prems(1) obtain proxyM where it: "clientIteration env proxy (Inr p) = Continue proxyM"
    and rest: "ProxyClientConnection env proxyM (map Inr packets) = Continue proxy'"
    by (auto split: step.splits)
  from clientIteration_Continue [OF it]
  obtain c proxy1 packet1 where h: "handleClientPacket env proxy p = ((c, None), proxy1, packet1)"
    and reg: "registry proxyM = registry proxy1"
    by blast
  from Cons.prems(2) have "IsParse p \<longrightarrow>
           (\<forall>pp. GetParseData env p = Inr (Some pp)
                  \<or> (\<exists>query. GetParseData env (ReplaceQuery env p query) = Inr (Some pp))
                \<longrightarrow> Name pp \<noteq> name)"
    by simp
  from handleClientPacket_keeps_statement [OF h this] reg
  have one: "statements (registry proxyM) name = statements (registry proxy) name"
    by simp
  from Cons.prems(2) have "\<forall>p\<in>set packets. IsParse p \<longrightarrow>
           (\<forall>pp. GetParseData env p = Inr (Some pp)
                  \<or> (\<exists>query. GetParseData env (ReplaceQuery env p query) = Inr (Some pp))
                \<longrightarrow> Name pp \<noteq> name)"
    by simp
  from Cons.IH [OF rest this] one show ?case by simp
qed

lemma session_keeps_cursor:
  assumes "ProxyClientConnection env proxy (map Inr packets) = Continue proxy'"
    and "\<forall>p\<in>set packets. IsBind p \<longrightarrow>
           (\<forall>b. GetBindData env p = Inr (Some b) \<longrightarrow> PortalName b \<noteq> name)"
  shows "cursors (registry proxy') name = cursors (registry proxy) name"
  using assms
proof (induction packets arbitrary: proxy)
  case Nil
  then show ?case by simp
next
  case (Cons p packets)
  from Cons.prems(1) obtain proxyM where it: "clientIteration env proxy (Inr p) = Continue proxyM"
    and rest: "ProxyClientConnection env proxyM (map Inr packets) = Continue proxy'"
    by (auto split: step.splits)
  from clientIteration_Continue [OF it]
  obtain c proxy1 packet1 where h: "handleClientPacket env proxy p = ((c, None), proxy1, packet1)"
    and reg: "registry proxyM = registry proxy1"
    by blast
  from Cons.prems(2) have "IsBind p \<longrightarrow>
           (\<forall>b. GetBindData env p = Inr (Some b) \<longrightarrow> PortalName b \<noteq> name)"
    by simp
  from handleClientPacket_keeps_cursor [OF h this] reg
  have one: "cursors (registry proxyM) name = cursors (registry proxy) name"
    by simp
  from Cons.prems(2) have "\<forall>p\<in>set packets. IsBind p \<longrightarrow>
           (\<forall>b. GetBindData env p = Inr (Some b) \<longrightarrow> PortalName b \<noteq> name)"
    by simp
  from Cons.IH [OF rest this] one show ?case by simp
qed

text \<open>
  C6. Parse, Bind, Execute. Take a session of the ClientReader that, from any state, reads
  a Parse \<open>p1\<close> of statement \<open>X\<close> that is not censored, then any packets \<open>mid1\<close>, then a Bind
  \<open>p2\<close> of statement \<open>X\<close> creating portal \<open>Y\<close>, then any packets \<open>mid2\<close>, and is still
  going on; \<open>mid1\<close> holds no further Parse of the name \<open>X\<close> and \<open>mid2\<close> no further Bind of
  the portal \<open>Y\<close> (Describe, Flush, Sync, Execute, simple queries, and Parse and Bind
  packets of other names may come anywhere). Then an Execute of portal \<open>Y\<close> adds exactly
  one entry at the end of the queue of pending queries: the entry holds the Execute, the
  Bind of \<open>p2\<close> (as decoded, or with the values that \<open>SetParameters\<close> wrote into it), the
  statement registered by \<open>p1\<close>, and its SQL text is the query text of \<open>p1\<close>. An Execute
  of a portal that the registry does not hold returns \<open>ErrCursorNotFound\<close>, and the
  ClientReader pushes the error on the error channel and returns.
\<close>

theorem Parse_Bind_Execute_enqueues_once:
  assumes "IsParse p1"
    and "handleQueryPacket env (proxy0\<lparr>lastPacketType := ParseStatementPacket\<rparr>) p1
           = ((False, None), proxyQ, packetQ)"
    and "GetParseData env packetQ = Inr (Some pp)"
    and "IsBind p2"
    and "GetBindData env p2 = Inr (Some b)"
    and "StatementName b = Name pp"
    and "IsExecute p3"
    and "GetExecuteData env p3 = Inr ex"
    and "ProxyClientConnection env proxy0 (map Inr (p1 # mid1 @ p2 # mid2)) = Continue proxyE"
    and "\<forall>p\<in>set mid1. IsParse p \<longrightarrow>
           (\<forall>pp'. GetParseData env p = Inr (Some pp')
                   \<or> (\<exists>query. GetParseData env (ReplaceQuery env p query) = Inr (Some pp'))
                 \<longrightarrow> Name pp' \<noteq> Name pp)"
    and "\<forall>p\<in>set mid2. IsBind p \<longrightarrow>
           (\<forall>b'. GetBindData env p = Inr (Some b') \<longrightarrow> PortalName b' \<noteq> PortalName b)"
  shows "(portal ex = PortalName b \<longrightarrow>
           (\<exists>q ast b'. handleClientPacket env proxyE p3 =
                  ((False, None),
                   proxyE\<lparr>lastPacketType := ExecutePacketType,
                          pendingQueryPackets := pendingQueryPackets proxyE @ [q]\<rparr>, p3)
              \<and> executePacket q = Some ex
              \<and> bindPacket q = Some b'
              \<and> (b' = b \<or> (\<exists>vals. b' = SetParameters env b vals))
              \<and> Parse env (QueryString pp) = Inr ast
              \<and> preparedStatement q
                  = Some (NewPreparedStatement (Name pp) (QueryString pp) ast)
              \<and> GetSQLQuery q = QueryString pp))
       \<and> (cursors (registry proxy) (portal ex) = None \<longrightarrow>
            handleClientPacket env proxy p3 =
              ((False, Some ErrCursorNotFound), proxy\<lparr>lastPacketType := ExecutePacketType\<rparr>, p3)
            \<and> clientIteration env proxy (Inr p3) =
                Return (proxy\<lparr>lastPacketType := ExecutePacketType,
                               errCh := errCh proxy @ [ClientProxyError (Some ErrCursorNotFound)]\<rparr>))"
proof (intro conjI impI)
  assume y: "portal ex = PortalName b"
  from assms(9) have "ProxyClientConnection env proxy0
      (Inr p1 # (map Inr mid1 @ Inr p2 # map Inr mid2)) = Continue proxyE"
    by simp
  from ProxyClientConnection_Cons [OF this]
  obtain proxyP where it1: "clientIteration env proxy0 (Inr p1) = Continue proxyP"
    and s1: "ProxyClientConnection env proxyP (map Inr mid1 @ Inr p2 # map Inr mid2)
               = Continue proxyE"
    by blast
  from ProxyClientConnection_append [OF s1]
  obtain proxyB where m1: "ProxyClientConnection env proxyP (map Inr mid1) = Continue proxyB"
    and s2: "ProxyClientConnection env proxyB (Inr p2 # map Inr mid2) = Continue proxyE"
    by blast
  from ProxyClientConnection_Cons [OF s2]
  obtain proxyC where it2: "clientIteration env proxyB (Inr p2) = Continue proxyC"
    and m2: "ProxyClientConnection env proxyC (map Inr mid2) = Continue proxyE"
    by blast
  \<comment> \<open>the Parse registers the statement\<close>
  from clientIteration_Continue [OF it1]
  obtain c1 proxy1 packet1
    where h1: "handleClientPacket env proxy0 p1 = ((c1, None), proxy1, packet1)"
      and r1: "registry proxyP = registry proxy1"
    by blast
  from Parse_handled [OF assms(1,2,3) h1]
  obtain ast where ast: "Parse env (QueryString pp) = Inr ast"
    and st1: "statements (registry proxy1) (Name pp)
                = Some (NewPreparedStatement (Name pp) (QueryString pp) ast)"
    by blast
  let ?stmt = "NewPreparedStatement (Name pp) (QueryString pp) ast"
  \<comment> \<open>it is still registered when the Bind comes\<close>
  from session_keeps_statement [OF m1 assms(10)] st1 r1
  have stB: "statements (registry proxyB) (Name pp) = Some ?stmt"
    by simp
  \<comment> \<open>the Bind registers the portal\<close>
  from clientIteration_Continue [OF it2]
  obtain c2 proxy2 packet2
    where h2: "handleClientPacket env proxyB p2 = ((c2, None), proxy2, packet2)"
      and r2: "registry proxyC = registry proxy2"
    by blast
  from h2 assms(4)
  have hb: "handleBindPacket env (proxyB\<lparr>lastPacketType := BindStatementPacket\<rparr>) p2
               = ((c2, None), proxy2, packet2)"
    by (simp add: handleClientPacket_Bind)
  from handleBindPacket_registry [OF hb assms(5)] stB assms(6) r2
  obtain b' where b': "b' = b \<or> (\<exists>vals. b' = SetParameters env b vals)"
    and curC: "cursors (registry proxyC) (PortalName b) = Some (NewPortal b' ?stmt)"
    by auto
  \<comment> \<open>it is still registered when the Execute comes\<close>
  from session_keeps_cursor [OF m2 assms(11)] curC y
  have curE: "cursors (registry proxyE) (portal ex) = Some (NewPortal b' ?stmt)"
    by simp
  let ?q = "newExtendedQueryPacket ?stmt b' ex"
  from Execute_known_portal [OF assms(7,8) curE]
  have run: "handleClientPacket env proxyE p3 =
      ((False, None),
       proxyE\<lparr>lastPacketType := ExecutePacketType,
              pendingQueryPackets := pendingQueryPackets proxyE @ [?q]\<rparr>, p3)"
    by (simp add: NewPortal_def)
  have q: "executePacket ?q = Some ex" "bindPacket ?q = Some b'"
    "preparedStatement ?q = Some ?stmt" "GetSQLQuery ?q = QueryString pp"
    by (simp_all add: newExtendedQueryPacket_def GetSQLQuery_def NewPreparedStatement_def)
  from run q b' ast
  show "\<exists>q ast b'. handleClientPacket env proxyE p3 =
                  ((False, None),
                   proxyE\<lparr>lastPacketType := ExecutePacketType,
                          pendingQueryPackets := pendingQueryPackets proxyE @ [q]\<rparr>, p3)
              \<and> executePacket q = Some ex
              \<and> bindPacket q = Some b'
              \<and> (b' = b \<or> (\<exists>vals. b' = SetParameters env b vals))
              \<and> Parse env (QueryString pp) = Inr ast
              \<and> preparedStatement q
                  = Some (NewPreparedStatement (Name pp) (QueryString pp) ast)
              \<and> GetSQLQuery q = QueryString pp"
    by blast
next
  assume n: "cursors (registry proxy) (portal ex) = None"
  show "handleClientPacket env proxy p3 =
      ((False, Some ErrCursorNotFound), proxy\<lparr>lastPacketType := ExecutePacketType\<rparr>, p3)"
    using assms(7,8) n by (rule Execute_unknown_portal)
  then show "clientIteration env proxy (Inr p3) =
      Return (proxy\<lparr>lastPacketType := ExecutePacketType,
                     errCh := errCh proxy @ [ClientProxyError (Some ErrCursorNotFound)]\<rparr>)"
    by (simp add: clientIteration_def)
qed

theorem Parse_Bind_Execute_enqueues_once_witness:
  "ProxyClientConnection pipelineEnv freshProxy
     (map Inr [packetOf CHR ''P'' [1], packetOf CHR ''D'' [], packetOf CHR ''H'' [],
               packetOf CHR ''B'' [], packetOf CHR ''P'' [2]])
     = Continue pipelineProxy
   \<and> statements (registry pipelineProxy) []
       = Some (NewPreparedStatement [] ''SELECT 2'' [''SELECT 2''])
   \<and> handleClientPacket pipelineEnv pipelineProxy (packetOf CHR ''E'' [])
       = ((False, None),
          pipelineProxy\<lparr>lastPacketType := ExecutePacketType,
                        pendingQueryPackets :=
                          [newExtendedQueryPacket
                             (NewPreparedStatement [] ''SELECT 1'' [''SELECT 1''])
                             (unnamedBind\<lparr>boundValues := [Some [0xEE]]\<rparr>) unnamedExecute]\<rparr>,
          packetOf CHR ''E'' [])
   \<and> GetSQLQuery (newExtendedQueryPacket
                    (NewPreparedStatement [] ''SELECT 1'' [''SELECT 1''])
                    (unnamedBind\<lparr>boundValues := [Some [0xEE]]\<rparr>) unnamedExecute)
       = ''SELECT 1''
   \<and> clientIteration pipelineEnv freshProxy (Inr (packetOf CHR ''E'' []))
       = Return (freshProxy\<lparr>lastPacketType := ExecutePacketType,
                            errCh := [ClientProxyError (Some ErrCursorNotFound)]\<rparr>)"
proof -
  let ?env = pipelineEnv
  let ?pA = "packetOf CHR ''P'' [1]" and ?pD = "packetOf CHR ''D'' []"
    and ?pH = "packetOf CHR ''H'' []" and ?pB = "packetOf CHR ''B'' []"
    and ?pC = "packetOf CHR ''P'' [2]" and ?pE = "packetOf CHR ''E'' []"
  let ?stmtA = "NewPreparedStatement [] ''SELECT 1'' [''SELECT 1'']"
  let ?rewritten = "unnamedBind\<lparr>boundValues := [Some [0xEE]]\<rparr>"
  let ?afterA = "freshProxy\<lparr>lastPacketType := ParseStatementPacket,
                   dbConnection := \<lparr>written = [0x50, 0, 0, 0, 5, 1], faults = []\<rparr>,
                   registry := \<lparr>statements = [[] \<mapsto> ?stmtA], cursors = Map.empty\<rparr>\<rparr>"
  let ?afterD = "freshProxy\<lparr>lastPacketType := OtherPacket,
                   dbConnection := \<lparr>written = [0x50, 0, 0, 0, 5, 1, 0x44, 0, 0, 0, 4],
                                     faults = []\<rparr>,
                   registry := \<lparr>statements = [[] \<mapsto> ?stmtA], cursors = Map.empty\<rparr>\<rparr>"
  let ?afterH = "freshProxy\<lparr>lastPacketType := OtherPacket,
                   dbConnection := \<lparr>written = [0x50, 0, 0, 0, 5, 1, 0x44, 0, 0, 0, 4,
                                                0x48, 0, 0, 0, 4],
                                     faults = []\<rparr>,
                   registry := \<lparr>statements = [[] \<mapsto> ?stmtA], cursors = Map.empty\<rparr>\<rparr>"
  let ?afterB = "freshProxy\<lparr>lastPacketType := BindStatementPacket,
                   dbConnection := \<lparr>written = [0x50, 0, 0, 0, 5, 1, 0x44, 0, 0, 0, 4,
                                                0x48, 0, 0, 0, 4, 0x42, 0, 0, 0, 4],
                                     faults = []\<rparr>,
                   registry := \<lparr>statements = [[] \<mapsto> ?stmtA],
                                cursors = [[] \<mapsto> NewPortal ?rewritten ?stmtA]\<rparr>\<rparr>"
  have types: "IsParse ?pA" "IsParse ?pC" "IsBind ?pB" "IsExecute ?pE"
    "\<not> IsParse ?pD" "\<not> IsParse ?pH" "\<not> IsBind ?pC"
    by (simp_all add: IsParse_def IsBind_def IsExecute_def packetOf_def)
  have ev: "logDebug ?env = False" "HandleQuery ?env = (\<lambda>query. None)"
    "OnQuery ?env = (\<lambda>session query. ((query, False, None), session))"
    "OnBind ?env = (\<lambda>session statement vals. (([Some [0xEE]], True, None), session))"
    "Parse ?env = (\<lambda>query. Inr [query])"
    "GetParseData ?env = (\<lambda>packet. Inr (Some (unnamedParse (descriptionBuf packet))))"
    "GetBindData ?env = (\<lambda>packet. Inr (Some unnamedBind))"
    "GetExecuteData ?env = (\<lambda>packet. Inr unnamedExecute)"
    "GetParameters ?env = (\<lambda>b. Inr (boundValues b))"
    "SetParameters ?env = (\<lambda>b vals. b\<lparr>boundValues := vals\<rparr>)"
    "ReplaceBind ?env = (\<lambda>packet b. (None, packet))"
    by (simp_all add: pipelineEnv_def quietEnv_def)
  have fp: "registry freshProxy = NewPreparedStatementRegistry"
    "clientSession freshProxy = Some \<lparr>QueryDataItems = None, PlaceholderSettings = None\<rparr>"
    "pendingQueryPackets freshProxy = []" "errCh freshProxy = []"
    by (simp_all add: freshProxy_def)
  have h2: "handleQueryPacket ?env (freshProxy\<lparr>lastPacketType := ParseStatementPacket\<rparr>) ?pA
              = ((False, None), freshProxy\<lparr>lastPacketType := ParseStatementPacket\<rparr>, ?pA)"
    by (simp add: handleQueryPacket_def types ev fp)
  have h3: "GetParseData ?env ?pA = Inr (Some (unnamedParse [1]))"
    by (simp add: ev packetOf_def)
  have h5: "GetBindData ?env ?pB = Inr (Some unnamedBind)"
    by (simp add: ev)
  have h6: "StatementName unnamedBind = Name (unnamedParse [1])"
    by (simp add: unnamedBind_def unnamedParse_def)
  have h8: "GetExecuteData ?env ?pE = Inr unnamedExecute"
    by (simp add: ev)
  have parse: "handleClientPacket ?env P (packetOf CHR ''P'' payload) =
      ((False, None),
       P\<lparr>lastPacketType := ParseStatementPacket,
         registry := (registry P)\<lparr>statements := (statements (registry P))
           ([] \<mapsto> NewPreparedStatement [] (QueryString (unnamedParse payload))
                     [QueryString (unnamedParse payload)])\<rparr>\<rparr>,
       packetOf CHR ''P'' payload)" for P payload
  proof -
    have t: "IsParse (packetOf CHR ''P'' payload)"
      by (simp add: IsParse_def packetOf_def)
    have d: "descriptionBuf (packetOf CHR ''P'' payload) = payload"
      by (simp add: packetOf_def)
    have n: "Name (unnamedParse payload) = []" "params (unnamedParse payload) = []"
      by (simp_all add: unnamedParse_def)
    show ?thesis
      by (simp add: handleClientPacket_Parse [OF t] handleQueryPacket_def t ev d n
          registerPreparedStatement_def AddStatement_def NewPreparedStatement_def
          replaceOIDsInParsePackets_def Let_def)
  qed
  have bound: "statements (registry P) [] = Some stmt \<Longrightarrow>
      handleClientPacket ?env P ?pB =
        ((False, None),
         P\<lparr>lastPacketType := BindStatementPacket,
           registry := (registry P)\<lparr>cursors := (cursors (registry P))
             ([] \<mapsto> NewPortal ?rewritten stmt)\<rparr>\<rparr>, ?pB)" for P stmt
    by (simp add: handleClientPacket_Bind types handleBindPacket_def ev registerCursor_def
        StatementByName_def AddCursor_def NewPortal_def rebind_def unnamedBind_def Let_def)
  have other: "t = CHR ''D'' \<or> t = CHR ''H'' \<Longrightarrow>
      handleClientPacket ?env P (packetOf t []) =
        ((False, None), P\<lparr>lastPacketType := OtherPacket\<rparr>, packetOf t [])" for P t
    by (auto simp add: handleClientPacket_def HandleClientPacket_def IsSimpleQuery_def
        IsParse_def IsBind_def IsExecute_def packetOf_def)
  have iter: "handleClientPacket ?env P p = ((False, None), Q, packetOf t payload) \<Longrightarrow>
      faults (dbConnection Q) = [] \<Longrightarrow>
      clientIteration ?env P (Inr p) =
        Continue (Q\<lparr>dbConnection := (dbConnection Q)
                   \<lparr>written := written (dbConnection Q) @ [of_char t]
                      @ put_uint32 (of_nat (length payload + 4)) @ payload\<rparr>\<rparr>)" for P p Q t payload
    by (simp add: clientIteration_def sendPacket_def Write_def CheckReadWrite_def Marshal_def
        packetOf_def Reset_def)
  have it1: "clientIteration ?env freshProxy (Inr ?pA) = Continue ?afterA"
    by (subst iter [OF parse])
       (simp_all add: freshProxy_def NewPreparedStatementRegistry_def unnamedParse_def
          put_uint32_def)
  have it2: "clientIteration ?env ?afterA (Inr ?pD) = Continue ?afterD"
    by (subst iter [OF other]) (simp_all add: freshProxy_def put_uint32_def)
  have it3: "clientIteration ?env ?afterD (Inr ?pH) = Continue ?afterH"
    by (subst iter [OF other]) (simp_all add: freshProxy_def put_uint32_def)
  have it4: "clientIteration ?env ?afterH (Inr ?pB) = Continue ?afterB"
    by (subst iter [OF bound [where stmt = ?stmtA]]) (simp_all add: freshProxy_def put_uint32_def)
  have it5: "clientIteration ?env ?afterB (Inr ?pC) = Continue pipelineProxy"
    by (subst iter [OF parse])
       (simp_all add: pipelineProxy_def freshProxy_def unnamedParse_def put_uint32_def)
  have h9: "ProxyClientConnection ?env freshProxy (map Inr (?pA # [?pD, ?pH] @ ?pB # [?pC]))
              = Continue pipelineProxy"
    by (simp add: it1 it2 it3 it4 it5)
  have h10: "\<forall>p\<in>set [?pD, ?pH]. IsParse p \<longrightarrow>
           (\<forall>pp'. GetParseData ?env p = Inr (Some pp')
                   \<or> (\<exists>query. GetParseData ?env (ReplaceQuery ?env p query) = Inr (Some pp'))
                 \<longrightarrow> Name pp' \<noteq> Name (unnamedParse [1]))"
    using types by simp
  have h11: "\<forall>p\<in>set [?pC]. IsBind p \<longrightarrow>
           (\<forall>b'. GetBindData ?env p = Inr (Some b') \<longrightarrow> PortalName b' \<noteq> PortalName unnamedBind)"
    using types by simp
  have y: "portal unnamedExecute = PortalName unnamedBind"
    by (simp add: unnamedExecute_def unnamedBind_def)
  have n: "cursors (registry freshProxy) (portal unnamedExecute) = None"
    by (simp add: freshProxy_def NewPreparedStatementRegistry_def)
  have pp: "pendingQueryPackets pipelineProxy = []"
    "statements (registry pipelineProxy) []
       = Some (NewPreparedStatement [] ''SELECT 2'' [''SELECT 2''])"
    "cursors (registry pipelineProxy) (portal unnamedExecute) = Some (NewPortal ?rewritten ?stmtA)"
    by (simp_all add: pipelineProxy_def freshProxy_def unnamedExecute_def)
  have run: "handleClientPacket ?env pipelineProxy ?pE
       = ((False, None),
          pipelineProxy\<lparr>lastPacketType := ExecutePacketType,
                        pendingQueryPackets :=
                          [newExtendedQueryPacket ?stmtA ?rewritten unnamedExecute]\<rparr>, ?pE)"
    using Execute_known_portal [OF types(4) h8 pp(3)] by (simp add: pp(1) NewPortal_def)
  have sql: "QueryString (unnamedParse [1]) = ''SELECT 1''"
    by (simp add: unnamedParse_def)
  note inst = Parse_Bind_Execute_enqueues_once
    [OF types(1) h2 h3 types(3) h5 h6 types(4) h8 h9 h10 h11, where proxy = freshProxy]
  from inst [THEN conjunct1, rule_format, OF y]
  obtain q where hq: "handleClientPacket ?env pipelineProxy ?pE =
      ((False, None),
       pipelineProxy\<lparr>lastPacketType := ExecutePacketType,
                     pendingQueryPackets := pendingQueryPackets pipelineProxy @ [q]\<rparr>, ?pE)"
    and sq: "GetSQLQuery q = QueryString (unnamedParse [1])"
    by blast
  from hq run
  have "pipelineProxy\<lparr>lastPacketType := ExecutePacketType,
                      pendingQueryPackets := pendingQueryPackets pipelineProxy @ [q]\<rparr>
      = pipelineProxy\<lparr>lastPacketType := ExecutePacketType,
                      pendingQueryPackets :=
                        [newExtendedQueryPacket ?stmtA ?rewritten unnamedExecute]\<rparr>"
    by simp
  from arg_cong [OF this, of pendingQueryPackets]
  have "q = newExtendedQueryPacket ?stmtA ?rewritten unnamedExecute"
    by (simp add: pp(1))
  with sq
  have one: "GetSQLQuery (newExtendedQueryPacket ?stmtA ?rewritten unnamedExecute)
      = QueryString (unnamedParse [1])"
    by simp
  from inst [THEN conjunct2, rule_format, OF n]
  have two: "clientIteration ?env freshProxy (Inr ?pE)
       = Return (freshProxy\<lparr>lastPacketType := ExecutePacketType,
                            errCh := [ClientProxyError (Some ErrCursorNotFound)]\<rparr>)"
    by (simp add: fp)
  from h9 pp(2) run one two sql show ?thesis
    by simp
qed

section \<open>Properties of the column-decryption loop\<close>

lemma columnsLoop_done:
  "\<not> i < columnCount packet \<Longrightarrow>
     columnsLoop env bindP es i proxy packet = (None, proxy, packet)"
  by (subst columnsLoop.simps) simp

lemma columnsLoop_out_of_range:
  "i < columnCount packet \<Longrightarrow> length (Columns packet) \<le> i \<Longrightarrow>
     columnsLoop env bindP es i proxy packet = (Some RuntimePanic, proxy, packet)"
  by (subst columnsLoop.simps) (simp add: index_def)

lemma columnsLoop_null:
  "i < columnCount packet \<Longrightarrow> i < length (Columns packet) \<Longrightarrow> IsNull (Columns packet ! i) \<Longrightarrow>
     columnsLoop env bindP es i proxy packet = columnsLoop env bindP es (Suc i) proxy packet"
  by (subst columnsLoop.simps) (simp add: index_def)

text \<open>
  What one call of the loop leaves behind, whatever its outcome: the columns that were
  NULL are as they were, no column below \<open>i\<close> is touched, and every call of the
  observer it adds is for a column from \<open>i\<close> on that is not NULL, with that column's bytes.
\<close>

lemma columnsLoop_invariant:
  "columnsLoop env bindP es i proxy packet = (r, proxy', packet') \<Longrightarrow>
     length (Columns packet') = length (Columns packet)
   \<and> columnCount packet' = columnCount packet
   \<and> descriptionBuf packet' = descriptionBuf packet
   \<and> (\<forall>j. IsNull (Columns packet ! j) \<longrightarrow> Columns packet' ! j = Columns packet ! j)
   \<and> (\<forall>j<i. Columns packet' ! j = Columns packet ! j)
   \<and> (\<exists>calls. decrypted proxy' = decrypted proxy @ calls
         \<and> (\<forall>(j, d)\<in>set calls. i \<le> j \<and> j < columnCount packet \<and> j < length (Columns packet)
               \<and> \<not> IsNull (Columns packet ! j) \<and> d = GetData (Columns packet ! j)))"
proof (induction env bindP es i proxy packet arbitrary: r proxy' packet' rule: columnsLoop.induct)
  case (1 env bindP es i proxy packet)
  show ?case
  proof (cases "i < columnCount packet")
    case False
    with "1.prems" show ?thesis by (simp add: columnsLoop_done)
  next
    case inside: True
    show ?thesis
    proof (cases "i < length (Columns packet)")
      case False
      with inside "1.prems" show ?thesis by (simp add: columnsLoop_out_of_range)
    next
      case inrange: True
      then have ix: "index (Columns packet) i = Inr (Columns packet ! i)"
        by (simp add: index_def)
      show ?thesis
      proof (cases "IsNull (Columns packet ! i)")
        case True
        with inside inrange "1.prems"
        have "columnsLoop env bindP es (Suc i) proxy packet = (r, proxy', packet')"
          by (simp add: columnsLoop_null)
        from "1.IH"(1) [OF inside ix True this]
        have ih: "length (Columns packet') = length (Columns packet)"
          "columnCount packet' = columnCount packet"
          "descriptionBuf packet' = descriptionBuf packet"
          "\<forall>j. IsNull (Columns packet ! j) \<longrightarrow> Columns packet' ! j = Columns packet ! j"
          "\<forall>j<i. Columns packet' ! j = Columns packet ! j"
          and "\<exists>calls. decrypted proxy' = decrypted proxy @ calls
             \<and> (\<forall>(j, d)\<in>set calls. Suc i \<le> j \<and> j < columnCount packet
                   \<and> j < length (Columns packet)
                   \<and> \<not> IsNull (Columns packet ! j) \<and> d = GetData (Columns packet ! j))"
          by simp_all
        then obtain calls where calls: "decrypted proxy' = decrypted proxy @ calls"
          and each: "\<And>j d. (j, d) \<in> set calls \<Longrightarrow> Suc i \<le> j \<and> j < columnCount packet
                   \<and> j < length (Columns packet)
                   \<and> \<not> IsNull (Columns packet ! j) \<and> d = GetData (Columns packet ! j)"
          by blast
        have "\<forall>(j, d)\<in>set calls. i \<le> j \<and> j < columnCount packet
                   \<and> j < length (Columns packet)
                   \<and> \<not> IsNull (Columns packet ! j) \<and> d = GetData (Columns packet ! j)"
          using each by (fastforce dest: Suc_leD)
        with calls ih(1-5) show ?thesis by blast
      next
        case notnull: False
        let ?column = "Columns packet ! i"
        let ?proxy1 = "proxy\<lparr>decrypted := decrypted proxy @ [(i, GetData ?column)]\<rparr>"
        let ?format = "(case bindP of
                  None \<Rightarrow> Inr 0
                | Some b \<Rightarrow>
                    (case GetParameterFormatByIndex env i (resultFormats b) of
                       Inl err \<Rightarrow> Inl err
                     | Inr boundFormat \<Rightarrow> Inr (unat boundFormat)))"
        let ?setting = "(case es of
                  None \<Rightarrow> Inr None
                | Some settings \<Rightarrow>
                    if i \<le> length settings then
                      (case index settings i of
                         Inl err \<Rightarrow> Inl err
                       | Inr None \<Rightarrow> Inr None
                       | Inr (Some item) \<Rightarrow> Inr (Some (Setting item)))
                    else Inr None)"
        have unfold: "columnsLoop env bindP es i proxy packet =
            (case ?format of
               Inl err \<Rightarrow> (Some err, proxy, packet)
             | Inr format \<Rightarrow>
                 (case ?setting of
                    Inl err \<Rightarrow> (Some err, proxy, packet)
                  | Inr encryptionSetting \<Rightarrow>
                      (case onColumnDecryption env proxy i (GetData ?column)
                              (format = dataFormatBinary) encryptionSetting of
                         (Inl err, proxy1) \<Rightarrow> (Some err, proxy1, packet)
                       | (Inr newData, proxy1) \<Rightarrow>
                           columnsLoop env bindP es (Suc i) proxy1
                             (packet\<lparr>Columns := (Columns packet)[i := SetData ?column newData]\<rparr>))))"
          by (subst columnsLoop.simps) (simp add: inside ix notnull)
        consider (early) "proxy' = proxy" "packet' = packet"
          | (observer) "proxy' = ?proxy1" "packet' = packet"
          | (recurse) format encryptionSetting newData where
              "?format = Inr format"
              "?setting = Inr encryptionSetting"
              "onColumnDecryption env proxy i (GetData ?column) (format = dataFormatBinary)
                 encryptionSetting = (Inr newData, ?proxy1)"
              "columnsLoop env bindP es (Suc i) ?proxy1
                 (packet\<lparr>Columns := (Columns packet)[i := SetData ?column newData]\<rparr>)
                 = (r, proxy', packet')"
        proof (cases ?format)
          case (Inl err)
          with "1.prems" unfold have "proxy' = proxy" "packet' = packet" by auto
          then show ?thesis by (rule early)
        next
          case fmt: (Inr format)
          show ?thesis
          proof (cases ?setting)
            case (Inl err)
            with "1.prems" unfold fmt have "proxy' = proxy" "packet' = packet" by auto
            then show ?thesis by (rule early)
          next
            case st: (Inr encryptionSetting)
            show ?thesis
            proof (cases "OnColumnDecryption env i (GetData ?column) (format = dataFormatBinary)
                            encryptionSetting")
              case (Inl err)
              with "1.prems" unfold fmt st have "proxy' = ?proxy1" "packet' = packet"
                by (auto simp add: onColumnDecryption_def)
              then show ?thesis by (rule observer)
            next
              case (Inr newData)
              then have oc: "onColumnDecryption env proxy i (GetData ?column)
                  (format = dataFormatBinary) encryptionSetting = (Inr newData, ?proxy1)"
                by (simp add: onColumnDecryption_def)
              with "1.prems" unfold fmt st
              have "columnsLoop env bindP es (Suc i) ?proxy1
                 (packet\<lparr>Columns := (Columns packet)[i := SetData ?column newData]\<rparr>)
                 = (r, proxy', packet')"
                by simp
              with fmt st oc show ?thesis by (rule recurse)
            qed
          qed
        qed
        then show ?thesis
        proof cases
          case early
          then show ?thesis by simp
        next
          case observer
          with inside inrange notnull show ?thesis by simp
        next
          case recurse
          from "1.IH"(2) [OF inside ix notnull recurse(1) recurse(2) recurse(3) [symmetric] refl recurse(4)]
          have ih: "length (Columns packet') = length (Columns packet)"
            "columnCount packet' = columnCount packet"
            "descriptionBuf packet' = descriptionBuf packet"
            "\<And>j. IsNull (((Columns packet)[i := SetData ?column newData]) ! j) \<Longrightarrow>
                  Columns packet' ! j = ((Columns packet)[i := SetData ?column newData]) ! j"
            "\<And>j. j < Suc i \<Longrightarrow>
                  Columns packet' ! j = ((Columns packet)[i := SetData ?column newData]) ! j"
            and "\<exists>calls. decrypted proxy' = decrypted ?proxy1 @ calls
               \<and> (\<forall>(j, d)\<in>set calls. Suc i \<le> j \<and> j < columnCount packet
                     \<and> j < length (Columns packet)
                     \<and> \<not> IsNull (((Columns packet)[i := SetData ?column newData]) ! j)
                     \<and> d = GetData (((Columns packet)[i := SetData ?column newData]) ! j))"
            by simp_all
          then obtain calls where calls: "decrypted proxy' = decrypted ?proxy1 @ calls"
            and each: "\<And>j d. (j, d) \<in> set calls \<Longrightarrow> Suc i \<le> j \<and> j < columnCount packet
                     \<and> j < length (Columns packet)
                     \<and> \<not> IsNull (((Columns packet)[i := SetData ?column newData]) ! j)
                     \<and> d = GetData (((Columns packet)[i := SetData ?column newData]) ! j)"
            by blast
          have null: "Columns packet' ! j = Columns packet ! j" if "IsNull (Columns packet ! j)" for j
          proof -
            from that notnull have "j \<noteq> i" by auto
            then show ?thesis using ih(4) [of j] that by simp
          qed
          have below: "Columns packet' ! j = Columns packet ! j" if "j < i" for j
            using ih(5) [of j] that by simp
          have "decrypted proxy' = decrypted proxy @ ((i, GetData ?column) # calls)"
            using calls by simp
          moreover have "\<forall>(j, d)\<in>set ((i, GetData ?column) # calls).
              i \<le> j \<and> j < columnCount packet \<and> j < length (Columns packet)
                \<and> \<not> IsNull (Columns packet ! j) \<and> d = GetData (Columns packet ! j)"
          proof (clarify, goal_cases)
            case (1 j d)
            show ?case
            proof (cases "(j, d) = (i, GetData ?column)")
              case True
              with inside inrange notnull show ?thesis by simp
            next
              case False
              with 1 have "(j, d) \<in> set calls" by auto
              from each [OF this] show ?thesis by (auto simp add: Suc_le_eq)
            qed
          qed
          ultimately show ?thesis
            using ih(1-3) null below by blast
        qed
      qed
    qed
  qed
qed

lemma handleQueryDataPacket_no_columns:
  assumes "GetPendingPacket (pendingQueryPackets proxy) = Inr pending"
    and "(executePacket pending = None \<and> formats = [TextFormat])
       \<or> (executePacket pending \<noteq> None \<and> bindPacket pending = Some b
            \<and> GetResultFormats env b = Inr formats)"
    and "parseColumns env packet formats = Inr packet1"
    and "columnCount packet1 = 0"
  shows "handleQueryDataPacket env proxy packet = (None, proxy, packet1)"
  using assms by (auto simp add: handleQueryDataPacket_def)

lemma columnsLoop_step:
  assumes "i < columnCount packet" and "i < length (Columns packet)"
    and "\<not> IsNull (Columns packet ! i)"
    and "es = None \<or> (\<exists>settings. es = Some settings \<and> i < length settings \<and> settings ! i = None)"
    and "OnColumnDecryption env i (GetData (Columns packet ! i)) False None = Inr newData"
  shows "columnsLoop env None es i proxy packet =
           columnsLoop env None es (Suc i)
             (proxy\<lparr>decrypted := decrypted proxy @ [(i, GetData (Columns packet ! i))]\<rparr>)
             (packet\<lparr>Columns := (Columns packet)[i := SetData (Columns packet ! i) newData]\<rparr>)"
  using assms
  by (subst columnsLoop.simps)
     (auto simp add: index_def onColumnDecryption_def dataFormatBinary_def)

subsection \<open>The lookup of the encryption setting\<close>

text \<open>
  C10. The guard of the setting lookup is \<open>i <= len(encryptionSettings)\<close>: for a column
  that is not NULL and whose index equals the number of extracted settings the guard
  holds, \<open>encryptionSettings[i]\<close> is evaluated one past the end, and the loop dies of the
  run-time panic instead of handing the column on without a setting.
\<close>

theorem setting_lookup_reads_past_end:
  assumes "i < columnCount packet" and "i < length (Columns packet)"
    and "\<not> IsNull (Columns packet ! i)"
    and "bindP = None \<or> (\<exists>b f. bindP = Some b
            \<and> GetParameterFormatByIndex env i (resultFormats b) = Inr f)"
    and "es = Some settings" and "i = length settings"
  shows "columnsLoop env bindP es i proxy packet = (Some RuntimePanic, proxy, packet)"
  using assms
  by (subst columnsLoop.simps) (auto simp add: index_def)

section \<open>Properties of the database side\<close>

subsection \<open>Reading what was written\<close>

lemma readData_frame:
  assumes "length payload + 4 < 2 ^ 32"
  shows "readData (put_uint32 (of_nat (length payload + 4)) @ payload @ rest) packet
           = Inr (packet\<lparr>descriptionBuf := payload\<rparr>, rest)"
proof -
  have "take 4 (put_uint32 (of_nat (length payload + 4)) @ payload @ rest)
          = put_uint32 (of_nat (length payload + 4))"
    by (simp add: length_put_uint32)
  then have n: "unat (uint32_be (take 4 (put_uint32 (of_nat (length payload + 4)) @ payload @ rest)))
          = length payload + 4"
    using assms by (simp only: uint32_be_put_uint32 unat_of_nat_32)
  show ?thesis
    unfolding readData_def n Let_def
    by (simp add: length_put_uint32)
qed

lemma ReadPacket_Marshal:
  assumes "length (descriptionBuf p) + 4 < 2 ^ 32"
  shows "ReadPacket (Marshal p @ rest) packet
           = Inr (packet\<lparr>messageType := messageType p, descriptionBuf := descriptionBuf p\<rparr>, rest)"
  using readData_frame [OF assms, of rest "packet\<lparr>messageType := messageType p\<rparr>"]
  by (simp add: ReadPacket_def readMessageType_def Marshal_def)

lemma sendPacket_no_faults:
  "faults c = [] \<Longrightarrow> sendPacket c packet = (None, c\<lparr>written := written c @ Marshal packet\<rparr>)"
  by (simp add: sendPacket_def Write_def CheckReadWrite_def)

lemma sendMessageType_no_faults:
  "faults c = [] \<Longrightarrow>
     sendMessageType c packet = (None, c\<lparr>written := written c @ [messageType packet]\<rparr>)"
  by (simp add: sendMessageType_def Write_def CheckReadWrite_def)

lemma sendMessageType_faults:
  "sendMessageType c packet = (e, c') \<Longrightarrow> faults c = [] \<Longrightarrow> e = None"
  by (simp add: sendMessageType_no_faults)

subsection \<open>One iteration in state Serve\<close>

lemma dbIteration_Serve_panic:
  assumes "ReadPacket (dbInput proxy) Reset = Inr (packet, rest)"
    and "handleDatabasePacket env (proxy\<lparr>dbInput := rest\<rparr>) packet = (Some RuntimePanic, proxy1, packet1)"
  shows "dbIteration env proxy stateServe = Crash (proxy1, stateServe)"
  using assms by (simp add: dbIteration_def)

lemma dbIteration_Serve_EncodingError:
  assumes "ReadPacket (dbInput proxy) Reset = Inr (packet, rest)"
    and "handleDatabasePacket env (proxy\<lparr>dbInput := rest\<rparr>) packet
           = (Some (EncodingError msg), proxy1, packet1)"
  shows "dbIteration env proxy stateServe =
           (case sendClientError (clientConnection proxy1) msg of
              (Some err, client1) \<Rightarrow>
                Return (proxy1\<lparr>clientConnection := client1,
                                errCh := errCh proxy1 @ [DBProxyError (Some err)]\<rparr>, stateServe)
            | (None, client1) \<Rightarrow>
                Continue (proxy1\<lparr>clientConnection := client1\<rparr>, stateSkipResponse))"
  using assms by (simp add: dbIteration_def)

lemma dbIteration_Serve_forward:
  assumes "ReadPacket (dbInput proxy) Reset = Inr (packet, rest)"
    and "handleDatabasePacket env (proxy\<lparr>dbInput := rest\<rparr>) packet = (None, proxy1, packet1)"
  shows "dbIteration env proxy stateServe =
           (case sendPacket (clientConnection proxy1) packet1 of
              (Some err, client1) \<Rightarrow>
                Return (proxy1\<lparr>clientConnection := client1,
                                errCh := errCh proxy1 @ [DBProxyError (Some err)]\<rparr>, stateServe)
            | (None, client1) \<Rightarrow> Continue (proxy1\<lparr>clientConnection := client1\<rparr>, stateServe))"
  using assms by (simp add: dbIteration_def)

lemma HandleDatabasePacket_DataRow:
  "IsDataRow packet \<Longrightarrow>
     HandleDatabasePacket proxy packet = (None, proxy\<lparr>lastPacketType := DataPacket\<rparr>)"
  by (simp add: HandleDatabasePacket_def)

lemma HandleDatabasePacket_RowDescription:
  "IsRowDescription packet \<Longrightarrow>
     HandleDatabasePacket proxy packet = (None, proxy\<lparr>lastPacketType := RowDescriptionPacket\<rparr>)"
  by (simp add: HandleDatabasePacket_def IsRowDescription_def IsDataRow_def)

lemma HandleDatabasePacket_ParameterDescription:
  "IsParameterDescription packet \<Longrightarrow>
     HandleDatabasePacket proxy packet = (None, proxy\<lparr>lastPacketType := ParameterDescriptionPacket\<rparr>)"
  by (simp add: HandleDatabasePacket_def IsParameterDescription_def IsRowDescription_def IsDataRow_def)

lemma HandleDatabasePacket_ReadyForQuery:
  "IsReadyForQuery packet \<Longrightarrow>
     HandleDatabasePacket proxy packet =
       (None, proxy\<lparr>lastPacketType := ReadyForQueryPacket,
                     pendingQueryPackets := RemoveNextPendingPacket (pendingQueryPackets proxy)\<rparr>)"
  by (simp add: HandleDatabasePacket_def IsReadyForQuery_def IsParameterDescription_def
      IsRowDescription_def IsDataRow_def)

lemma newQueryPacket_fields:
  "executePacket (newQueryPacket query) = None"
  "bindPacket (newQueryPacket query) = None"
  "GetSQLQuery (newQueryPacket query) = query"
  by (simp_all add: newQueryPacket_def GetSQLQuery_def)

theorem setting_lookup_reads_past_end_witness:
  "dbIteration oneSettingEnv
     (freshProxy\<lparr>dbInput := Marshal dataRowAB,
                 pendingQueryPackets := [newQueryPacket ''SELECT a, b FROM t'']\<rparr>) stateServe
   = Crash (freshProxy\<lparr>dbInput := [], lastPacketType := DataPacket,
                        pendingQueryPackets := [newQueryPacket ''SELECT a, b FROM t''],
                        decrypted := [(0, [0x61])]\<rparr>, stateServe)"
proof -
  let ?env = oneSettingEnv
  let ?start = "freshProxy\<lparr>dbInput := Marshal dataRowAB,
                 pendingQueryPackets := [newQueryPacket ''SELECT a, b FROM t'']\<rparr>"
  let ?packet = "packetOf CHR ''D'' [0, 2, 0, 0, 0, 1, 0x61, 0, 0, 0, 1, 0x62]"
  let ?rowA = "dataRowAB\<lparr>Columns := [SetData columnA [0x61], columnB]\<rparr>"
  have ev: "parseColumns ?env = (\<lambda>packet formats. Inr dataRowAB)"
    "GetEncryptorSettingsForQuery ?env = (\<lambda>query. Inr (Some [None]))"
    "OnColumnDecryption ?env = (\<lambda>i data binaryFormat setting. Inr data)"
    by (simp_all add: oneSettingEnv_def quietEnv_def)
  have cols: "columnCount dataRowAB = 2" "Columns dataRowAB = [columnA, columnB]"
    "descriptionBuf dataRowAB = [0, 2, 0, 0, 0, 1, 0x61, 0, 0, 0, 1, 0x62]"
    "messageType dataRowAB = of_char CHR ''D''"
    by (simp_all add: dataRowAB_def packetOf_def)
  have notnull: "\<not> IsNull columnA" "\<not> IsNull columnB"
    by (simp_all add: IsNull_def columnA_def columnB_def)
  have ga: "GetData columnA = [0x61]"
    by (simp add: columnA_def)
  have "ReadPacket (Marshal dataRowAB @ []) Reset
          = Inr (Reset\<lparr>messageType := messageType dataRowAB,
                        descriptionBuf := descriptionBuf dataRowAB\<rparr>, [])"
    by (rule ReadPacket_Marshal) (simp add: cols)
  then have rd: "ReadPacket (dbInput ?start) Reset = Inr (?packet, [])"
    by (simp add: cols packetOf_def)
  have loop: "columnsLoop ?env None (Some [None]) 0 P dataRowAB
                = (Some RuntimePanic, P\<lparr>decrypted := decrypted P @ [(0, [0x61])]\<rparr>, ?rowA)" for P
  proof -
    have "columnsLoop ?env None (Some [None]) 0 P dataRowAB =
            columnsLoop ?env None (Some [None]) (Suc 0)
              (P\<lparr>decrypted := decrypted P @ [(0, GetData (Columns dataRowAB ! 0))]\<rparr>)
              (dataRowAB\<lparr>Columns := (Columns dataRowAB)[0 := SetData (Columns dataRowAB ! 0) [0x61]]\<rparr>)"
      by (rule columnsLoop_step) (simp_all add: cols notnull ev ga)
    also have "\<dots> = (Some RuntimePanic,
              P\<lparr>decrypted := decrypted P @ [(0, GetData (Columns dataRowAB ! 0))]\<rparr>,
              dataRowAB\<lparr>Columns := (Columns dataRowAB)[0 := SetData (Columns dataRowAB ! 0) [0x61]]\<rparr>)"
      by (rule setting_lookup_reads_past_end [where settings = "[None]"])
         (simp_all add: cols notnull)
    finally show ?thesis by (simp add: cols ga)
  qed
  have hq: "handleQueryDataPacket ?env P pkt
              = (Some RuntimePanic, P\<lparr>decrypted := decrypted P @ [(0, [0x61])]\<rparr>, ?rowA)"
    if "pendingQueryPackets P = [newQueryPacket q]" for P pkt q
    using that
    by (simp add: handleQueryDataPacket_def GetPendingPacket_def newQueryPacket_fields
        ev cols(1) loop)
  have "handleDatabasePacket ?env (?start\<lparr>dbInput := []\<rparr>) ?packet
          = (Some RuntimePanic,
             (?start\<lparr>dbInput := [], lastPacketType := DataPacket\<rparr>)
               \<lparr>decrypted := decrypted (?start\<lparr>dbInput := [], lastPacketType := DataPacket\<rparr>)
                                @ [(0, [0x61])]\<rparr>, ?rowA)"
    by (simp add: handleDatabasePacket_def HandleDatabasePacket_DataRow IsDataRow_def packetOf_def hq)
  from dbIteration_Serve_panic [OF rd this]
  show ?thesis by (simp add: freshProxy_def)
qed

subsection \<open>RowDescription and ParameterDescription packets that cannot be parsed\<close>

lemma handleRowDescription_parse_error:
  "GetRowDescriptionData env packet = Inl err \<Longrightarrow>
     handleRowDescription env proxy packet = (None, packet)"
  by (simp add: handleRowDescription_def split: option.splits)

lemma handleParameterDescription_parse_error:
  "GetParameterDescriptionData env packet = Inl err \<Longrightarrow>
     handleParameterDescription env proxy packet = (None, packet)"
  by (simp add: handleParameterDescription_def split: option.splits)

lemma handleDatabasePacket_malformed:
  assumes "(IsRowDescription packet \<and> GetRowDescriptionData env packet = Inl err)
         \<or> (IsParameterDescription packet \<and> GetParameterDescriptionData env packet = Inl err)"
  shows "handleDatabasePacket env proxy packet =
           (None,
            proxy\<lparr>lastPacketType := (if IsRowDescription packet then RowDescriptionPacket
                                      else ParameterDescriptionPacket)\<rparr>, packet)"
  using assms
proof
  assume "IsRowDescription packet \<and> GetRowDescriptionData env packet = Inl err"
  then show ?thesis
    by (simp add: handleDatabasePacket_def HandleDatabasePacket_RowDescription
        handleRowDescription_parse_error)
next
  assume p: "IsParameterDescription packet \<and> GetParameterDescriptionData env packet = Inl err"
  then have "\<not> IsRowDescription packet"
    by (simp add: IsParameterDescription_def IsRowDescription_def)
  with p show ?thesis
    by (simp add: handleDatabasePacket_def HandleDatabasePacket_ParameterDescription
        handleParameterDescription_parse_error)
qed

text \<open>
  C5, as the code has it. A RowDescription or ParameterDescription packet read in state
  Serve whose payload the decoder cannot parse: the handler logs the failure and returns
  nil, so the packet is forwarded to the client as it was read, no ErrorResponse is
  synthesized, and the machine stays in Serve.
\<close>

theorem malformed_description_is_forwarded:
  assumes "ReadPacket (dbInput proxy) Reset = Inr (packet, rest)"
    and "(IsRowDescription packet \<and> GetRowDescriptionData env packet = Inl err)
       \<or> (IsParameterDescription packet \<and> GetParameterDescriptionData env packet = Inl err)"
    and "faults (clientConnection proxy) = []"
  shows "dbIteration env proxy stateServe =
           Continue (proxy\<lparr>dbInput := rest,
                           lastPacketType := (if IsRowDescription packet then RowDescriptionPacket
                                              else ParameterDescriptionPacket),
                           clientConnection := (clientConnection proxy)
                             \<lparr>written := written (clientConnection proxy) @ Marshal packet\<rparr>\<rparr>,
                     stateServe)"
proof -
  let ?proxy1 = "proxy\<lparr>dbInput := rest,
                   lastPacketType := (if IsRowDescription packet then RowDescriptionPacket
                                      else ParameterDescriptionPacket)\<rparr>"
  have "handleDatabasePacket env (proxy\<lparr>dbInput := rest\<rparr>) packet = (None, ?proxy1, packet)"
    using handleDatabasePacket_malformed [OF assms(2), of "proxy\<lparr>dbInput := rest\<rparr>"] by simp
  from dbIteration_Serve_forward [OF assms(1) this] assms(3)
  show ?thesis by (simp add: sendPacket_no_faults)
qed

lemma Marshal_malformedRowDescription:
  "Marshal malformedRowDescription = [0x54, 0, 0, 0, 6, 0xFF, 0xFF]"
  by (simp add: Marshal_def malformedRowDescription_def packetOf_def Reset_def put_uint32_def)

lemma ReadPacket_malformedRowDescription:
  "ReadPacket [0x54, 0, 0, 0, 6, 0xFF, 0xFF] Reset = Inr (malformedRowDescription, [])"
proof -
  have "ReadPacket (Marshal malformedRowDescription @ []) Reset
          = Inr (Reset\<lparr>messageType := messageType malformedRowDescription,
                        descriptionBuf := descriptionBuf malformedRowDescription\<rparr>, [])"
    by (rule ReadPacket_Marshal) (simp add: malformedRowDescription_def packetOf_def)
  then show ?thesis
    unfolding Marshal_malformedRowDescription
    by (simp add: malformedRowDescription_def packetOf_def)
qed

theorem malformed_description_is_forwarded_witness:
  "dbIteration quietEnv (itemsProxy\<lparr>dbInput := [0x54, 0, 0, 0, 6, 0xFF, 0xFF]\<rparr>) stateServe =
     Continue (itemsProxy\<lparr>dbInput := [], lastPacketType := RowDescriptionPacket,
                 clientConnection := \<lparr>written = [0x54, 0, 0, 0, 6, 0xFF, 0xFF], faults = []\<rparr>\<rparr>,
               stateServe)"
proof -
  let ?proxy = "itemsProxy\<lparr>dbInput := [0x54, 0, 0, 0, 6, 0xFF, 0xFF]\<rparr>"
  have 1: "ReadPacket (dbInput ?proxy) Reset = Inr (malformedRowDescription, [])"
    by (simp add: ReadPacket_malformedRowDescription)
  have t: "IsRowDescription malformedRowDescription"
    by (simp add: IsRowDescription_def malformedRowDescription_def packetOf_def)
  then have 2: "(IsRowDescription malformedRowDescription
        \<and> GetRowDescriptionData quietEnv malformedRowDescription = Inl (OtherError ''no row description''))
      \<or> (IsParameterDescription malformedRowDescription
        \<and> GetParameterDescriptionData quietEnv malformedRowDescription
            = Inl (OtherError ''no row description''))"
    by (simp add: quietEnv_def)
  have 3: "faults (clientConnection ?proxy) = []"
    by (simp add: itemsProxy_def freshProxy_def)
  from malformed_description_is_forwarded [OF 1 2 3] t
  show ?thesis
    by (simp add: Marshal_malformedRowDescription itemsProxy_def freshProxy_def)
qed

text \<open>
  C5 as the spec states it fails on this input: the malformed RowDescription reaches the
  client byte for byte, and the next state is Serve, not SkipResponse.
\<close>

theorem malformed_description_counterexample:
  "GetRowDescriptionData quietEnv malformedRowDescription = Inl (OtherError ''no row description'')
   \<and> QueryDataItems (the (clientSession itemsProxy)) = Some [None]
   \<and> written (clientConnection (fst (stepState
        (dbIteration quietEnv (itemsProxy\<lparr>dbInput := [0x54, 0, 0, 0, 6, 0xFF, 0xFF]\<rparr>) stateServe))))
       = [0x54, 0, 0, 0, 6, 0xFF, 0xFF]
   \<and> snd (stepState
        (dbIteration quietEnv (itemsProxy\<lparr>dbInput := [0x54, 0, 0, 0, 6, 0xFF, 0xFF]\<rparr>) stateServe))
       = stateServe
   \<and> dbIteration quietEnv (itemsProxy\<lparr>dbInput := [0x54, 0, 0, 0, 6, 0xFF, 0xFF]\<rparr>) stateServe
       \<noteq> Continue (itemsProxy\<lparr>dbInput := [], lastPacketType := RowDescriptionPacket,
              clientConnection := \<lparr>written = fst (NewPgError ''no row description'') @ ReadyForQuery,
                                    faults = []\<rparr>\<rparr>, stateSkipResponse)"
proof -
  have hd: "handleDatabasePacket quietEnv P malformedRowDescription
              = (None, P\<lparr>lastPacketType := RowDescriptionPacket\<rparr>, malformedRowDescription)" for P
    by (simp add: handleDatabasePacket_def HandleDatabasePacket_RowDescription
        handleRowDescription_parse_error IsRowDescription_def malformedRowDescription_def
        packetOf_def quietEnv_def)
  have "dbIteration quietEnv (itemsProxy\<lparr>dbInput := [0x54, 0, 0, 0, 6, 0xFF, 0xFF]\<rparr>) stateServe =
     Continue (itemsProxy\<lparr>dbInput := [], lastPacketType := RowDescriptionPacket,
                 clientConnection := \<lparr>written = [0x54, 0, 0, 0, 6, 0xFF, 0xFF], faults = []\<rparr>\<rparr>,
               stateServe)"
    by (simp add: dbIteration_def ReadPacket_malformedRowDescription hd sendPacket_no_faults
        Marshal_malformedRowDescription itemsProxy_def freshProxy_def)
  then show ?thesis
    by (simp add: quietEnv_def itemsProxy_def freshProxy_def)
qed

subsection \<open>Serve, SkipResponse and back\<close>

lemma handleDatabasePacket_ReadyForQuery:
  "IsReadyForQuery packet \<Longrightarrow>
     handleDatabasePacket env proxy packet =
       (None,
        proxy\<lparr>lastPacketType := ReadyForQueryPacket,
              pendingQueryPackets := RemoveNextPendingPacket (pendingQueryPackets proxy),
              clientSession := DeletePlaceholderSettingsFromClientSession (clientSession proxy)\<rparr>,
        packet)"
  by (simp add: handleDatabasePacket_def HandleDatabasePacket_ReadyForQuery)

lemma dbIteration_Skip_discard:
  assumes "ReadPacket (dbInput proxy) Reset = Inr (packet, rest)"
    and "\<not> IsReadyForQuery packet"
  shows "dbIteration env proxy stateSkipResponse = Continue (proxy\<lparr>dbInput := rest\<rparr>, stateSkipResponse)"
  using assms by (simp add: dbIteration_def Let_def)

lemma dbIteration_Skip_ReadyForQuery:
  assumes "ReadPacket (dbInput proxy) Reset = Inr (packet, rest)"
    and "IsReadyForQuery packet"
  shows "dbIteration env proxy stateSkipResponse =
           Continue (proxy\<lparr>dbInput := rest, lastPacketType := ReadyForQueryPacket,
                       pendingQueryPackets := RemoveNextPendingPacket (pendingQueryPackets proxy),
                       clientSession := DeletePlaceholderSettingsFromClientSession (clientSession proxy)\<rparr>,
                     stateServe)"
  using assms by (simp add: dbIteration_def Let_def handleDatabasePacket_ReadyForQuery)

lemma IsReadyForQuery_read:
  "IsReadyForQuery (Reset\<lparr>messageType := messageType p, descriptionBuf := d\<rparr>) = IsReadyForQuery p"
  by (simp add: IsReadyForQuery_def)

lemma skip_until_ReadyForQuery:
  assumes "\<forall>p\<in>set ps. \<not> IsReadyForQuery p \<and> length (descriptionBuf p) + 4 < 2 ^ 32"
    and "IsReadyForQuery z" and "length (descriptionBuf z) + 4 < 2 ^ 32"
    and "dbInput proxy = concat (map Marshal ps) @ Marshal z @ rest"
  shows "ProxyDatabaseConnection env (Suc (length ps)) proxy stateSkipResponse =
           Continue (proxy\<lparr>dbInput := rest, lastPacketType := ReadyForQueryPacket,
                       pendingQueryPackets := RemoveNextPendingPacket (pendingQueryPackets proxy),
                       clientSession := DeletePlaceholderSettingsFromClientSession (clientSession proxy)\<rparr>,
                     stateServe)"
  using assms(1,4)
proof (induction ps arbitrary: proxy)
  case Nil
  then have "ReadPacket (dbInput proxy) Reset
      = Inr (Reset\<lparr>messageType := messageType z, descriptionBuf := descriptionBuf z\<rparr>, rest)"
    by (simp add: ReadPacket_Marshal [OF assms(3)])
  from dbIteration_Skip_ReadyForQuery [OF this] assms(2)
  show ?case by (simp add: IsReadyForQuery_read)
next
  case (Cons p ps)
  let ?more = "concat (map Marshal ps) @ Marshal z @ rest"
  from Cons.prems have p: "\<not> IsReadyForQuery p" "length (descriptionBuf p) + 4 < 2 ^ 32"
    and ps: "\<forall>p\<in>set ps. \<not> IsReadyForQuery p \<and> length (descriptionBuf p) + 4 < 2 ^ 32"
    by simp_all
  from Cons.prems(2) have "dbInput proxy = Marshal p @ ?more"
    by simp
  then have rd: "ReadPacket (dbInput proxy) Reset
      = Inr (Reset\<lparr>messageType := messageType p, descriptionBuf := descriptionBuf p\<rparr>, ?more)"
    by (simp add: ReadPacket_Marshal [OF p(2)])
  have step: "dbIteration env proxy stateSkipResponse
      = Continue (proxy\<lparr>dbInput := ?more\<rparr>, stateSkipResponse)"
    using dbIteration_Skip_discard [OF rd] p(1) by (simp add: IsReadyForQuery_read)
  have "ProxyDatabaseConnection env (Suc (length ps)) (proxy\<lparr>dbInput := ?more\<rparr>) stateSkipResponse =
           Continue ((proxy\<lparr>dbInput := ?more\<rparr>)\<lparr>dbInput := rest, lastPacketType := ReadyForQueryPacket,
                       pendingQueryPackets := RemoveNextPendingPacket
                         (pendingQueryPackets (proxy\<lparr>dbInput := ?more\<rparr>)),
                       clientSession := DeletePlaceholderSettingsFromClientSession
                         (clientSession (proxy\<lparr>dbInput := ?more\<rparr>))\<rparr>,
                     stateServe)"
    by (rule Cons.IH [OF ps]) simp
  with step show ?case by simp
qed

text \<open>
  C4. In state Serve, a packet whose handling returns an \<open>EncodingError\<close> is not
  forwarded: when the network does not fail the writes, the client receives the
  ErrorResponse with the error's message and ReadyForQuery, and the next state is
  SkipResponse. From SkipResponse, the packets that the database sends before its
  ReadyForQuery are read and dropped, the ReadyForQuery is handled by
  \<open>handleDatabasePacket\<close> (the head of the queue is released and the placeholder
  settings are cleared), nothing of all this reaches the client, and the machine is back
  in Serve in front of whatever follows.
\<close>

theorem EncodingError_then_skip_until_ReadyForQuery:
  "(ReadPacket (dbInput proxyS) Reset = Inr (packet, restS)
      \<and> handleDatabasePacket env (proxyS\<lparr>dbInput := restS\<rparr>) packet
           = (Some (EncodingError msg), proxy1, packet1)
      \<and> faults (clientConnection proxy1) = []
      \<longrightarrow> dbIteration env proxyS stateServe =
            Continue (proxy1\<lparr>clientConnection := (clientConnection proxy1)
                         \<lparr>written := written (clientConnection proxy1)
                                      @ fst (NewPgError msg) @ ReadyForQuery\<rparr>\<rparr>,
                      stateSkipResponse))
   \<and> ((\<forall>p\<in>set ps. \<not> IsReadyForQuery p \<and> length (descriptionBuf p) + 4 < 2 ^ 32)
        \<and> IsReadyForQuery z \<and> length (descriptionBuf z) + 4 < 2 ^ 32
        \<and> dbInput proxy = concat (map Marshal ps) @ Marshal z @ rest
      \<longrightarrow> ProxyDatabaseConnection env (Suc (length ps)) proxy stateSkipResponse =
            Continue (proxy\<lparr>dbInput := rest, lastPacketType := ReadyForQueryPacket,
                        pendingQueryPackets := RemoveNextPendingPacket (pendingQueryPackets proxy),
                        clientSession := DeletePlaceholderSettingsFromClientSession (clientSession proxy)\<rparr>,
                      stateServe)
          \<and> (\<forall>n\<le>length ps. \<exists>proxy'.
                ProxyDatabaseConnection env n proxy stateSkipResponse
                  = Continue (proxy', stateSkipResponse)
                \<and> clientConnection proxy' = clientConnection proxy))"
proof (intro conjI impI)
  assume a: "ReadPacket (dbInput proxyS) Reset = Inr (packet, restS)
      \<and> handleDatabasePacket env (proxyS\<lparr>dbInput := restS\<rparr>) packet
           = (Some (EncodingError msg), proxy1, packet1)
      \<and> faults (clientConnection proxy1) = []"
  then have "dbIteration env proxyS stateServe =
           (case sendClientError (clientConnection proxy1) msg of
              (Some err, client1) \<Rightarrow>
                Return (proxy1\<lparr>clientConnection := client1,
                                errCh := errCh proxy1 @ [DBProxyError (Some err)]\<rparr>, stateServe)
            | (None, client1) \<Rightarrow>
                Continue (proxy1\<lparr>clientConnection := client1\<rparr>, stateSkipResponse))"
    by (intro dbIteration_Serve_EncodingError) blast+
  with a show "dbIteration env proxyS stateServe =
            Continue (proxy1\<lparr>clientConnection := (clientConnection proxy1)
                         \<lparr>written := written (clientConnection proxy1)
                                      @ fst (NewPgError msg) @ ReadyForQuery\<rparr>\<rparr>,
                      stateSkipResponse)"
    by (simp add: sendClientError_no_faults)
next
  assume b: "(\<forall>p\<in>set ps. \<not> IsReadyForQuery p \<and> length (descriptionBuf p) + 4 < 2 ^ 32)
        \<and> IsReadyForQuery z \<and> length (descriptionBuf z) + 4 < 2 ^ 32
        \<and> dbInput proxy = concat (map Marshal ps) @ Marshal z @ rest"
  then show "ProxyDatabaseConnection env (Suc (length ps)) proxy stateSkipResponse =
            Continue (proxy\<lparr>dbInput := rest, lastPacketType := ReadyForQueryPacket,
                        pendingQueryPackets := RemoveNextPendingPacket (pendingQueryPackets proxy),
                        clientSession := DeletePlaceholderSettingsFromClientSession (clientSession proxy)\<rparr>,
                      stateServe)"
    by (intro skip_until_ReadyForQuery) blast+
next
  assume b: "(\<forall>p\<in>set ps. \<not> IsReadyForQuery p \<and> length (descriptionBuf p) + 4 < 2 ^ 32)
        \<and> IsReadyForQuery z \<and> length (descriptionBuf z) + 4 < 2 ^ 32
        \<and> dbInput proxy = concat (map Marshal ps) @ Marshal z @ rest"
  have skip: "\<exists>proxy'. ProxyDatabaseConnection env n proxy stateSkipResponse
                  = Continue (proxy', stateSkipResponse)
                \<and> clientConnection proxy' = clientConnection proxy"
    if "n \<le> length ps" "\<forall>p\<in>set ps. \<not> IsReadyForQuery p \<and> length (descriptionBuf p) + 4 < 2 ^ 32"
      "dbInput proxy = concat (map Marshal ps) @ more" for n ps proxy more
    using that
  proof (induction n arbitrary: ps proxy)
    case 0
    then show ?case by simp
  next
    case (Suc n)
    then obtain p ps' where ps: "ps = p # ps'"
      by (cases ps) auto
    let ?more = "concat (map Marshal ps') @ more"
    from Suc.prems ps have p: "\<not> IsReadyForQuery p" "length (descriptionBuf p) + 4 < 2 ^ 32"
      by simp_all
    from Suc.prems(3) ps have "dbInput proxy = Marshal p @ ?more"
      by simp
    then have rd: "ReadPacket (dbInput proxy) Reset
        = Inr (Reset\<lparr>messageType := messageType p, descriptionBuf := descriptionBuf p\<rparr>, ?more)"
      by (simp add: ReadPacket_Marshal [OF p(2)])
    have step: "dbIteration env proxy stateSkipResponse
        = Continue (proxy\<lparr>dbInput := ?more\<rparr>, stateSkipResponse)"
      using dbIteration_Skip_discard [OF rd] p(1) by (simp add: IsReadyForQuery_read)
    from Suc.IH [of ps' "proxy\<lparr>dbInput := ?more\<rparr>"] Suc.prems ps
    obtain proxy' where "ProxyDatabaseConnection env n (proxy\<lparr>dbInput := ?more\<rparr>) stateSkipResponse
                  = Continue (proxy', stateSkipResponse)"
      and "clientConnection proxy' = clientConnection proxy"
      by auto
    with step show ?case by simp
  qed
  from b show "\<forall>n\<le>length ps. \<exists>proxy'.
                ProxyDatabaseConnection env n proxy stateSkipResponse
                  = Continue (proxy', stateSkipResponse)
                \<and> clientConnection proxy' = clientConnection proxy"
    by (intro allI impI skip [where more = "Marshal z @ rest"]) auto
qed

theorem EncodingError_then_skip_until_ReadyForQuery_witness:
  "dbIteration brokenRowEnv
     (freshProxy\<lparr>dbInput := Marshal (packetOf CHR ''D'' [0, 1, 0, 0, 0, 9])
                               @ Marshal (packetOf CHR ''C'' (bytes_of ''SELECT 1'' @ [0]))
                               @ Marshal (packetOf CHR ''Z'' [0x49]),
                 pendingQueryPackets := [newQueryPacket ''SELECT 1'']\<rparr>) stateServe
   = Continue
       (freshProxy\<lparr>dbInput := Marshal (packetOf CHR ''C'' (bytes_of ''SELECT 1'' @ [0]))
                                 @ Marshal (packetOf CHR ''Z'' [0x49]),
                   lastPacketType := DataPacket,
                   pendingQueryPackets := [newQueryPacket ''SELECT 1''],
                   clientConnection :=
                     \<lparr>written = fst (NewPgError ''invalid column length'') @ ReadyForQuery,
                      faults = []\<rparr>\<rparr>, stateSkipResponse)
   \<and> ProxyDatabaseConnection brokenRowEnv (Suc (Suc 0))
       (freshProxy\<lparr>dbInput := Marshal (packetOf CHR ''C'' (bytes_of ''SELECT 1'' @ [0]))
                                 @ Marshal (packetOf CHR ''Z'' [0x49]),
                   lastPacketType := DataPacket,
                   pendingQueryPackets := [newQueryPacket ''SELECT 1''],
                   clientConnection :=
                     \<lparr>written = fst (NewPgError ''invalid column length'') @ ReadyForQuery,
                      faults = []\<rparr>\<rparr>) stateSkipResponse
     = Continue
         (freshProxy\<lparr>dbInput := [],
                     lastPacketType := ReadyForQueryPacket,
                     pendingQueryPackets := [],
                     clientConnection :=
                       \<lparr>written = fst (NewPgError ''invalid column length'') @ ReadyForQuery,
                        faults = []\<rparr>\<rparr>, stateServe)"
proof -
  let ?env = brokenRowEnv
  let ?d = "packetOf CHR ''D'' [0, 1, 0, 0, 0, 9]"
  let ?c = "packetOf CHR ''C'' (bytes_of ''SELECT 1'' @ [0])"
  let ?z = "packetOf CHR ''Z'' [0x49]"
  let ?more = "Marshal ?c @ Marshal ?z"
  let ?start = "freshProxy\<lparr>dbInput := Marshal ?d @ ?more,
                             pendingQueryPackets := [newQueryPacket ''SELECT 1'']\<rparr>"
  let ?skipping = "freshProxy\<lparr>dbInput := ?more,
                   lastPacketType := DataPacket,
                   pendingQueryPackets := [newQueryPacket ''SELECT 1''],
                   clientConnection :=
                     \<lparr>written = fst (NewPgError ''invalid column length'') @ ReadyForQuery,
                      faults = []\<rparr>\<rparr>"
  have "ReadPacket (Marshal ?d @ ?more) Reset
          = Inr (Reset\<lparr>messageType := messageType ?d, descriptionBuf := descriptionBuf ?d\<rparr>, ?more)"
    by (rule ReadPacket_Marshal) (simp add: packetOf_def)
  then have rd: "ReadPacket (dbInput ?start) Reset = Inr (?d, ?more)"
    by (simp add: packetOf_def)
  have hq: "handleDatabasePacket ?env P ?d
              = (Some (EncodingError ''invalid column length''),
                 P\<lparr>lastPacketType := DataPacket\<rparr>, ?d)"
    if "pendingQueryPackets P = [newQueryPacket q]" for P q
    using that
    by (simp add: handleDatabasePacket_def HandleDatabasePacket_DataRow IsDataRow_def packetOf_def
        handleQueryDataPacket_def GetPendingPacket_def newQueryPacket_fields brokenRowEnv_def)
  have first: "ReadPacket (dbInput ?start) Reset = Inr (?d, ?more)
      \<and> handleDatabasePacket ?env (?start\<lparr>dbInput := ?more\<rparr>) ?d
           = (Some (EncodingError ''invalid column length''),
              (?start\<lparr>dbInput := ?more\<rparr>)\<lparr>lastPacketType := DataPacket\<rparr>, ?d)
      \<and> faults (clientConnection ((?start\<lparr>dbInput := ?more\<rparr>)\<lparr>lastPacketType := DataPacket\<rparr>)) = []"
    using rd by (simp add: hq freshProxy_def)
  have second: "(\<forall>p\<in>set [?c]. \<not> IsReadyForQuery p \<and> length (descriptionBuf p) + 4 < 2 ^ 32)
        \<and> IsReadyForQuery ?z \<and> length (descriptionBuf ?z) + 4 < 2 ^ 32
        \<and> dbInput ?skipping = concat (map Marshal [?c]) @ Marshal ?z @ []"
    by (simp add: IsReadyForQuery_def packetOf_def bytes_of_def)
  from EncodingError_then_skip_until_ReadyForQuery
         [where proxyS = ?start and env = ?env, THEN conjunct1, rule_format, OF first]
  have one: "dbIteration ?env ?start stateServe = Continue (?skipping, stateSkipResponse)"
    by (simp add: freshProxy_def)
  from EncodingError_then_skip_until_ReadyForQuery
         [where proxy = ?skipping and env = ?env and ps = "[?c]", THEN conjunct2, rule_format,
          OF second, THEN conjunct1]
  have two: "ProxyDatabaseConnection ?env (Suc (Suc 0)) ?skipping stateSkipResponse
     = Continue
         (freshProxy\<lparr>dbInput := [],
                     lastPacketType := ReadyForQueryPacket,
                     pendingQueryPackets := [],
                     clientConnection :=
                       \<lparr>written = fst (NewPgError ''invalid column length'') @ ReadyForQuery,
                        faults = []\<rparr>\<rparr>, stateServe)"
    by (simp add: freshProxy_def RemoveNextPendingPacket_def
        DeletePlaceholderSettingsFromClientSession_def)
  from one two show ?thesis by simp
qed

subsection \<open>The first packet and the TLS upgrade\<close>

lemma stopProxyClientConnection_result:
  "stopProxyClientConnection env proxy =
     (if setDeadlineNow env \<noteq> None then (setDeadlineNow env, proxy\<lparr>stopClient := True\<rparr>)
      else if \<not> stopConfirmed env then (Some ErrCantStopGoroutine, proxy\<lparr>stopClient := True\<rparr>)
      else (setDeadlineZero env, proxy\<lparr>stopClient := False\<rparr>))"
  by (auto simp add: stopProxyClientConnection_def Let_def split: option.splits)

lemma stopProxyClientConnection_success:
  "stopProxyClientConnection env proxy = (None, proxy') \<Longrightarrow>
     stopConfirmed env \<and> proxy' = proxy\<lparr>stopClient := False\<rparr>"
  by (auto simp add: stopProxyClientConnection_result split: if_splits)

lemma stopProxyClientConnection_keeps:
  "stopProxyClientConnection env proxy = (e, proxy') \<Longrightarrow>
     clientConnection proxy' = clientConnection proxy \<and> dbConnection proxy' = dbConnection proxy
     \<and> dbInput proxy' = dbInput proxy \<and> errCh proxy' = errCh proxy
     \<and> clientReaders proxy' = clientReaders proxy \<and> clientID proxy' = clientID proxy"
  by (auto simp add: stopProxyClientConnection_result split: if_splits)

lemma stopProxyClientConnection_unconfirmed:
  assumes "\<not> stopConfirmed env" and "stopProxyClientConnection env proxy = (e, proxy')"
  shows "e \<noteq> None"
proof (cases "setDeadlineNow env")
  case None
  with assms have "e = Some ErrCantStopGoroutine"
    by (simp add: stopProxyClientConnection_result)
  then show ?thesis by simp
next
  case (Some a)
  with assms have "e = Some a"
    by (simp add: stopProxyClientConnection_result)
  then show ?thesis by simp
qed

lemma stopConfirmed_bound:
  "stopConfirmed env \<Longrightarrow> \<exists>t. stopResponseAfter env = Some t \<and> t \<le> ClientStopTimeout"
  by (auto simp add: stopConfirmed_def split: option.splits)

lemma handleSSLRequest_unconfirmed:
  assumes "\<not> stopConfirmed env" and "handleSSLRequest env proxy packet = (r, proxy')"
  shows "(\<exists>err. r = Inl err) \<and> clientConnection proxy' = clientConnection proxy
       \<and> dbConnection proxy' = dbConnection proxy \<and> clientID proxy' = clientID proxy
       \<and> dbInput proxy' = dbInput proxy \<and> errCh proxy' = errCh proxy
       \<and> clientReaders proxy' = clientReaders proxy"
proof (cases "TLSConnectionWrapper env")
  case None
  with assms(2) show ?thesis by (auto simp add: handleSSLRequest_def)
next
  case (Some wrapper)
  obtain e proxy1 where st: "stopProxyClientConnection env proxy = (e, proxy1)"
    by (metis prod.exhaust)
  from stopProxyClientConnection_unconfirmed [OF assms(1) st]
  obtain err where e: "e = Some err" by auto
  from assms(2) Some st e have "r = Inl err" "proxy' = proxy1"
    by (auto simp add: handleSSLRequest_def)
  with stopProxyClientConnection_keeps [OF st] show ?thesis by auto
qed

lemma handleSSLRequest_keeps:
  assumes "handleSSLRequest env proxy packet = (r, proxy')"
  shows "dbInput proxy' = dbInput proxy \<and> errCh proxy' = errCh proxy
       \<and> clientReaders proxy' = clientReaders proxy"
proof (cases "TLSConnectionWrapper env")
  case None
  with assms show ?thesis by (auto simp add: handleSSLRequest_def)
next
  case (Some wrapper)
  obtain e proxy1 where st: "stopProxyClientConnection env proxy = (e, proxy1)"
    by (metis prod.exhaust)
  note k = stopProxyClientConnection_keeps [OF st]
  from assms Some st k show ?thesis
    by (auto simp add: handleSSLRequest_def Let_def
        split: option.splits sum.splits prod.splits if_splits)
qed

lemma handleSSLRequest_sent:
  assumes "handleSSLRequest env proxy packet = (r, proxy')"
    and "written (clientConnection proxy') \<noteq> written (clientConnection proxy)"
  shows "stopConfirmed env"
proof (rule ccontr)
  assume "\<not> stopConfirmed env"
  from handleSSLRequest_unconfirmed [OF this assms(1)] assms(2) show False by simp
qed

lemma dbIteration_FirstPacket_Allowed:
  assumes "dbInput proxy = of_char CHR ''S'' # rest"
  shows "dbIteration env proxy stateFirstPacket =
     (case handleSSLRequest env (proxy\<lparr>dbInput := rest\<rparr>) (Reset\<lparr>messageType := of_char CHR ''S''\<rparr>) of
        (Inl err, proxy1) \<Rightarrow>
          Return (proxy1\<lparr>errCh := errCh proxy1 @ [DBProxyError (Some err)]\<rparr>, stateServe)
      | (Inr (tlsClientConnection, dbTLSConnection), proxy1) \<Rightarrow>
          Continue (proxy1\<lparr>clientConnection := tlsClientConnection,
                            dbConnection := dbTLSConnection,
                            clientReaders := Suc (clientReaders proxy1),
                            dbInput := dbTLSInput env dbTLSConnection\<rparr>, stateServe))"
  using assms
  by (simp add: dbIteration_def readMessageType_def Let_def IsSSLRequestDeny_def
      IsSSLRequestAllowed_def)

text \<open>
  C9. The TLS upgrade and the stop of the ClientReader. Whenever \<open>handleSSLRequest\<close> has
  written anything to the client, the confirmation of the ClientReader was received, and
  it was sent no later than \<open>ClientStopTimeout\<close> = 2 s after the wait began. When the
  confirmation is not received (it never comes, or comes after the 2 s), the upgrade
  returns an error, nothing has been written to the client, no connection has been
  wrapped, and the iteration that read the byte \<open>S\<close> pushes the error on the error
  channel and returns without restarting the ClientReader.
\<close>

theorem TLS_upgrade_waits_for_ClientReader:
  "(handleSSLRequest env proxy packet = (r, proxy') \<longrightarrow>
      (written (clientConnection proxy') \<noteq> written (clientConnection proxy) \<longrightarrow> stopConfirmed env)
    \<and> (\<not> stopConfirmed env \<longrightarrow>
          (\<exists>err. r = Inl err) \<and> clientConnection proxy' = clientConnection proxy
          \<and> dbConnection proxy' = dbConnection proxy \<and> clientID proxy' = clientID proxy)
    \<and> (\<not> stopConfirmed env \<and> TLSConnectionWrapper env \<noteq> None \<and> setDeadlineNow env = None \<longrightarrow>
          r = Inl ErrCantStopGoroutine))
   \<and> (stopConfirmed env \<longrightarrow> (\<exists>t. stopResponseAfter env = Some t \<and> t \<le> ClientStopTimeout))
   \<and> (stopResponseAfter env = None \<or> (\<exists>t. stopResponseAfter env = Some t \<and> ClientStopTimeout < t)
        \<longrightarrow> \<not> stopConfirmed env)
   \<and> ClientStopTimeout = 2 * 10 ^ 9
   \<and> (dbInput proxyF = of_char CHR ''S'' # rest \<and> \<not> stopConfirmed env \<longrightarrow>
        (\<exists>err p. dbIteration env proxyF stateFirstPacket = Return (p, stateServe)
           \<and> errCh p = errCh proxyF @ [DBProxyError (Some err)]
           \<and> clientConnection p = clientConnection proxyF
           \<and> dbConnection p = dbConnection proxyF
           \<and> clientReaders p = clientReaders proxyF))"
proof (intro conjI impI)
  assume "handleSSLRequest env proxy packet = (r, proxy')"
    and "written (clientConnection proxy') \<noteq> written (clientConnection proxy)"
  then show "stopConfirmed env" by (rule handleSSLRequest_sent)
next
  assume h: "handleSSLRequest env proxy packet = (r, proxy')" and n: "\<not> stopConfirmed env"
  from handleSSLRequest_unconfirmed [OF n h]
  show "\<exists>err. r = Inl err" "clientConnection proxy' = clientConnection proxy"
    "dbConnection proxy' = dbConnection proxy" "clientID proxy' = clientID proxy"
    by blast+
next
  assume "handleSSLRequest env proxy packet = (r, proxy')"
    and "\<not> stopConfirmed env \<and> TLSConnectionWrapper env \<noteq> None \<and> setDeadlineNow env = None"
  then show "r = Inl ErrCantStopGoroutine"
    by (auto simp add: handleSSLRequest_def stopProxyClientConnection_result)
next
  assume "stopConfirmed env"
  then show "\<exists>t. stopResponseAfter env = Some t \<and> t \<le> ClientStopTimeout"
    by (rule stopConfirmed_bound)
next
  assume "stopResponseAfter env = None \<or> (\<exists>t. stopResponseAfter env = Some t \<and> ClientStopTimeout < t)"
  then show "\<not> stopConfirmed env"
    by (auto simp add: stopConfirmed_def)
next
  show "ClientStopTimeout = 2 * 10 ^ 9"
    by (simp add: ClientStopTimeout_def)
next
  assume a: "dbInput proxyF = of_char CHR ''S'' # rest \<and> \<not> stopConfirmed env"
  obtain r1 p1 where h: "handleSSLRequest env (proxyF\<lparr>dbInput := rest\<rparr>)
      (Reset\<lparr>messageType := of_char CHR ''S''\<rparr>) = (r1, p1)"
    by (metis prod.exhaust)
  from a handleSSLRequest_unconfirmed [OF _ h]
  obtain err where r1: "r1 = Inl err" and k: "clientConnection p1 = clientConnection proxyF"
    "dbConnection p1 = dbConnection proxyF" "errCh p1 = errCh proxyF"
    "clientReaders p1 = clientReaders proxyF"
    by auto
  have "dbIteration env proxyF stateFirstPacket =
      Return (p1\<lparr>errCh := errCh p1 @ [DBProxyError (Some err)]\<rparr>, stateServe)"
    using a h r1 by (simp add: dbIteration_FirstPacket_Allowed)
  with k show "\<exists>err p. dbIteration env proxyF stateFirstPacket = Return (p, stateServe)
           \<and> errCh p = errCh proxyF @ [DBProxyError (Some err)]
           \<and> clientConnection p = clientConnection proxyF
           \<and> dbConnection p = dbConnection proxyF
           \<and> clientReaders p = clientReaders proxyF"
    by simp
qed

theorem TLS_upgrade_waits_for_ClientReader_witness:
  "handleSSLRequest lateEnv freshProxy (packetOf CHR ''S'' [])
     = (Inl ErrCantStopGoroutine, freshProxy\<lparr>stopClient := True\<rparr>)
   \<and> \<not> stopConfirmed lateEnv
   \<and> dbIteration lateEnv (freshProxy\<lparr>dbInput := [0x53]\<rparr>) stateFirstPacket
       = Return (freshProxy\<lparr>dbInput := [], stopClient := True,
                            errCh := [DBProxyError (Some ErrCantStopGoroutine)]\<rparr>, stateServe)
   \<and> stopConfirmed tlsEnv
   \<and> handleSSLRequest tlsEnv freshProxy (packetOf CHR ''S'' [])
       = (Inr (\<lparr>written = [], faults = []\<rparr>, \<lparr>written = [], faults = []\<rparr>),
          freshProxy\<lparr>stopClient := False,
                     clientConnection := \<lparr>written = [0x53], faults = []\<rparr>,
                     clientID := Some ''client''\<rparr>)"
proof -
  have late: "\<not> stopConfirmed lateEnv"
    "TLSConnectionWrapper lateEnv \<noteq> None" "setDeadlineNow lateEnv = None"
    by (simp_all add: stopConfirmed_def lateEnv_def tlsEnv_def quietEnv_def ClientStopTimeout_def)
  have run: "handleSSLRequest lateEnv P packet = (Inl ErrCantStopGoroutine, P\<lparr>stopClient := True\<rparr>)"
    for P packet
    using late
    by (auto simp add: handleSSLRequest_def stopProxyClientConnection_result)
  have intime: "stopConfirmed tlsEnv"
    by (simp add: stopConfirmed_def tlsEnv_def quietEnv_def ClientStopTimeout_def)
  have up: "handleSSLRequest tlsEnv freshProxy (packetOf CHR ''S'' [])
       = (Inr (\<lparr>written = [], faults = []\<rparr>, \<lparr>written = [], faults = []\<rparr>),
          freshProxy\<lparr>stopClient := False,
                     clientConnection := \<lparr>written = [0x53], faults = []\<rparr>,
                     clientID := Some ''client''\<rparr>)"
    using intime
    by (simp add: handleSSLRequest_def stopProxyClientConnection_result sendMessageType_no_faults
        Let_def tlsEnv_def quietEnv_def freshProxy_def packetOf_def)
  have it: "dbIteration lateEnv (freshProxy\<lparr>dbInput := [0x53]\<rparr>) stateFirstPacket
       = Return (freshProxy\<lparr>dbInput := [], stopClient := True,
                            errCh := [DBProxyError (Some ErrCantStopGoroutine)]\<rparr>, stateServe)"
    by (simp add: dbIteration_def readMessageType_def Let_def IsSSLRequestDeny_def
        IsSSLRequestAllowed_def run freshProxy_def)
  from TLS_upgrade_waits_for_ClientReader
         [where env = lateEnv and proxy = freshProxy and packet = "packetOf CHR ''S'' []"
            and r = "Inl ErrCantStopGoroutine" and proxy' = "freshProxy\<lparr>stopClient := True\<rparr>"]
       run late
  have "Inl ErrCantStopGoroutine = (Inl ErrCantStopGoroutine :: error + (conn \<times> conn))
      \<and> clientConnection (freshProxy\<lparr>stopClient := True\<rparr>) = clientConnection freshProxy"
    by blast
  with run late(1) it intime up show ?thesis by simp
qed

lemma dbIteration_FirstPacket_Deny:
  assumes "dbInput proxy = of_char CHR ''N'' # rest"
  shows "dbIteration env proxy stateFirstPacket =
     (case stopProxyClientConnection env (proxy\<lparr>dbInput := rest\<rparr>) of
        (Some err, proxy1) \<Rightarrow>
          Return (proxy1\<lparr>errCh := errCh proxy1 @ [DBProxyError (Some err)]\<rparr>, stateServe)
      | (None, proxy1) \<Rightarrow>
          (case sendMessageType (clientConnection proxy1) (Reset\<lparr>messageType := of_char CHR ''N''\<rparr>) of
             (Some err, client1) \<Rightarrow>
               Return (proxy1\<lparr>clientReaders := Suc (clientReaders proxy1),
                               clientConnection := client1,
                               errCh := errCh proxy1 @ [DBProxyError (Some err)]\<rparr>, stateServe)
           | (None, client1) \<Rightarrow>
               Continue (proxy1\<lparr>clientReaders := Suc (clientReaders proxy1),
                                 clientConnection := client1\<rparr>, stateServe)))"
  using assms
  by (simp add: dbIteration_def readMessageType_def Let_def IsSSLRequestDeny_def
      split: prod.splits option.splits)

lemma handleSSLRequest_success:
  assumes "handleSSLRequest env proxy packet = (Inr (tlsClientConnection, dbTLSConnection), proxy')"
  shows "stopConfirmed env \<and> setDeadlineNow env = None \<and> \<not> stopClient proxy'
       \<and> dbInput proxy' = dbInput proxy \<and> clientReaders proxy' = clientReaders proxy"
proof (cases "TLSConnectionWrapper env")
  case None
  with assms show ?thesis by (simp add: handleSSLRequest_def)
next
  case (Some wrapper)
  obtain e proxy1 where st: "stopProxyClientConnection env proxy = (e, proxy1)"
    by (metis prod.exhaust)
  from assms Some st have e: "e = None"
    by (cases e) (auto simp add: handleSSLRequest_def)
  from st e have c: "stopConfirmed env" "setDeadlineNow env = None"
    and p1: "proxy1 = proxy\<lparr>stopClient := False\<rparr>"
    by (auto simp add: stopProxyClientConnection_result split: if_splits)
  from assms Some st e p1 have "\<not> stopClient proxy' \<and> dbInput proxy' = dbInput proxy
      \<and> clientReaders proxy' = clientReaders proxy"
    by (auto simp add: handleSSLRequest_def Let_def
        split: option.splits sum.splits prod.splits if_splits)
  with c show ?thesis by simp
qed

text \<open>
  C8. The first packet. With the byte \<open>b\<close> at the head of what the database has sent,
  the iteration in state FirstPacket consumes that byte alone before it branches.

  \<^item> On \<open>S\<close> the iteration is the TLS upgrade of \<open>handleSSLRequest\<close>: with a TLS wrapper,
    a confirmed stop of the ClientReader and working handshakes, the byte is sent to the
    client, both connections are replaced by the wrapped ones, the ClientReader is
    started again, and the next reads take what comes over the wrapped database
    connection (what followed the byte on the old reader is dropped).
  \<^item> On \<open>N\<close> the ClientReader is stopped first: with a confirmed stop it is started again
    and the byte is forwarded, nothing beyond the byte having been read.
  \<^item> On \<open>S\<close> (with a TLS wrapper) and on \<open>N\<close>, when the stop of the ClientReader is not
    confirmed the iteration returns with \<open>ErrCantStopGoroutine\<close> on the error channel:
    the byte is not forwarded, no ClientReader is started, and \<open>stopClient\<close> stays set.
  \<^item> A ClientReader whose read fails while \<open>stopClient\<close> is set resets the flag, sends its
    confirmation and returns: this is the pause that the stop waits for.
  \<^item> On any other byte the rest of a framed packet is read and the packet, with that byte
    as its type, is forwarded.
  \<^item> Every iteration that goes on does so in state Serve; on \<open>S\<close> and \<open>N\<close> it goes on only
    after a confirmed stop, with \<open>stopClient\<close> reset and one more ClientReader started.
\<close>

theorem FirstPacket_branches:
  assumes "dbInput proxy = b # rest"
  shows
   "(b = of_char CHR ''S'' \<longrightarrow>
       dbIteration env proxy stateFirstPacket =
         (case handleSSLRequest env (proxy\<lparr>dbInput := rest\<rparr>) (Reset\<lparr>messageType := b\<rparr>) of
            (Inl err, proxy1) \<Rightarrow>
              Return (proxy1\<lparr>errCh := errCh proxy1 @ [DBProxyError (Some err)]\<rparr>, stateServe)
          | (Inr (tlsClientConnection, dbTLSConnection), proxy1) \<Rightarrow>
              Continue (proxy1\<lparr>clientConnection := tlsClientConnection,
                                dbConnection := dbTLSConnection,
                                clientReaders := Suc (clientReaders proxy1),
                                dbInput := dbTLSInput env dbTLSConnection\<rparr>, stateServe)))
  \<and> (b = of_char CHR ''S'' \<and> TLSConnectionWrapper env = Some wrapper
       \<and> setDeadlineNow env = None \<and> stopConfirmed env \<and> setDeadlineZero env = None
       \<and> faults (clientConnection proxy) = []
       \<and> WrapClientConnection wrapper
            ((clientConnection proxy)\<lparr>written := written (clientConnection proxy) @ [b]\<rparr>)
           = Inr (tlsClientConnection, newClientID)
       \<and> WrapDBConnection wrapper (dbConnection proxy) = Inr dbTLSConnection
      \<longrightarrow> dbIteration env proxy stateFirstPacket =
            Continue (proxy\<lparr>dbInput := dbTLSInput env dbTLSConnection, stopClient := False,
                        clientConnection := tlsClientConnection,
                        dbConnection := dbTLSConnection,
                        clientReaders := Suc (clientReaders proxy),
                        clientID := (if UseConnectionClientID wrapper then Some newClientID
                                     else clientID proxy)\<rparr>, stateServe))
  \<and> (b = of_char CHR ''N''
       \<and> setDeadlineNow env = None \<and> stopConfirmed env \<and> setDeadlineZero env = None
       \<and> faults (clientConnection proxy) = []
      \<longrightarrow> dbIteration env proxy stateFirstPacket =
            Continue (proxy\<lparr>dbInput := rest, stopClient := False,
                        clientReaders := Suc (clientReaders proxy),
                        clientConnection := (clientConnection proxy)
                          \<lparr>written := written (clientConnection proxy) @ [b]\<rparr>\<rparr>, stateServe))
  \<and> ((b = of_char CHR ''N'' \<or> b = of_char CHR ''S'' \<and> TLSConnectionWrapper env \<noteq> None)
       \<and> setDeadlineNow env = None \<and> \<not> stopConfirmed env
      \<longrightarrow> dbIteration env proxy stateFirstPacket =
            Return (proxy\<lparr>dbInput := rest, stopClient := True,
                      errCh := errCh proxy @ [DBProxyError (Some ErrCantStopGoroutine)]\<rparr>,
                    stateServe))
  \<and> clientIteration env (proxyC\<lparr>stopClient := True\<rparr>) (Inl readError) =
       Return (proxyC\<lparr>stopClient := False,
                      ClientStopResponse := ClientStopResponse proxyC @ [True]\<rparr>)
  \<and> (b \<noteq> of_char CHR ''S'' \<and> b \<noteq> of_char CHR ''N''
       \<and> rest = put_uint32 (of_nat (length payload + 4)) @ payload @ rest'
       \<and> length payload + 4 < 2 ^ 32
       \<and> faults (clientConnection proxy) = []
      \<longrightarrow> dbIteration env proxy stateFirstPacket =
            Continue (proxy\<lparr>dbInput := rest',
                        clientConnection := (clientConnection proxy)
                          \<lparr>written := written (clientConnection proxy)
                             @ [b] @ put_uint32 (of_nat (length payload + 4)) @ payload\<rparr>\<rparr>,
                      stateServe))
  \<and> (\<forall>p s. dbIteration env proxy stateFirstPacket = Continue (p, s) \<longrightarrow>
        s = stateServe
        \<and> (b = of_char CHR ''N'' \<longrightarrow> dbInput p = rest)
        \<and> (b = of_char CHR ''S'' \<longrightarrow> dbInput p = dbTLSInput env (dbConnection p))
        \<and> (b = of_char CHR ''S'' \<or> b = of_char CHR ''N'' \<longrightarrow>
             stopConfirmed env \<and> setDeadlineNow env = None \<and> \<not> stopClient p
             \<and> clientReaders p = Suc (clientReaders proxy)))"
proof (intro conjI impI allI)
  assume "b = of_char CHR ''S''"
  with assms show "dbIteration env proxy stateFirstPacket =
         (case handleSSLRequest env (proxy\<lparr>dbInput := rest\<rparr>) (Reset\<lparr>messageType := b\<rparr>) of
            (Inl err, proxy1) \<Rightarrow>
              Return (proxy1\<lparr>errCh := errCh proxy1 @ [DBProxyError (Some err)]\<rparr>, stateServe)
          | (Inr (tlsClientConnection, dbTLSConnection), proxy1) \<Rightarrow>
              Continue (proxy1\<lparr>clientConnection := tlsClientConnection,
                                dbConnection := dbTLSConnection,
                                clientReaders := Suc (clientReaders proxy1),
                                dbInput := dbTLSInput env dbTLSConnection\<rparr>, stateServe))"
    by (simp add: dbIteration_FirstPacket_Allowed)
next
  assume a: "b = of_char CHR ''S'' \<and> TLSConnectionWrapper env = Some wrapper
       \<and> setDeadlineNow env = None \<and> stopConfirmed env \<and> setDeadlineZero env = None
       \<and> faults (clientConnection proxy) = []
       \<and> WrapClientConnection wrapper
            ((clientConnection proxy)\<lparr>written := written (clientConnection proxy) @ [b]\<rparr>)
           = Inr (tlsClientConnection, newClientID)
       \<and> WrapDBConnection wrapper (dbConnection proxy) = Inr dbTLSConnection"
  then have b: "b = 0x53" and w: "TLSConnectionWrapper env = Some wrapper"
    and st: "setDeadlineNow env = None" "stopConfirmed env" "setDeadlineZero env = None"
    and nf: "faults (clientConnection proxy) = []"
    and wc: "WrapClientConnection wrapper
              ((clientConnection proxy)\<lparr>written := written (clientConnection proxy) @ [0x53]\<rparr>)
             = Inr (tlsClientConnection, newClientID)"
    and wd: "WrapDBConnection wrapper (dbConnection proxy) = Inr dbTLSConnection"
    by auto
  have "handleSSLRequest env (proxy\<lparr>dbInput := rest\<rparr>) (Reset\<lparr>messageType := 0x53\<rparr>) =
      (Inr (tlsClientConnection, dbTLSConnection),
       proxy\<lparr>dbInput := rest, stopClient := False,
             clientConnection := (clientConnection proxy)
               \<lparr>written := written (clientConnection proxy) @ [0x53]\<rparr>,
             clientID := (if UseConnectionClientID wrapper then Some newClientID
                          else clientID proxy)\<rparr>)"
    by (simp add: handleSSLRequest_def stopProxyClientConnection_result
        sendMessageType_no_faults Let_def w st nf wc wd)
  with assms show "dbIteration env proxy stateFirstPacket =
            Continue (proxy\<lparr>dbInput := dbTLSInput env dbTLSConnection, stopClient := False,
                        clientConnection := tlsClientConnection,
                        dbConnection := dbTLSConnection,
                        clientReaders := Suc (clientReaders proxy),
                        clientID := (if UseConnectionClientID wrapper then Some newClientID
                                     else clientID proxy)\<rparr>, stateServe)"
    by (simp add: dbIteration_def readMessageType_def Let_def IsSSLRequestDeny_def
        IsSSLRequestAllowed_def b)
next
  assume a: "b = of_char CHR ''N''
       \<and> setDeadlineNow env = None \<and> stopConfirmed env \<and> setDeadlineZero env = None
       \<and> faults (clientConnection proxy) = []"
  with assms show "dbIteration env proxy stateFirstPacket =
            Continue (proxy\<lparr>dbInput := rest, stopClient := False,
                        clientReaders := Suc (clientReaders proxy),
                        clientConnection := (clientConnection proxy)
                          \<lparr>written := written (clientConnection proxy) @ [b]\<rparr>\<rparr>, stateServe)"
    by (simp add: dbIteration_def readMessageType_def Let_def IsSSLRequestDeny_def
        stopProxyClientConnection_result sendMessageType_no_faults)
next
  assume a: "(b = of_char CHR ''N'' \<or> b = of_char CHR ''S'' \<and> TLSConnectionWrapper env \<noteq> None)
       \<and> setDeadlineNow env = None \<and> \<not> stopConfirmed env"
  then have st: "setDeadlineNow env = None" "\<not> stopConfirmed env" by simp_all
  from a consider (deny) "b = of_char CHR ''N''"
    | (allowed) wrapper where "b = of_char CHR ''S''" "TLSConnectionWrapper env = Some wrapper"
    by auto
  then show "dbIteration env proxy stateFirstPacket =
            Return (proxy\<lparr>dbInput := rest, stopClient := True,
                      errCh := errCh proxy @ [DBProxyError (Some ErrCantStopGoroutine)]\<rparr>,
                    stateServe)"
  proof cases
    case deny
    with assms st show ?thesis
      by (simp add: dbIteration_FirstPacket_Deny stopProxyClientConnection_result)
  next
    case allowed
    with assms st show ?thesis
      by (simp add: dbIteration_FirstPacket_Allowed handleSSLRequest_def
          stopProxyClientConnection_result)
  qed
next
  show "clientIteration env (proxyC\<lparr>stopClient := True\<rparr>) (Inl readError) =
       Return (proxyC\<lparr>stopClient := False,
                      ClientStopResponse := ClientStopResponse proxyC @ [True]\<rparr>)"
    by (simp add: clientIteration_def)
next
  assume a: "b \<noteq> of_char CHR ''S'' \<and> b \<noteq> of_char CHR ''N''
       \<and> rest = put_uint32 (of_nat (length payload + 4)) @ payload @ rest'
       \<and> length payload + 4 < 2 ^ 32
       \<and> faults (clientConnection proxy) = []"
  then have neq: "b \<noteq> 0x53" "b \<noteq> 0x4E"
    and rest: "rest = put_uint32 (of_nat (length payload + 4)) @ payload @ rest'"
    and len: "length payload + 4 < 2 ^ 32"
    and nf: "faults (clientConnection proxy) = []"
    by auto
  have rd: "readData rest (Reset\<lparr>messageType := b\<rparr>)
      = Inr (Reset\<lparr>messageType := b, descriptionBuf := payload\<rparr>, rest')"
    unfolding rest by (rule readData_frame [OF len])
  from assms neq nf show "dbIteration env proxy stateFirstPacket =
            Continue (proxy\<lparr>dbInput := rest',
                        clientConnection := (clientConnection proxy)
                          \<lparr>written := written (clientConnection proxy)
                             @ [b] @ put_uint32 (of_nat (length payload + 4)) @ payload\<rparr>\<rparr>,
                      stateServe)"
    by (simp add: dbIteration_def readMessageType_def Let_def IsSSLRequestDeny_def
        IsSSLRequestAllowed_def rd sendPacket_no_faults Marshal_def)
next
  fix p s
  assume c: "dbIteration env proxy stateFirstPacket = Continue (p, s)"
  obtain r1 p1 where h: "handleSSLRequest env (proxy\<lparr>dbInput := rest\<rparr>) (Reset\<lparr>messageType := b\<rparr>)
      = (r1, p1)"
    by (metis prod.exhaust)
  obtain e2 p2 where st: "stopProxyClientConnection env (proxy\<lparr>dbInput := rest\<rparr>) = (e2, p2)"
    by (metis prod.exhaust)
  note k1 = handleSSLRequest_keeps [OF h] and k2 = stopProxyClientConnection_keeps [OF st]
  from c assms h st k1 k2
  show "s = stateServe"
    by (auto simp add: dbIteration_def readMessageType_def Let_def
        split: if_splits sum.splits prod.splits option.splits)
  {
    assume n: "b = of_char CHR ''N''"
    from c assms n st have e2: "e2 = None"
      by (cases e2) (auto simp add: dbIteration_FirstPacket_Deny)
    from stopProxyClientConnection_success [OF st [unfolded e2]]
    have sc: "stopConfirmed env" and p2: "p2 = proxy\<lparr>dbInput := rest, stopClient := False\<rparr>"
      by simp_all
    from st e2 have dn: "setDeadlineNow env = None"
      by (auto simp add: stopProxyClientConnection_result split: if_splits)
    from c assms n st e2 p2
    have "dbInput p = rest \<and> \<not> stopClient p \<and> clientReaders p = Suc (clientReaders proxy)"
      by (auto simp add: dbIteration_FirstPacket_Deny split: prod.splits option.splits)
    with sc dn have "dbInput p = rest" "stopConfirmed env \<and> setDeadlineNow env = None
        \<and> \<not> stopClient p \<and> clientReaders p = Suc (clientReaders proxy)"
      by simp_all
  }
  note deny = this
  {
    assume a: "b = of_char CHR ''S''"
    from c assms a h obtain tc td where r1: "r1 = Inr (tc, td)"
      and p: "p = p1\<lparr>clientConnection := tc, dbConnection := td,
                     clientReaders := Suc (clientReaders p1),
                     dbInput := dbTLSInput env td\<rparr>"
      by (cases r1) (auto simp add: dbIteration_FirstPacket_Allowed)
    from handleSSLRequest_success [OF h [unfolded r1]] p
    have "dbInput p = dbTLSInput env (dbConnection p)" "stopConfirmed env \<and> setDeadlineNow env = None
        \<and> \<not> stopClient p \<and> clientReaders p = Suc (clientReaders proxy)"
      by simp_all
  }
  note allowed = this
  from deny(1) show "b = of_char CHR ''N'' \<Longrightarrow> dbInput p = rest" .
  from allowed(1) show "b = of_char CHR ''S'' \<Longrightarrow> dbInput p = dbTLSInput env (dbConnection p)" .
  assume "b = of_char CHR ''S'' \<or> b = of_char CHR ''N''"
  with deny(2) allowed(2)
  have all: "stopConfirmed env \<and> setDeadlineNow env = None
        \<and> \<not> stopClient p \<and> clientReaders p = Suc (clientReaders proxy)"
    by blast
  from all show "stopConfirmed env" by simp
  from all show "setDeadlineNow env = None" by simp
  from all show "\<not> stopClient p" by simp
  from all show "clientReaders p = Suc (clientReaders proxy)" by simp
qed

theorem FirstPacket_branches_witness:
  "dbIteration tlsReplyEnv (freshProxy\<lparr>dbInput := [0x53, 0x45, 0]\<rparr>) stateFirstPacket
     = Continue (freshProxy\<lparr>dbInput := [0x52, 0, 0, 0, 8, 0, 0, 0, 0], stopClient := False,
                   clientConnection := \<lparr>written = [], faults = []\<rparr>,
                   dbConnection := \<lparr>written = [], faults = []\<rparr>,
                   clientReaders := Suc 0,
                   clientID := Some ''client''\<rparr>, stateServe)
   \<and> dbIteration quietEnv (freshProxy\<lparr>dbInput := [0x4E]\<rparr>) stateFirstPacket
     = Continue (freshProxy\<lparr>dbInput := [], stopClient := False,
                   clientReaders := Suc 0,
                   clientConnection := \<lparr>written = [0x4E], faults = []\<rparr>\<rparr>, stateServe)
   \<and> \<not> stopConfirmed lateEnv
   \<and> dbIteration lateEnv (freshProxy\<lparr>dbInput := [0x4E]\<rparr>) stateFirstPacket
     = Return (freshProxy\<lparr>dbInput := [], stopClient := True,
                 errCh := [DBProxyError (Some ErrCantStopGoroutine)]\<rparr>, stateServe)
   \<and> dbIteration quietEnv (freshProxy\<lparr>dbInput := [0x45, 0, 0, 0, 5, 0, 0x5A]\<rparr>) stateFirstPacket
     = Continue (freshProxy\<lparr>dbInput := [0x5A],
                   clientConnection := \<lparr>written = [0x45, 0, 0, 0, 5, 0], faults = []\<rparr>\<rparr>,
                 stateServe)"
proof -
  have fp: "clientConnection freshProxy = \<lparr>written = [], faults = []\<rparr>"
    "dbConnection freshProxy = \<lparr>written = [], faults = []\<rparr>"
    "clientReaders freshProxy = 0" "clientID freshProxy = None"
    by (simp_all add: freshProxy_def)
  have s: "dbInput (freshProxy\<lparr>dbInput := [0x53, 0x45, 0]\<rparr>) = 0x53 # [0x45, 0]"
    and n: "dbInput (freshProxy\<lparr>dbInput := [0x4E]\<rparr>) = 0x4E # []"
    and e: "dbInput (freshProxy\<lparr>dbInput := [0x45, 0, 0, 0, 5, 0, 0x5A]\<rparr>) = 0x45 # [0, 0, 0, 5, 0, 0x5A]"
    by simp_all
  let ?wrapper = "\<lparr>WrapClientConnection = (\<lambda>c. Inr (\<lparr>written = [], faults = []\<rparr>, ''client'')),
             UseConnectionClientID = True,
             WrapDBConnection = (\<lambda>c. Inr \<lparr>written = [], faults = []\<rparr>)\<rparr>"
  have hs: "0x53 = (of_char CHR ''S'' :: byte) \<and> TLSConnectionWrapper tlsReplyEnv = Some ?wrapper
       \<and> setDeadlineNow tlsReplyEnv = None \<and> stopConfirmed tlsReplyEnv
       \<and> setDeadlineZero tlsReplyEnv = None
       \<and> faults (clientConnection (freshProxy\<lparr>dbInput := [0x53, 0x45, 0]\<rparr>)) = []
       \<and> WrapClientConnection ?wrapper
            ((clientConnection (freshProxy\<lparr>dbInput := [0x53, 0x45, 0]\<rparr>))
               \<lparr>written := written (clientConnection (freshProxy\<lparr>dbInput := [0x53, 0x45, 0]\<rparr>))
                   @ [0x53]\<rparr>)
           = Inr (\<lparr>written = [], faults = []\<rparr>, ''client'')
       \<and> WrapDBConnection ?wrapper (dbConnection (freshProxy\<lparr>dbInput := [0x53, 0x45, 0]\<rparr>))
           = Inr \<lparr>written = [], faults = []\<rparr>"
    by (simp add: tlsReplyEnv_def tlsEnv_def quietEnv_def stopConfirmed_def ClientStopTimeout_def fp)
  have reply: "dbTLSInput tlsReplyEnv = (\<lambda>c. [0x52, 0, 0, 0, 8, 0, 0, 0, 0])"
    by (simp add: tlsReplyEnv_def)
  have hn: "0x4E = (of_char CHR ''N'' :: byte)
       \<and> setDeadlineNow quietEnv = None \<and> stopConfirmed quietEnv \<and> setDeadlineZero quietEnv = None
       \<and> faults (clientConnection (freshProxy\<lparr>dbInput := [0x4E]\<rparr>)) = []"
    by (simp add: quietEnv_def stopConfirmed_def ClientStopTimeout_def fp)
  have late: "\<not> stopConfirmed lateEnv"
    by (simp add: stopConfirmed_def lateEnv_def tlsEnv_def quietEnv_def ClientStopTimeout_def)
  have hl: "(0x4E = (of_char CHR ''N'' :: byte)
         \<or> 0x4E = (of_char CHR ''S'' :: byte) \<and> TLSConnectionWrapper lateEnv \<noteq> None)
       \<and> setDeadlineNow lateEnv = None \<and> \<not> stopConfirmed lateEnv"
    using late by (simp add: lateEnv_def tlsEnv_def quietEnv_def)
  have he: "0x45 \<noteq> (of_char CHR ''S'' :: byte) \<and> 0x45 \<noteq> (of_char CHR ''N'' :: byte)
       \<and> [0, 0, 0, 5, 0, 0x5A] = put_uint32 (of_nat (length [0 :: byte] + 4)) @ [0] @ [0x5A]
       \<and> length [0 :: byte] + 4 < 2 ^ 32
       \<and> faults (clientConnection (freshProxy\<lparr>dbInput := [0x45, 0, 0, 0, 5, 0, 0x5A]\<rparr>)) = []"
    by (simp add: put_uint32_def fp)
  note S = FirstPacket_branches [OF s, where env = tlsReplyEnv, THEN conjunct2, THEN conjunct1,
             rule_format, OF hs]
  note N = FirstPacket_branches [OF n, where env = quietEnv, THEN conjunct2, THEN conjunct2,
             THEN conjunct1, rule_format, OF hn]
  note L = FirstPacket_branches [OF n, where env = lateEnv, THEN conjunct2, THEN conjunct2,
             THEN conjunct2, THEN conjunct1, rule_format, OF hl]
  note E = FirstPacket_branches [OF e, where env = quietEnv, THEN conjunct2, THEN conjunct2,
             THEN conjunct2, THEN conjunct2, THEN conjunct2, THEN conjunct1, rule_format, OF he]
  from S N L E late reply show ?thesis
    by (simp add: freshProxy_def put_uint32_def)
qed

subsection \<open>DataRows without columns and NULL columns\<close>

text \<open>
  C7. The columns the loop must not touch. A DataRow in which \<open>parseColumns\<close> finds no
  column makes \<open>handleQueryDataPacket\<close> return nil at once, with the packet as the
  parser left it and no call of the observer; the iteration in state Serve then forwards
  it, so that the client receives the bytes that were read whenever the parser has left
  type and payload alone. In the loop, whatever its outcome, every column that was NULL
  (wire length -1) is afterwards exactly as it was, and every call of the
  column-decryption observer that the loop makes is for a column that is not NULL, with
  that column's bytes.
\<close>

theorem DataRow_null_and_empty_untouched:
  "(GetPendingPacket (pendingQueryPackets proxy) = Inr pending
      \<and> ((executePacket pending = None \<and> formats = [TextFormat])
         \<or> (executePacket pending \<noteq> None \<and> bindPacket pending = Some b
              \<and> GetResultFormats env b = Inr formats))
      \<and> parseColumns env packet formats = Inr packet1 \<and> columnCount packet1 = 0
      \<longrightarrow> handleQueryDataPacket env proxy packet = (None, proxy, packet1)
        \<and> (ReadPacket (dbInput proxy) Reset = Inr (packet, rest) \<and> IsDataRow packet
             \<and> Marshal packet1 = Marshal packet \<and> faults (clientConnection proxy) = []
            \<longrightarrow> dbIteration env proxy stateServe =
                  Continue (proxy\<lparr>dbInput := rest, lastPacketType := DataPacket,
                              clientConnection := (clientConnection proxy)
                                \<lparr>written := written (clientConnection proxy) @ Marshal packet\<rparr>\<rparr>,
                            stateServe)))
   \<and> (columnsLoop env bindP es 0 proxy packet = (r, proxy', packet') \<longrightarrow>
        length (Columns packet') = length (Columns packet)
        \<and> (\<forall>j<length (Columns packet). IsNull (Columns packet ! j) \<longrightarrow>
              Columns packet' ! j = Columns packet ! j)
        \<and> (\<exists>calls. decrypted proxy' = decrypted proxy @ calls
              \<and> (\<forall>(j, d)\<in>set calls. j < length (Columns packet)
                    \<and> \<not> IsNull (Columns packet ! j) \<and> d = GetData (Columns packet ! j))))"
proof (intro conjI impI)
  assume a: "GetPendingPacket (pendingQueryPackets proxy) = Inr pending
      \<and> ((executePacket pending = None \<and> formats = [TextFormat])
         \<or> (executePacket pending \<noteq> None \<and> bindPacket pending = Some b
              \<and> GetResultFormats env b = Inr formats))
      \<and> parseColumns env packet formats = Inr packet1 \<and> columnCount packet1 = 0"
  then show "handleQueryDataPacket env proxy packet = (None, proxy, packet1)"
    by (intro handleQueryDataPacket_no_columns) blast+
  assume f: "ReadPacket (dbInput proxy) Reset = Inr (packet, rest) \<and> IsDataRow packet
             \<and> Marshal packet1 = Marshal packet \<and> faults (clientConnection proxy) = []"
  let ?proxy1 = "proxy\<lparr>dbInput := rest, lastPacketType := DataPacket\<rparr>"
  have "handleQueryDataPacket env ?proxy1 packet = (None, ?proxy1, packet1)"
    using a by (intro handleQueryDataPacket_no_columns [where pending = pending]) auto
  with f have "handleDatabasePacket env (proxy\<lparr>dbInput := rest\<rparr>) packet = (None, ?proxy1, packet1)"
    by (simp add: handleDatabasePacket_def HandleDatabasePacket_DataRow)
  from dbIteration_Serve_forward [OF _ this] f
  show "dbIteration env proxy stateServe =
                  Continue (proxy\<lparr>dbInput := rest, lastPacketType := DataPacket,
                              clientConnection := (clientConnection proxy)
                                \<lparr>written := written (clientConnection proxy) @ Marshal packet\<rparr>\<rparr>,
                            stateServe)"
    by (simp add: sendPacket_no_faults)
next
  assume run: "columnsLoop env bindP es 0 proxy packet = (r, proxy', packet')"
  note inv = columnsLoop_invariant [OF run]
  from inv show "length (Columns packet') = length (Columns packet)"
    by blast
  from inv show "\<forall>j<length (Columns packet). IsNull (Columns packet ! j) \<longrightarrow>
              Columns packet' ! j = Columns packet ! j"
    by blast
  from inv obtain calls where "decrypted proxy' = decrypted proxy @ calls"
    and "\<forall>(j, d)\<in>set calls. 0 \<le> j \<and> j < columnCount packet \<and> j < length (Columns packet)
               \<and> \<not> IsNull (Columns packet ! j) \<and> d = GetData (Columns packet ! j)"
    by blast
  then show "\<exists>calls. decrypted proxy' = decrypted proxy @ calls
              \<and> (\<forall>(j, d)\<in>set calls. j < length (Columns packet)
                    \<and> \<not> IsNull (Columns packet ! j) \<and> d = GetData (Columns packet ! j))"
    by (intro exI [of _ calls]) auto
qed

theorem DataRow_null_and_empty_untouched_witness:
  "columnsLoop doublingEnv None None 0 freshProxy dataRowNullB =
     (None, freshProxy\<lparr>decrypted := [(1, [0x62])]\<rparr>,
      dataRowNullB\<lparr>Columns := [nullColumn, SetData columnB [0x62, 0x62]]\<rparr>)
   \<and> IsNull nullColumn \<and> \<not> IsNull columnB
   \<and> dbIteration quietEnv
        (freshProxy\<lparr>dbInput := [0x44, 0, 0, 0, 6, 0, 0],
                    pendingQueryPackets := [newQueryPacket ''SELECT'']\<rparr>) stateServe
      = Continue (freshProxy\<lparr>dbInput := [], lastPacketType := DataPacket,
                    pendingQueryPackets := [newQueryPacket ''SELECT''],
                    clientConnection := \<lparr>written = [0x44, 0, 0, 0, 6, 0, 0], faults = []\<rparr>\<rparr>,
                  stateServe)"
proof -
  let ?empty = "packetOf CHR ''D'' [0, 0]"
  let ?start = "freshProxy\<lparr>dbInput := [0x44, 0, 0, 0, 6, 0, 0],
                    pendingQueryPackets := [newQueryPacket ''SELECT'']\<rparr>"
  have nulls: "IsNull nullColumn" "\<not> IsNull columnB"
    by (simp_all add: IsNull_def nullColumn_def columnB_def)
  have cols: "columnCount dataRowNullB = 2" "Columns dataRowNullB = [nullColumn, columnB]"
    by (simp_all add: dataRowNullB_def)
  have gb: "GetData columnB = [0x62]"
    by (simp add: columnB_def)
  have s0: "columnsLoop doublingEnv None None 0 freshProxy dataRowNullB =
              columnsLoop doublingEnv None None (Suc 0) freshProxy dataRowNullB"
    by (rule columnsLoop_null) (simp_all add: cols nulls)
  have s1: "columnsLoop doublingEnv None None (Suc 0) freshProxy dataRowNullB =
              columnsLoop doublingEnv None None (Suc (Suc 0))
                (freshProxy\<lparr>decrypted := decrypted freshProxy @ [(Suc 0, GetData (Columns dataRowNullB ! Suc 0))]\<rparr>)
                (dataRowNullB\<lparr>Columns := (Columns dataRowNullB)
                   [Suc 0 := SetData (Columns dataRowNullB ! Suc 0) [0x62, 0x62]]\<rparr>)"
    by (rule columnsLoop_step)
       (simp_all add: cols nulls doublingEnv_def quietEnv_def gb)
  have run: "columnsLoop doublingEnv None None 0 freshProxy dataRowNullB =
     (None, freshProxy\<lparr>decrypted := [(1, [0x62])]\<rparr>,
      dataRowNullB\<lparr>Columns := [nullColumn, SetData columnB [0x62, 0x62]]\<rparr>)"
    unfolding s0 s1
    by (subst columnsLoop_done) (simp_all add: cols freshProxy_def gb)
  have m: "Marshal ?empty = [0x44, 0, 0, 0, 6, 0, 0]"
    by (simp add: Marshal_def packetOf_def Reset_def put_uint32_def)
  have "ReadPacket (Marshal ?empty @ []) Reset
          = Inr (Reset\<lparr>messageType := messageType ?empty, descriptionBuf := descriptionBuf ?empty\<rparr>, [])"
    by (rule ReadPacket_Marshal) (simp add: packetOf_def)
  then have rd: "ReadPacket [0x44, 0, 0, 0, 6, 0, 0] Reset = Inr (?empty, [])"
    unfolding m by (simp add: packetOf_def)
  have pend: "GetPendingPacket (pendingQueryPackets ?start) = Inr (newQueryPacket ''SELECT'')
      \<and> ((executePacket (newQueryPacket ''SELECT'') = None \<and> [TextFormat] = [TextFormat])
         \<or> (executePacket (newQueryPacket ''SELECT'') \<noteq> None
              \<and> bindPacket (newQueryPacket ''SELECT'') = Some undefined
              \<and> GetResultFormats quietEnv undefined = Inr [TextFormat]))
      \<and> parseColumns quietEnv ?empty [TextFormat] = Inr ?empty
      \<and> columnCount ?empty = 0"
    by (simp add: GetPendingPacket_def newQueryPacket_fields quietEnv_def packetOf_def Reset_def)
  have fwd: "ReadPacket (dbInput ?start) Reset = Inr (?empty, []) \<and> IsDataRow ?empty
             \<and> Marshal ?empty = Marshal ?empty \<and> faults (clientConnection ?start) = []"
    using rd by (simp add: IsDataRow_def packetOf_def freshProxy_def)
  from DataRow_null_and_empty_untouched
         [where proxy = ?start and pending = "newQueryPacket ''SELECT''" and formats = "[TextFormat]"
            and env = quietEnv and packet = ?empty and ?packet1.0 = ?empty and b = undefined
            and rest = "[]", THEN conjunct1, rule_format, OF pend, THEN conjunct2, rule_format,
          OF fwd]
  have empty: "dbIteration quietEnv ?start stateServe
      = Continue (freshProxy\<lparr>dbInput := [], lastPacketType := DataPacket,
                    pendingQueryPackets := [newQueryPacket ''SELECT''],
                    clientConnection := \<lparr>written = [0x44, 0, 0, 0, 6, 0, 0], faults = []\<rparr>\<rparr>,
                  stateServe)"
    by (simp add: m freshProxy_def)
  from DataRow_null_and_empty_untouched
    [where env = doublingEnv and bindP = None and es = None and proxy = freshProxy
       and packet = dataRowNullB, THEN conjunct2, rule_format, OF run]
  have "\<forall>j<length (Columns dataRowNullB). IsNull (Columns dataRowNullB ! j) \<longrightarrow>
          Columns (dataRowNullB\<lparr>Columns := [nullColumn, SetData columnB [0x62, 0x62]]\<rparr>) ! j
            = Columns dataRowNullB ! j"
    by blast
  with empty run nulls show ?thesis by simp
qed

end
